theory Spec2Isabelle
  imports Main "HOL-Library.Sublist"
begin

section \<open>Python values\<close>

text \<open>
  Values that cross the JSON boundary (token responses, JWT payloads) are Python objects
  produced by \<^verbatim>\<open>json.loads\<close>. A dict is an association list read with \<open>map_of\<close>.
  JSON numbers are integers here; floats are outside the model.
\<close>

datatype json =
    JNull
  | JBool bool
  | JInt int
  | JStr string
  | JArr "json list"
  | JObj "(string \<times> json) list"

text \<open>Python truthiness, as used by \<^verbatim>\<open>if x\<close>, \<^verbatim>\<open>not x\<close>, \<^verbatim>\<open>x or y\<close> and \<^verbatim>\<open>x and y\<close>.\<close>

fun truthy :: "json \<Rightarrow> bool" where
  "truthy JNull = False"
| "truthy (JBool b) = b"
| "truthy (JInt i) = (i \<noteq> 0)"
| "truthy (JStr s) = (s \<noteq> [])"
| "truthy (JArr xs) = (xs \<noteq> [])"
| "truthy (JObj kvs) = (kvs \<noteq> [])"

definition py_or :: "json \<Rightarrow> json \<Rightarrow> json" where
  "py_or a b = (if truthy a then a else b)"

definition py_and :: "json \<Rightarrow> json \<Rightarrow> json" where
  "py_and a b = (if truthy a then b else a)"

text \<open>\<^verbatim>\<open>d.get(k)\<close> and \<^verbatim>\<open>d.get(k, default)\<close> on a dict.\<close>

definition dict_get_default :: "(string \<times> json) list \<Rightarrow> string \<Rightarrow> json \<Rightarrow> json" where
  "dict_get_default d k dflt = (case map_of d k of None \<Rightarrow> dflt | Some v \<Rightarrow> v)"

definition dict_get :: "(string \<times> json) list \<Rightarrow> string \<Rightarrow> json" where
  "dict_get d k = dict_get_default d k JNull"

definition dict_has :: "(string \<times> json) list \<Rightarrow> string \<Rightarrow> bool" where
  "dict_has d k = (map_of d k \<noteq> None)"

section \<open>Time\<close>

text \<open>
  A datetime is a count of microseconds; \<^verbatim>\<open>timedelta\<close> values are differences of such
  counts. The range limits of Python's datetime are not modelled.
\<close>

type_synonym time = int

definition timedelta_seconds :: "int \<Rightarrow> int" where
  "timedelta_seconds n = n * 1000000"

definition timedelta_minutes :: "int \<Rightarrow> int" where
  "timedelta_minutes n = timedelta_seconds (n * 60)"

definition timedelta_hours :: "int \<Rightarrow> int" where
  "timedelta_hours n = timedelta_seconds (n * 3600)"

text \<open>
  The range of Python's datetime, as microseconds from the epoch: year 1 to the last
  microsecond of year 9999. \<^verbatim>\<open>timedelta(seconds=n)\<close> needs its days within 999999999 of
  zero. An addition that leaves the range raises \<^verbatim>\<open>OverflowError\<close>.
\<close>

definition datetime_min :: time where
  "datetime_min = - 62135596800000000"

definition datetime_max :: time where
  "datetime_max = 253402300799999999"

definition timedelta_seconds_ok :: "int \<Rightarrow> bool" where
  "timedelta_seconds_ok n = (- 86399999913600 \<le> n \<and> n \<le> 86399999999999)"

definition datetime_plus_seconds_ok :: "time \<Rightarrow> int \<Rightarrow> bool" where
  "datetime_plus_seconds_ok now n =
     (timedelta_seconds_ok n \<and>
      datetime_min \<le> now + timedelta_seconds n \<and> now + timedelta_seconds n \<le> datetime_max)"

section \<open>app/models/oauth2.py\<close>

text \<open>
  A row of \<^verbatim>\<open>TapisOAuth2Token\<close>. The four text columns keep a string: a value that is
  not one is written as its \<^verbatim>\<open>str()\<close>, and \<^verbatim>\<open>None\<close> is rejected (the columns are NOT NULL).
\<close>

record TapisOAuth2Token =
  tok_user :: nat
  tok_client :: string
  tok_access_token :: json
  tok_refresh_token :: json
  tok_token_type :: json
  tok_scope :: json
  tok_expires_at :: "time option"

text \<open>\<^verbatim>\<open>TapisOAuth2Token.is_expired\<close>: a datetime is always truthy, so \<^verbatim>\<open>not self.expires_at\<close>
  holds exactly for \<^verbatim>\<open>None\<close>.\<close>

definition tok_is_expired :: "time \<Rightarrow> 'a TapisOAuth2Token_scheme \<Rightarrow> bool" where
  "tok_is_expired now t =
     (case tok_expires_at t of None \<Rightarrow> False | Some e \<Rightarrow> now > e)"

text \<open>\<^verbatim>\<open>TapisOAuth2Token.is_valid\<close> returns \<^verbatim>\<open>self.access_token and not self.is_expired\<close>:
  the access token itself when that is falsy, a bool otherwise.\<close>

definition is_valid :: "time \<Rightarrow> 'a TapisOAuth2Token_scheme \<Rightarrow> json" where
  "is_valid now t = py_and (tok_access_token t) (JBool (\<not> tok_is_expired now t))"

record TapisOAuth2State =
  st_id :: nat
  st_state :: string
  st_user :: "nat option"
  st_client :: string
  redirect_after_auth :: string
  st_expires_at :: time

text \<open>\<^verbatim>\<open>TapisOAuth2State.is_expired\<close>.\<close>

definition st_is_expired :: "time \<Rightarrow> 'a TapisOAuth2State_scheme \<Rightarrow> bool" where
  "st_is_expired now s = (now > st_expires_at s)"

section \<open>Exceptions\<close>

text \<open>
  The Python exceptions that the modelled code can raise or catch. Decoding the payload
  segment of a token fails with \<^verbatim>\<open>binascii.Error\<close> (\<open>Base64Error\<close>), \<^verbatim>\<open>UnicodeDecodeError\<close> or
  \<^verbatim>\<open>json.JSONDecodeError\<close>, which the inner handler of the validation names, or with any
  other exception (\<open>OtherError\<close>: the \<^verbatim>\<open>ValueError\<close> for a segment with a non-ASCII character,
  a \<^verbatim>\<open>RecursionError\<close>), which it does not name.
\<close>

datatype decode_error = Base64Error | UnicodeDecodeError | JSONDecodeError | OtherError

datatype exn =
    AttributeError
  | TypeError
  | KeyError
  | ValueError
  | ImportError
  | IntegrityError
  | DoesNotExist
  | MultipleObjectsReturned
  | RequestException
  | OverflowError
  | OtherException

section \<open>Library functions\<close>

text \<open>
  \<^verbatim>\<open>base64.urlsafe_b64decode\<close> on a string, as the standard library computes it (CPython
  3.11): a non-ASCII character raises \<^verbatim>\<open>ValueError\<close>; \<^verbatim>\<open>-\<close> and \<^verbatim>\<open>_\<close> stand for \<^verbatim>\<open>+\<close> and \<^verbatim>\<open>/\<close>;
  the decoder then runs in its default, non-strict mode: a character outside the
  alphabet is discarded, a complete run of padding ends the input, and only leftover
  characters at the end raise \<^verbatim>\<open>binascii.Error\<close>. Bytes are numbers below 256.
\<close>

definition b64_table :: "(char \<times> nat) list" where
  "b64_table = [
      (CHR ''A'', 0), (CHR ''B'', 1), (CHR ''C'', 2), (CHR ''D'', 3), (CHR ''E'', 4), (CHR ''F'', 5),
      (CHR ''G'', 6), (CHR ''H'', 7), (CHR ''I'', 8), (CHR ''J'', 9), (CHR ''K'', 10), (CHR ''L'', 11),
      (CHR ''M'', 12), (CHR ''N'', 13), (CHR ''O'', 14), (CHR ''P'', 15), (CHR ''Q'', 16), (CHR ''R'', 17),
      (CHR ''S'', 18), (CHR ''T'', 19), (CHR ''U'', 20), (CHR ''V'', 21), (CHR ''W'', 22), (CHR ''X'', 23),
      (CHR ''Y'', 24), (CHR ''Z'', 25), (CHR ''a'', 26), (CHR ''b'', 27), (CHR ''c'', 28), (CHR ''d'', 29),
      (CHR ''e'', 30), (CHR ''f'', 31), (CHR ''g'', 32), (CHR ''h'', 33), (CHR ''i'', 34), (CHR ''j'', 35),
      (CHR ''k'', 36), (CHR ''l'', 37), (CHR ''m'', 38), (CHR ''n'', 39), (CHR ''o'', 40), (CHR ''p'', 41),
      (CHR ''q'', 42), (CHR ''r'', 43), (CHR ''s'', 44), (CHR ''t'', 45), (CHR ''u'', 46), (CHR ''v'', 47),
      (CHR ''w'', 48), (CHR ''x'', 49), (CHR ''y'', 50), (CHR ''z'', 51), (CHR ''0'', 52), (CHR ''1'', 53),
      (CHR ''2'', 54), (CHR ''3'', 55), (CHR ''4'', 56), (CHR ''5'', 57), (CHR ''6'', 58), (CHR ''7'', 59),
      (CHR ''8'', 60), (CHR ''9'', 61), (CHR ''+'', 62), (CHR ''-'', 62), (CHR ''/'', 63), (CHR ''_'', 63)]"

definition b64_value :: "char \<Rightarrow> nat option" where
  "b64_value c = map_of b64_table c"

text \<open>Output of one byte in front of the rest of the decoding.\<close>

fun emit :: "nat \<Rightarrow> decode_error + nat list \<Rightarrow> decode_error + nat list" where
  "emit b (Inl e) = Inl e"
| "emit b (Inr bs) = Inr (b # bs)"

text \<open>\<^verbatim>\<open>binascii.a2b_base64\<close>: \<open>quad_pos\<close> counts the alphabet characters of the current
  group of four, \<open>leftchar\<close> holds its pending bits, \<open>pads\<close> the padding characters seen
  since the last alphabet character.\<close>

fun a2b_base64 :: "nat \<Rightarrow> nat \<Rightarrow> nat \<Rightarrow> string \<Rightarrow> decode_error + nat list" where
  "a2b_base64 quad_pos leftchar pads [] = (if quad_pos \<noteq> 0 then Inl Base64Error else Inr [])"
| "a2b_base64 quad_pos leftchar pads (c # cs) =
     (if c = CHR ''=''
      then (if quad_pos \<ge> 2
            then (if quad_pos + (pads + 1) \<ge> 4 then Inr []
                  else a2b_base64 quad_pos leftchar (pads + 1) cs)
            else a2b_base64 quad_pos leftchar pads cs)
      else (case b64_value c of
              None \<Rightarrow> a2b_base64 quad_pos leftchar pads cs
            | Some v \<Rightarrow>
                (if quad_pos = 0 then a2b_base64 1 v 0 cs
                 else if quad_pos = 1 then emit (leftchar * 4 + v div 16) (a2b_base64 2 (v mod 16) 0 cs)
                 else if quad_pos = 2 then emit (leftchar * 16 + v div 4) (a2b_base64 3 (v mod 4) 0 cs)
                 else emit (leftchar * 64 + v) (a2b_base64 0 0 0 cs))))"

definition urlsafe_b64decode :: "string \<Rightarrow> decode_error + nat list" where
  "urlsafe_b64decode s = (if list_ex digit7 s then Inl OtherError else a2b_base64 0 0 0 s)"

text \<open>
  \<^verbatim>\<open>str(x)\<close> for a value that came from JSON, which is also how an f-string formats it
  and what a text column of the database keeps of a value that is not a string:
  \<^verbatim>\<open>repr\<close> of \<^verbatim>\<open>None\<close>, booleans, integers, lists and dicts, with Python's quoting and
  escaping of the strings inside. Strings are over the code points below 256.
\<close>

definition hex_digit :: "nat \<Rightarrow> char" where
  "hex_digit n = ''0123456789abcdef'' ! n"

fun dec_nat :: "nat \<Rightarrow> string" where
  "dec_nat n = (if n < 10 then [hex_digit n] else dec_nat (n div 10) @ [hex_digit (n mod 10)])"

definition dec_int :: "int \<Rightarrow> string" where
  "dec_int i = (if i < 0 then CHR ''-'' # dec_nat (nat (- i)) else dec_nat (nat i))"

definition printable :: "char \<Rightarrow> bool" where
  "printable c =
     (let n = (of_char c :: nat)
      in \<not> (n < 32 \<or> n = 127 \<or> (128 \<le> n \<and> n \<le> 160) \<or> n = 173))"

definition repr_char :: "char \<Rightarrow> char \<Rightarrow> string" where
  "repr_char quote c =
     (if c = quote \<or> c = CHR 0x5C then [CHR 0x5C, c]
      else if c = CHR 0x09 then [CHR 0x5C, CHR ''t'']
      else if c = CHR 0x0A then [CHR 0x5C, CHR ''n'']
      else if c = CHR 0x0D then [CHR 0x5C, CHR ''r'']
      else if \<not> printable c
        then [CHR 0x5C, CHR ''x'', hex_digit ((of_char c :: nat) div 16), hex_digit ((of_char c :: nat) mod 16)]
      else [c])"

definition repr_str :: "string \<Rightarrow> string" where
  "repr_str s =
     (let quote = (if CHR 0x27 \<in> set s \<and> CHR 0x22 \<notin> set s then CHR 0x22 else CHR 0x27)
      in quote # concat (map (repr_char quote) s) @ [quote])"

fun join_comma :: "string list \<Rightarrow> string" where
  "join_comma [] = []"
| "join_comma [x] = x"
| "join_comma (x # y # ys) = x @ '', '' @ join_comma (y # ys)"

fun py_repr :: "json \<Rightarrow> string" where
  "py_repr JNull = ''None''"
| "py_repr (JBool b) = (if b then ''True'' else ''False'')"
| "py_repr (JInt i) = dec_int i"
| "py_repr (JStr s) = repr_str s"
| "py_repr (JArr xs) = ''['' @ join_comma (map py_repr xs) @ '']''"
| "py_repr (JObj kvs) =
     ''{'' @ join_comma (map (\<lambda>kv. repr_str (fst kv) @ '': '' @ py_repr (snd kv)) kvs) @ ''}''"

definition py_str :: "json \<Rightarrow> string" where
  "py_str v = (case v of JStr s \<Rightarrow> s | _ \<Rightarrow> py_repr v)"

text \<open>\<^verbatim>\<open>TextField.to_python\<close> of the host framework, applied when a text column is written:
  a string and \<^verbatim>\<open>None\<close> pass, anything else becomes its \<^verbatim>\<open>str()\<close>.\<close>

definition to_python :: "json \<Rightarrow> json" where
  "to_python v = (case v of JStr s \<Rightarrow> JStr s | JNull \<Rightarrow> JNull | _ \<Rightarrow> JStr (py_repr v))"

text \<open>
  The decoding of a padded payload segment, \<^verbatim>\<open>json.loads(base64.urlsafe_b64decode(s).decode('utf-8'))\<close>:
  \<open>json_loads\<close> stands for the last two library calls, from bytes to the parsed value
  or the error raised.
\<close>

definition library_loads ::
  "(nat list \<Rightarrow> decode_error + json) \<Rightarrow> string \<Rightarrow> decode_error + json" where
  "library_loads json_loads s =
     (case urlsafe_b64decode s of Inl e \<Rightarrow> Inl e | Inr payload_bytes \<Rightarrow> json_loads payload_bytes)"

section \<open>app/auth/tapis\_oauth2.py\<close>

text \<open>\<^verbatim>\<open>s.split(c)\<close> for a one-character separator: the pieces between separators,
  empty pieces kept, never an empty list.\<close>

fun py_split :: "char \<Rightarrow> string \<Rightarrow> string list" where
  "py_split c [] = [[]]"
| "py_split c (x # xs) =
     (if x = c then [] # py_split c xs
      else (case py_split c xs of [] \<Rightarrow> [[x]] | p # ps \<Rightarrow> (x # p) # ps))"

text \<open>Restoring base64 padding to a multiple of four characters.\<close>

definition pad_b64 :: "string \<Rightarrow> string" where
  "pad_b64 payload_b64 =
     (let missing_padding = length payload_b64 mod 4
      in if missing_padding \<noteq> 0
         then payload_b64 @ replicate (4 - missing_padding) (CHR ''='')
         else payload_b64)"

text \<open>\<^verbatim>\<open>webodm.settings\<close>: an attribute may be missing (\<open>None\<close>).\<close>

record settings =
  TAPIS_BASE_URL :: "json option"
  TAPIS_TENANT_ID :: "json option"

text \<open>The \<^verbatim>\<open>user_info\<close> dict built from the JWT claims.\<close>

record user_info =
  ui_username :: json
  ui_tenant_id :: json
  ui_sub :: json
  ui_exp :: json
  ui_iat :: json
  ui_email :: json
  ui_given_name :: json
  ui_family_name :: json
  ui_display_name :: json

text \<open>The username expression
  \<^verbatim>\<open>payload.get('tapis/username') or payload.get('username') or payload.get('sub')\<close>.\<close>

definition username_of :: "(string \<times> json) list \<Rightarrow> json" where
  "username_of payload =
     py_or (py_or (dict_get payload ''tapis/username'') (dict_get payload ''username''))
           (dict_get payload ''sub'')"

text \<open>The tenant expression reads \<^verbatim>\<open>settings.TAPIS_TENANT_ID\<close> only when both claims are
  falsy; a missing attribute raises there.\<close>

definition tenant_id_of :: "settings \<Rightarrow> (string \<times> json) list \<Rightarrow> exn + json" where
  "tenant_id_of cfg payload =
     (let t = py_or (dict_get payload ''tapis/tenant_id'') (dict_get payload ''tenant_id'')
      in if truthy t then Inr t
         else (case TAPIS_TENANT_ID cfg of None \<Rightarrow> Inl AttributeError | Some v \<Rightarrow> Inr v))"

text \<open>\<^verbatim>\<open>exp and current_time > exp\<close>: a falsy \<open>exp\<close> skips the comparison; an integer
  (or \<^verbatim>\<open>True\<close>, which is 1) is compared; any other truthy value raises TypeError.\<close>

definition token_expired :: "int \<Rightarrow> json \<Rightarrow> exn + bool" where
  "token_expired current_time exp =
     (if \<not> truthy exp then Inr False
      else (case exp of
              JInt e \<Rightarrow> Inr (current_time > e)
            | JBool b \<Rightarrow> Inr (current_time > (if b then 1 else 0))
            | _ \<Rightarrow> Inl TypeError))"

text \<open>
  The body of \<^verbatim>\<open>_validate_token_with_tapis\<close> inside its outer \<^verbatim>\<open>try\<close>. The library calls
  \<^verbatim>\<open>base64.urlsafe_b64decode\<close>, \<^verbatim>\<open>bytes.decode('utf-8')\<close> and \<^verbatim>\<open>json.loads\<close> are the parameter
  \<open>b64_json_loads\<close>, which gives the parsed payload or the error one of them raises
  (\<open>library_loads\<close> is the standard library's). The inner \<^verbatim>\<open>except\<close> catches the three
  errors it names and returns \<^verbatim>\<open>None\<close>; any other error, and every \<open>Inl\<close> of the body,
  is an exception that reaches the outer handler.
\<close>

definition validate_payload ::
  "settings \<Rightarrow> int \<Rightarrow> json \<Rightarrow> exn + user_info option" where
  "validate_payload cfg current_time decoded =
     (case decoded of
        JObj payload \<Rightarrow>
          (case tenant_id_of cfg payload of
             Inl e \<Rightarrow> Inl e
           | Inr tenant \<Rightarrow>
               (let info = \<lparr>ui_username = username_of payload,
                            ui_tenant_id = tenant,
                            ui_sub = dict_get payload ''sub'',
                            ui_exp = dict_get payload ''exp'',
                            ui_iat = dict_get payload ''iat'',
                            ui_email = py_or (dict_get payload ''email'') (dict_get payload ''tapis/email''),
                            ui_given_name =
                              py_or (dict_get payload ''given_name'') (dict_get payload ''tapis/given_name''),
                            ui_family_name =
                              py_or (dict_get payload ''family_name'') (dict_get payload ''tapis/family_name''),
                            ui_display_name =
                              py_or (dict_get payload ''display_name'') (dict_get payload ''tapis/display_name'')\<rparr>
                in (case token_expired current_time (dict_get payload ''exp'') of
                      Inl e \<Rightarrow> Inl e
                    | Inr True \<Rightarrow> Inr None
                    | Inr False \<Rightarrow>
                        (if \<not> truthy (ui_username info) then Inr None else Inr (Some info)))))
      | _ \<Rightarrow> Inl AttributeError)"

definition validate_body ::
  "settings \<Rightarrow> (string \<Rightarrow> decode_error + json) \<Rightarrow> int \<Rightarrow> json \<Rightarrow> exn + user_info option" where
  "validate_body cfg b64_json_loads current_time access_token =
     (case access_token of
        JStr tok \<Rightarrow>
          (let token_parts = py_split (CHR ''.'') tok
           in if length token_parts \<noteq> 3 then Inr None
              else (case b64_json_loads (pad_b64 (token_parts ! 1)) of
                      Inl e \<Rightarrow> (if e = OtherError then Inl ValueError else Inr None)
                    | Inr decoded \<Rightarrow> validate_payload cfg current_time decoded))
      | _ \<Rightarrow> Inl AttributeError)"

text \<open>\<^verbatim>\<open>_validate_token_with_tapis\<close>: the outer \<^verbatim>\<open>except Exception\<close> turns every exception
  into \<^verbatim>\<open>None\<close>.\<close>

definition validate_token_with_tapis ::
  "settings \<Rightarrow> (string \<Rightarrow> decode_error + json) \<Rightarrow> int \<Rightarrow> json \<Rightarrow> user_info option" where
  "validate_token_with_tapis cfg b64_json_loads current_time access_token =
     (case validate_body cfg b64_json_loads current_time access_token of
        Inl e \<Rightarrow> None
      | Inr r \<Rightarrow> r)"

text \<open>\<^verbatim>\<open>hasattr(settings, X) and settings.X\<close>, negated.\<close>

definition not_configured :: "json option \<Rightarrow> bool" where
  "not_configured a = (case a of None \<Rightarrow> True | Some v \<Rightarrow> \<not> truthy v)"

text \<open>
  \<^verbatim>\<open>TapisOAuth2Backend.authenticate\<close>. The user table belongs to the host framework:
  \<^verbatim>\<open>_get_or_create_user\<close> is the parameter \<open>get_or_create_user\<close>, giving the user's id,
  \<^verbatim>\<open>None\<close>, or an exception, which \<^verbatim>\<open>authenticate\<close> catches.
\<close>

definition authenticate ::
  "settings \<Rightarrow> (string \<Rightarrow> decode_error + json) \<Rightarrow> int \<Rightarrow>
   (user_info \<Rightarrow> exn + nat option) \<Rightarrow> json \<Rightarrow> nat option" where
  "authenticate cfg b64_json_loads current_time get_or_create_user access_token =
     (if \<not> truthy access_token then None
      else if not_configured (TAPIS_BASE_URL cfg) then None
      else if not_configured (TAPIS_TENANT_ID cfg) then None
      else (case validate_token_with_tapis cfg b64_json_loads current_time access_token of
              None \<Rightarrow> None
            | Some info \<Rightarrow>
                (case get_or_create_user info of Inl e \<Rightarrow> None | Inr u \<Rightarrow> u)))"

section \<open>app/models/tapis\_preferences.py\<close>

record TapisUserPreferences =
  pref_user :: nat
  auto_discover_on_login :: bool
  max_projects_per_discovery :: int
  discovery_cooldown_hours :: int
  notify_on_discovery_complete :: bool
  notify_on_discovery_errors :: bool
  preferred_systems :: string
  last_auto_discovery :: "time option"

text \<open>\<^verbatim>\<open>should_run_auto_discovery\<close>, with the clock reading as a parameter.\<close>

definition should_run_auto_discovery :: "time \<Rightarrow> TapisUserPreferences \<Rightarrow> bool" where
  "should_run_auto_discovery now p =
     (if \<not> auto_discover_on_login p then False
      else (case last_auto_discovery p of
              None \<Rightarrow> True
            | Some l \<Rightarrow>
                (if now - l < timedelta_hours (discovery_cooldown_hours p) then False else True)))"

text \<open>\<^verbatim>\<open>update_last_discovery\<close>: sets the field and saves that field of the user's row.\<close>

definition update_last_discovery ::
  "time \<Rightarrow> TapisUserPreferences \<Rightarrow> TapisUserPreferences list \<Rightarrow> TapisUserPreferences list" where
  "update_last_discovery now p rows =
     map (\<lambda>r. if pref_user r = pref_user p then r\<lparr>last_auto_discovery := Some now\<rparr> else r) rows"

text \<open>\<^verbatim>\<open>get_or_create_for_user\<close>: the user's row, created with the defaults when absent.\<close>

definition default_preferences :: "nat \<Rightarrow> TapisUserPreferences" where
  "default_preferences u =
     \<lparr>pref_user = u, auto_discover_on_login = True, max_projects_per_discovery = 50,
      discovery_cooldown_hours = 24, notify_on_discovery_complete = True,
      notify_on_discovery_errors = True, preferred_systems = [], last_auto_discovery = None\<rparr>"

definition get_or_create_for_user ::
  "nat \<Rightarrow> TapisUserPreferences list \<Rightarrow> exn + (TapisUserPreferences \<times> TapisUserPreferences list)" where
  "get_or_create_for_user u rows =
     (case filter (\<lambda>r. pref_user r = u) rows of
        [] \<Rightarrow> Inr (default_preferences u, rows @ [default_preferences u])
      | [p] \<Rightarrow> Inr (p, rows)
      | _ \<Rightarrow> Inl MultipleObjectsReturned)"

section \<open>app/api/tapis\_oauth2.py\<close>

record TapisOAuth2Client =
  client_id :: string
  client_secret :: string
  tenant_id :: string
  base_url :: string
  authorization_url :: string
  token_url :: string
  callback_url :: string
  client_name :: string
  is_active :: bool

text \<open>The tables the views read and write. Users, sessions and projects of the host
  application are not part of it.\<close>

record db =
  clients :: "TapisOAuth2Client list"
  states :: "TapisOAuth2State list"
  tokens :: "TapisOAuth2Token list"
  preferences :: "TapisUserPreferences list"

text \<open>A view returns a redirect, or a JSON body with a status code.\<close>

datatype response =
    HttpResponseRedirect string
  | JsonResponse "(string \<times> json) list" nat

definition status_code :: "response \<Rightarrow> nat" where
  "status_code r = (case r of HttpResponseRedirect u \<Rightarrow> 302 | JsonResponse b s \<Rightarrow> s)"

text \<open>An outgoing \<^verbatim>\<open>requests.post\<close>: it raises, or gives a status code with a body that
  \<^verbatim>\<open>response.json()\<close> parses (\<open>Some\<close>) or rejects (\<open>None\<close>).\<close>

datatype http_result = HttpRaises | HttpResult nat "json option"

type_synonym http_post =
  "string \<Rightarrow> (string \<times> json) list \<Rightarrow> (string \<times> string) list \<Rightarrow> http_result"

text \<open>\<^verbatim>\<open>get_object_or_404(TapisOAuth2Client, client_id=client_id, is_active=True)\<close>;
  \<open>DoesNotExist\<close> stands for the \<^verbatim>\<open>Http404\<close> it raises.\<close>

definition get_client_or_404 :: "TapisOAuth2Client list \<Rightarrow> string \<Rightarrow> exn + TapisOAuth2Client" where
  "get_client_or_404 cs cid =
     (case filter (\<lambda>c. client_id c = cid \<and> is_active c) cs of
        [] \<Rightarrow> Inl DoesNotExist
      | [c] \<Rightarrow> Inr c
      | _ \<Rightarrow> Inl MultipleObjectsReturned)"

text \<open>The foreign key \<^verbatim>\<open>state_obj.client\<close>: the client row the state refers to.\<close>

definition client_of_state :: "TapisOAuth2Client list \<Rightarrow> string \<Rightarrow> exn + TapisOAuth2Client" where
  "client_of_state cs cid =
     (case filter (\<lambda>c. client_id c = cid) cs of
        [] \<Rightarrow> Inl DoesNotExist
      | c # _ \<Rightarrow> Inr c)"

text \<open>\<^verbatim>\<open>TapisOAuth2State.objects.get(state=state)\<close>.\<close>

definition get_state :: "TapisOAuth2State list \<Rightarrow> string \<Rightarrow> exn + TapisOAuth2State" where
  "get_state rows s =
     (case filter (\<lambda>r. st_state r = s) rows of
        [] \<Rightarrow> Inl DoesNotExist
      | [r] \<Rightarrow> Inr r
      | _ \<Rightarrow> Inl MultipleObjectsReturned)"

text \<open>\<^verbatim>\<open>state_obj.delete()\<close>: by primary key.\<close>

definition delete_state :: "TapisOAuth2State \<Rightarrow> TapisOAuth2State list \<Rightarrow> TapisOAuth2State list" where
  "delete_state obj rows = filter (\<lambda>r. st_id r \<noteq> st_id obj) rows"

definition next_state_id :: "TapisOAuth2State list \<Rightarrow> nat" where
  "next_state_id rows = Suc (fold max (map st_id rows) 0)"

subsection \<open>TapisOAuth2AuthorizeView\<close>

record authorize_request =
  ar_redirect_after :: "string option"
  ar_user :: "nat option"

text \<open>
  \<^verbatim>\<open>TapisOAuth2AuthorizeView.get\<close>. \<open>now\<close> is the reading of \<^verbatim>\<open>timezone.now()\<close>,
  \<open>new_state\<close> the string \<^verbatim>\<open>generate_state()\<close> returns, \<open>urlencode\<close> the library
  function. The \<^verbatim>\<open>state\<close> column is unique: creating a duplicate raises. Every exception
  gives the 500 response.
\<close>

definition authorize_get ::
  "((string \<times> string) list \<Rightarrow> string) \<Rightarrow> time \<Rightarrow> string \<Rightarrow> authorize_request \<Rightarrow> string \<Rightarrow> db
   \<Rightarrow> response \<times> db" where
  "authorize_get urlencode now new_state request cid d =
     (case get_client_or_404 (clients d) cid of
        Inl e \<Rightarrow> (JsonResponse [(''error'', JStr ''Failed to initiate OAuth2 flow'')] 500, d)
      | Inr client \<Rightarrow>
          (let redirect_after = (case ar_redirect_after request of None \<Rightarrow> ''/dashboard/'' | Some r \<Rightarrow> r)
           in if list_ex (\<lambda>r. st_state r = new_state) (states d)
              then (JsonResponse [(''error'', JStr ''Failed to initiate OAuth2 flow'')] 500, d)
              else
                (let state_obj = \<lparr>st_id = next_state_id (states d), st_state = new_state,
                                   st_user = ar_user request, st_client = client_id client,
                                   redirect_after_auth = redirect_after,
                                   st_expires_at = now + timedelta_minutes 10\<rparr>;
                     auth_params = [(''client_id'', client_id client), (''response_type'', ''code''),
                                    (''redirect_uri'', callback_url client), (''state'', new_state),
                                    (''scope'', ''openid profile'')];
                     auth_url = authorization_url client @ ''?'' @ urlencode auth_params
                 in (HttpResponseRedirect auth_url, d\<lparr>states := states d @ [state_obj]\<rparr>))))"

subsection \<open>TapisOAuth2CallbackView\<close>

record callback_request =
  q_code :: "string option"
  q_state :: "string option"
  q_error :: "string option"
  q_error_description :: "string option"

text \<open>Truthiness of a query parameter: present and not empty.\<close>

definition param_truthy :: "string option \<Rightarrow> bool" where
  "param_truthy p = (case p of None \<Rightarrow> False | Some s \<Rightarrow> s \<noteq> [])"

definition param_json :: "string option \<Rightarrow> json" where
  "param_json p = (case p of None \<Rightarrow> JNull | Some s \<Rightarrow> JStr s)"

text \<open>\<^verbatim>\<open>_exchange_code_for_tokens\<close>: the unwrapped \<^verbatim>\<open>result\<close> of the envelope, or \<^verbatim>\<open>None\<close>
  (\<open>JNull\<close>).\<close>

definition exchange_code_for_tokens :: "http_post \<Rightarrow> TapisOAuth2Client \<Rightarrow> string \<Rightarrow> json" where
  "exchange_code_for_tokens post client code =
     (let token_data = [(''grant_type'', JStr ''authorization_code''),
                        (''client_id'', JStr (client_id client)),
                        (''client_secret'', JStr (client_secret client)),
                        (''code'', JStr code),
                        (''redirect_uri'', JStr (callback_url client))];
          headers = [(''Content-Type'', ''application/x-www-form-urlencoded''),
                     (''X-Tapis-Tenant'', tenant_id client),
                     (''Accept'', ''application/json'')]
      in (case post (token_url client) token_data headers of
            HttpRaises \<Rightarrow> JNull
          | HttpResult status body \<Rightarrow>
              (if status = 200
               then (case body of
                       Some (JObj token_response) \<Rightarrow>
                         (if dict_get token_response ''status'' = JStr ''success'' \<and>
                             dict_has token_response ''result''
                          then dict_get token_response ''result''
                          else JNull)
                     | _ \<Rightarrow> JNull)
               else JNull)))"

text \<open>
  The extraction of the JWT from the token data (lines 118 to 128): a nested dict with
  its own \<^verbatim>\<open>access_token\<close>, or a plain string; anything else is the 500 response
  \<open>Inl (Some ...)\<close>. The log line then slices \<^verbatim>\<open>jwt_token[:50]\<close>, which raises for a value
  that is neither a string nor a list (\<open>Inl None\<close>: the generic handler; for a dict
  the exception is a TypeError up to Python 3.11, as modelled, and a KeyError from 3.12
  on, which the view answers with its other 500 body).
\<close>

definition extract_jwt :: "(string \<times> json) list \<Rightarrow> response option + json" where
  "extract_jwt token_data =
     (let access_token_data = dict_get token_data ''access_token'';
          found = (case access_token_data of
                     JObj nested \<Rightarrow>
                       (if dict_has nested ''access_token'' then Some (dict_get nested ''access_token'')
                        else None)
                   | JStr s \<Rightarrow> Some (JStr s)
                   | _ \<Rightarrow> None)
      in (case found of
            None \<Rightarrow>
              Inl (Some (JsonResponse
                [(''error'', JStr ''Invalid access token structure in Tapis response'')] 500))
          | Some jwt_token \<Rightarrow>
              (case jwt_token of
                 JStr s \<Rightarrow> Inr jwt_token
               | JArr xs \<Rightarrow> Inr jwt_token
               | _ \<Rightarrow> Inl None)))"

text \<open>Python's \<^verbatim>\<open>int(x)\<close>; on a string it is the library's parser, the parameter
  \<open>int_of_str\<close>.\<close>

definition py_int :: "(string \<Rightarrow> int option) \<Rightarrow> json \<Rightarrow> exn + int" where
  "py_int int_of_str v =
     (case v of
        JInt n \<Rightarrow> Inr n
      | JBool b \<Rightarrow> Inr (if b then 1 else 0)
      | JStr s \<Rightarrow> (case int_of_str s of None \<Rightarrow> Inl ValueError | Some n \<Rightarrow> Inr n)
      | _ \<Rightarrow> Inl TypeError)"

text \<open>The expiry computed from \<^verbatim>\<open>expires_in\<close>, in both the callback and the refresh view:
  \<^verbatim>\<open>timezone.now() + timedelta(seconds=int(expires_in))\<close> when \<^verbatim>\<open>expires_in\<close> is truthy.\<close>

definition expiry_of :: "(string \<Rightarrow> int option) \<Rightarrow> time \<Rightarrow> json \<Rightarrow> exn + time option" where
  "expiry_of int_of_str now expires_in =
     (if truthy expires_in
      then (case py_int int_of_str expires_in of
              Inl e \<Rightarrow> Inl e
            | Inr n \<Rightarrow>
                (if datetime_plus_seconds_ok now n then Inr (Some (now + timedelta_seconds n))
                 else Inl OverflowError))
      else Inr None)"

text \<open>Saving a token row: the four text columns are NOT NULL. The framework does not
  check the \<^verbatim>\<open>max_length\<close> of \<^verbatim>\<open>token_type\<close> when it saves; whether a longer value is
  refused is up to the database, and a property that says a row is written is stated
  for values within it.\<close>

definition token_saveable :: "TapisOAuth2Token \<Rightarrow> bool" where
  "token_saveable t =
     (tok_access_token t \<noteq> JNull \<and> tok_refresh_token t \<noteq> JNull \<and>
      tok_token_type t \<noteq> JNull \<and> tok_scope t \<noteq> JNull)"

text \<open>\<^verbatim>\<open>TapisOAuth2Token.objects.update_or_create(user=, client=, defaults=)\<close>.\<close>

definition update_or_create_token ::
  "nat \<Rightarrow> string \<Rightarrow> TapisOAuth2Token \<Rightarrow> TapisOAuth2Token list \<Rightarrow> exn + TapisOAuth2Token list" where
  "update_or_create_token u cid new rows =
     (case filter (\<lambda>r. tok_user r = u \<and> tok_client r = cid) rows of
        [] \<Rightarrow> (if token_saveable new then Inr (rows @ [new]) else Inl IntegrityError)
      | [old] \<Rightarrow>
          (if token_saveable new
           then Inr (map (\<lambda>r. if tok_user r = u \<and> tok_client r = cid then new else r) rows)
           else Inl IntegrityError)
      | _ \<Rightarrow> Inl MultipleObjectsReturned)"

text \<open>The body of \<^verbatim>\<open>_store_user_tokens\<close> inside its \<^verbatim>\<open>try\<close>, and the method, which logs
  an exception and leaves the table as it was. The row holds each value as its text
  column keeps it (\<open>to_python\<close>).\<close>

definition store_user_tokens_body ::
  "(string \<Rightarrow> int option) \<Rightarrow> time \<Rightarrow> nat \<Rightarrow> TapisOAuth2Client \<Rightarrow> (string \<times> json) list \<Rightarrow>
   TapisOAuth2Token list \<Rightarrow> exn + TapisOAuth2Token list" where
  "store_user_tokens_body int_of_str now u client token_data rows =
     (case expiry_of int_of_str now (dict_get token_data ''expires_in'') of
        Inl e \<Rightarrow> Inl e
      | Inr expires_at \<Rightarrow>
          update_or_create_token u (client_id client)
            \<lparr>tok_user = u, tok_client = client_id client,
             tok_access_token = to_python (dict_get token_data ''access_token''),
             tok_refresh_token = to_python (dict_get_default token_data ''refresh_token'' (JStr [])),
             tok_token_type = to_python (dict_get_default token_data ''token_type'' (JStr ''Bearer'')),
             tok_scope = to_python (dict_get_default token_data ''scope'' (JStr [])),
             tok_expires_at = expires_at\<rparr> rows)"

definition store_user_tokens ::
  "(string \<Rightarrow> int option) \<Rightarrow> time \<Rightarrow> nat \<Rightarrow> TapisOAuth2Client \<Rightarrow> (string \<times> json) list \<Rightarrow>
   TapisOAuth2Token list \<Rightarrow> TapisOAuth2Token list" where
  "store_user_tokens int_of_str now u client token_data rows =
     (case store_user_tokens_body int_of_str now u client token_data rows of
        Inl e \<Rightarrow> rows
      | Inr rows' \<Rightarrow> rows')"

text \<open>
  What \<^verbatim>\<open>_trigger_flight_discovery\<close> does that can be observed: the dispatch of the
  background task, the end of a synchronous scan (returned, with the number of projects
  created, or raised), and the write of the last-discovery timestamp.
\<close>

datatype event =
    EvDispatched string
  | EvScanReturned nat
  | EvScanRaised exn
  | EvLastDiscoveryUpdated time

text \<open>
  The surroundings of \<^verbatim>\<open>_trigger_flight_discovery\<close>: \<open>de_now_cooldown\<close> and \<open>de_now_discovery\<close>
  are the clock readings in \<^verbatim>\<open>should_run_auto_discovery\<close> and \<^verbatim>\<open>update_last_discovery\<close>;
  \<open>de_dispatch\<close> is the import of the task module followed by \<^verbatim>\<open>.delay(user_id, client_id)\<close>,
  giving the task id or the exception raised (\<open>ImportError\<close> when Celery is missing);
  \<open>de_sync_discovery\<close> is the import of the service followed by
  \<^verbatim>\<open>TapisFlightDiscoveryService.discover_and_create_projects(user, client)\<close>, giving
  \<^verbatim>\<open>results['projects_created']\<close> or the exception raised.
\<close>

record discovery_env =
  de_now_cooldown :: time
  de_dispatch :: "nat \<Rightarrow> string \<Rightarrow> exn + string"
  de_sync_discovery :: "nat \<Rightarrow> string \<Rightarrow> exn + nat"
  de_now_discovery :: time

definition trigger_flight_discovery ::
  "'a discovery_env_scheme \<Rightarrow> nat \<Rightarrow> TapisOAuth2Client \<Rightarrow> TapisUserPreferences list \<Rightarrow>
   TapisUserPreferences list \<times> event list" where
  "trigger_flight_discovery env u client prefs =
     (case get_or_create_for_user u prefs of
        Inl e \<Rightarrow> (prefs, [])
      | Inr (p, prefs1) \<Rightarrow>
          (if \<not> should_run_auto_discovery (de_now_cooldown env) p then (prefs1, [])
           else (case de_dispatch env u (client_id client) of
                   Inr task_id \<Rightarrow>
                     (update_last_discovery (de_now_discovery env) p prefs1,
                      [EvDispatched task_id, EvLastDiscoveryUpdated (de_now_discovery env)])
                 | Inl e \<Rightarrow>
                     (if e = ImportError
                      then (case de_sync_discovery env u (client_id client) of
                              Inr n \<Rightarrow>
                                (update_last_discovery (de_now_discovery env) p prefs1,
                                 [EvScanReturned n, EvLastDiscoveryUpdated (de_now_discovery env)])
                            | Inl e' \<Rightarrow> (prefs1, [EvScanRaised e']))
                      else (prefs1, [])))))"

text \<open>
  The surroundings of the callback view: the clock readings at the state check and at
  the token store, the outgoing HTTP call, the settings and library functions of the
  authentication backend, the host's user table and \<^verbatim>\<open>login\<close>.
\<close>

record callback_env = discovery_env +
  ce_now_state :: time
  ce_http :: http_post
  ce_cfg :: settings
  ce_b64_json_loads :: "string \<Rightarrow> decode_error + json"
  ce_current_time :: int
  ce_get_or_create_user :: "user_info \<Rightarrow> exn + nat option"
  ce_login_raises :: bool
  ce_int_of_str :: "string \<Rightarrow> int option"
  ce_now_tokens :: time

definition callback_failed :: response where
  "callback_failed = JsonResponse [(''error'', JStr ''OAuth2 callback failed'')] 500"

definition json_error :: "string \<Rightarrow> nat \<Rightarrow> response" where
  "json_error msg code = JsonResponse [(''error'', JStr msg)] code"

text \<open>The callback after the state check (lines 105 to 152).\<close>

definition callback_exchange ::
  "callback_env \<Rightarrow> string \<Rightarrow> TapisOAuth2State \<Rightarrow> TapisOAuth2Client \<Rightarrow> db \<Rightarrow> response \<times> db" where
  "callback_exchange env code state_obj client d =
     (let token_data = exchange_code_for_tokens (ce_http env) client code
      in if \<not> truthy token_data then (json_error ''Failed to exchange code for tokens'' 500, d)
         else (case token_data of
                 JObj td \<Rightarrow>
                   (if \<not> dict_has td ''access_token''
                    then (json_error ''No access token in Tapis response'' 500, d)
                    else (case extract_jwt td of
                            Inl (Some r) \<Rightarrow> (r, d)
                          | Inl None \<Rightarrow> (callback_failed, d)
                          | Inr jwt_token \<Rightarrow>
                              (case authenticate (ce_cfg env) (ce_b64_json_loads env) (ce_current_time env)
                                      (ce_get_or_create_user env) jwt_token of
                                 None \<Rightarrow> (json_error ''Failed to authenticate user with Tapis'' 401, d)
                               | Some u \<Rightarrow>
                                   (if ce_login_raises env then (callback_failed, d)
                                    else
                                      (let d1 = d\<lparr>tokens := store_user_tokens (ce_int_of_str env)
                                                     (ce_now_tokens env) u client td (tokens d)\<rparr>;
                                           d2 = d1\<lparr>preferences :=
                                                     fst (trigger_flight_discovery env u client
                                                            (preferences d1))\<rparr>;
                                           redirect_url =
                                             (if redirect_after_auth state_obj \<noteq> []
                                              then redirect_after_auth state_obj else ''/dashboard/'');
                                           d3 = d2\<lparr>states := delete_state state_obj (states d2)\<rparr>
                                       in (HttpResponseRedirect redirect_url, d3))))))
               | _ \<Rightarrow> (callback_failed, d)))"

text \<open>\<^verbatim>\<open>TapisOAuth2CallbackView.get\<close>.\<close>

definition callback_get :: "callback_env \<Rightarrow> callback_request \<Rightarrow> db \<Rightarrow> response \<times> db" where
  "callback_get env request d =
     (case q_error request of
        Some (e # es) \<Rightarrow>
          (JsonResponse [(''error'', JStr (''OAuth2 error: '' @ e # es)),
                         (''description'', param_json (q_error_description request))] 400, d)
      | _ \<Rightarrow>
          (case (q_code request, q_state request) of
             (Some (c # cs), Some (s # ss)) \<Rightarrow>
               (case get_state (states d) (s # ss) of
                  Inl e \<Rightarrow>
                    (if e = DoesNotExist then (json_error ''Invalid OAuth2 state'' 400, d)
                     else (callback_failed, d))
                | Inr state_obj \<Rightarrow>
                    (if st_is_expired (ce_now_state env) state_obj
                     then (json_error ''OAuth2 state expired'' 400,
                           d\<lparr>states := delete_state state_obj (states d)\<rparr>)
                     else (case client_of_state (clients d) (st_client state_obj) of
                             Inl e \<Rightarrow> (callback_failed, d)
                           | Inr client \<Rightarrow> callback_exchange env (c # cs) state_obj client d)))
           | _ \<Rightarrow> (json_error ''Missing code or state parameter'' 400, d)))"

subsection \<open>TapisOAuth2TokenRefreshView\<close>

record refresh_env =
  rf_http :: http_post
  rf_int_of_str :: "string \<Rightarrow> int option"
  rf_now :: time
  rf_isoformat :: "time \<Rightarrow> string"

text \<open>\<^verbatim>\<open>TapisOAuth2Token.objects.get(user=request.user, client=client)\<close>.\<close>

definition get_token :: "TapisOAuth2Token list \<Rightarrow> nat \<Rightarrow> string \<Rightarrow> exn + TapisOAuth2Token" where
  "get_token rows u cid =
     (case filter (\<lambda>r. tok_user r = u \<and> tok_client r = cid) rows of
        [] \<Rightarrow> Inl DoesNotExist
      | [r] \<Rightarrow> Inr r
      | _ \<Rightarrow> Inl MultipleObjectsReturned)"

text \<open>\<^verbatim>\<open>_refresh_access_token\<close>: the parsed body of a 200 response, or \<^verbatim>\<open>None\<close>.\<close>

definition refresh_access_token :: "http_post \<Rightarrow> TapisOAuth2Client \<Rightarrow> json \<Rightarrow> json" where
  "refresh_access_token post client refresh_tok =
     (let token_data = [(''grant_type'', JStr ''refresh_token''),
                        (''client_id'', JStr (client_id client)),
                        (''client_secret'', JStr (client_secret client)),
                        (''refresh_token'', refresh_tok)];
          headers = [(''Content-Type'', ''application/x-www-form-urlencoded''),
                     (''X-Tapis-Tenant'', tenant_id client),
                     (''Accept'', ''application/json'')]
      in (case post (token_url client) token_data headers of
            HttpRaises \<Rightarrow> JNull
          | HttpResult status body \<Rightarrow>
              (if status = 200 then (case body of None \<Rightarrow> JNull | Some j \<Rightarrow> j) else JNull)))"

text \<open>The assignments of lines 310 to 316 on the token object, each value as its text
  column keeps it when the object is saved (\<open>to_python\<close>).\<close>

definition refreshed_token ::
  "(string \<times> json) list \<Rightarrow> time option \<Rightarrow> TapisOAuth2Token \<Rightarrow> TapisOAuth2Token" where
  "refreshed_token new_token_data expires_at token_obj =
     (let t = token_obj\<lparr>tok_access_token := to_python (dict_get new_token_data ''access_token''),
                         tok_token_type :=
                           to_python (dict_get_default new_token_data ''token_type'' (JStr ''Bearer'')),
                         tok_expires_at := expires_at\<rparr>
      in if dict_has new_token_data ''refresh_token''
         then t\<lparr>tok_refresh_token := to_python (dict_get new_token_data ''refresh_token'')\<rparr>
         else t)"

definition refresh_failed :: response where
  "refresh_failed = JsonResponse [(''error'', JStr ''Failed to refresh token'')] 500"

text \<open>\<^verbatim>\<open>TapisOAuth2TokenRefreshView.post\<close> for the authenticated user \<open>u\<close>.\<close>

definition refresh_post :: "refresh_env \<Rightarrow> nat \<Rightarrow> string \<Rightarrow> db \<Rightarrow> response \<times> db" where
  "refresh_post env u cid d =
     (case get_client_or_404 (clients d) cid of
        Inl e \<Rightarrow> (refresh_failed, d)
      | Inr client \<Rightarrow>
          (case get_token (tokens d) u (client_id client) of
             Inl e \<Rightarrow>
               (if e = DoesNotExist then (json_error ''No token found for this client'' 404, d)
                else (refresh_failed, d))
           | Inr token_obj \<Rightarrow>
               (if \<not> truthy (tok_refresh_token token_obj)
                then (json_error ''No refresh token available'' 400, d)
                else
                  (let new_token_data = refresh_access_token (rf_http env) client (tok_refresh_token token_obj)
                   in if \<not> truthy new_token_data then (refresh_failed, d)
                      else (case new_token_data of
                              JObj nd \<Rightarrow>
                                (case expiry_of (rf_int_of_str env) (rf_now env) (dict_get nd ''expires_in'') of
                                   Inl e \<Rightarrow> (refresh_failed, d)
                                 | Inr expires_at \<Rightarrow>
                                     (let token_obj' = refreshed_token nd expires_at token_obj
                                      in if \<not> token_saveable token_obj' then (refresh_failed, d)
                                         else
                                           (JsonResponse
                                              [(''message'', JStr ''Token refreshed successfully''),
                                               (''expires_at'',
                                                (case expires_at of None \<Rightarrow> JNull
                                                 | Some t \<Rightarrow> JStr (rf_isoformat env t)))] 200,
                                            d\<lparr>tokens :=
                                                map (\<lambda>r. if tok_user r = u \<and> tok_client r = client_id client
                                                          then token_obj' else r) (tokens d)\<rparr>)))
                            | _ \<Rightarrow> (refresh_failed, d))))))"

section \<open>app/services/tapis\_storage.py\<close>

text \<open>
  \<open>files_listing\<close> is \<^verbatim>\<open>_make_request(endpoint).get('result', [])\<close> for a listing
  endpoint: a list of JSON values, or the exception that the request, the \<^verbatim>\<open>get\<close> or the
  start of the iteration raises. The scanner reads the keys \<^verbatim>\<open>type\<close> and \<^verbatim>\<open>name\<close> of
  each entry with \<^verbatim>\<open>item.get\<close>; the keys may be absent or hold any JSON value, and an
  entry that is not an object has no \<^verbatim>\<open>get\<close>. \<open>systems_listing\<close> is the result of the
  systems search, each system given by its \<^verbatim>\<open>id\<close>.
\<close>

type_synonym file_item = "(string \<times> json) list"

record tapis_api =
  systems_listing :: "exn + string option list"
  files_listing :: "string \<Rightarrow> exn + json list"

text \<open>\<^verbatim>\<open>str.lower()\<close> on the ASCII letters, and \<^verbatim>\<open>str.endswith\<close>.\<close>

definition lower_char :: "char \<Rightarrow> char" where
  "lower_char c =
     (case map_of (zip ''ABCDEFGHIJKLMNOPQRSTUVWXYZ'' ''abcdefghijklmnopqrstuvwxyz'') c of
        None \<Rightarrow> c
      | Some l \<Rightarrow> l)"

definition py_lower :: "string \<Rightarrow> string" where
  "py_lower s = map lower_char s"

definition endswith :: "string \<Rightarrow> string \<Rightarrow> bool" where
  "endswith s suf = (length suf \<le> length s \<and> drop (length s - length suf) s = suf)"

text \<open>\<^verbatim>\<open>name.lower().endswith(('.jpg', '.jpeg'))\<close>.\<close>

definition jpg_name :: "string \<Rightarrow> bool" where
  "jpg_name name = (endswith (py_lower name) ''.jpg'' \<or> endswith (py_lower name) ''.jpeg'')"

text \<open>
  The image count
  \<^verbatim>\<open>sum(1 for item in ... if item.get('type') == 'file' and item.get('name', '').lower().endswith(...))\<close>.
  An entry that is not an object has no \<^verbatim>\<open>get\<close>. The name is read only for an entry of
  type \<^verbatim>\<open>file\<close>; a name that is present and not a string (\<^verbatim>\<open>null\<close>, a number) has no
  \<^verbatim>\<open>lower\<close>. In both cases the count raises \<^verbatim>\<open>AttributeError\<close>.
\<close>

fun count_jpg :: "json list \<Rightarrow> exn + nat" where
  "count_jpg [] = Inr 0"
| "count_jpg (item # items) =
     (case item of
        JObj kvs \<Rightarrow>
          (if dict_get kvs ''type'' = JStr ''file''
           then (case dict_get_default kvs ''name'' (JStr []) of
                   JStr name \<Rightarrow>
                     (case count_jpg items of
                        Inl e \<Rightarrow> Inl e
                      | Inr n \<Rightarrow> Inr (if jpg_name name then Suc n else n))
                 | _ \<Rightarrow> Inl AttributeError)
           else count_jpg items)
      | _ \<Rightarrow> Inl AttributeError)"

text \<open>The test of the loop over the code listing, on an object.\<close>

definition is_images_dir :: "file_item \<Rightarrow> bool" where
  "is_images_dir item = (dict_get item ''type'' = JStr ''dir'' \<and> dict_get item ''name'' = JStr ''images'')"

text \<open>The loop over the code listing: it stops at the first entry that passes the test,
  and raises \<^verbatim>\<open>AttributeError\<close> at an entry before it that is not an object.\<close>

fun has_images_dir :: "json list \<Rightarrow> exn + bool" where
  "has_images_dir [] = Inr False"
| "has_images_dir (item # items) =
     (case item of
        JObj kvs \<Rightarrow> (if is_images_dir kvs then Inr True else has_images_dir items)
      | _ \<Rightarrow> Inl AttributeError)"

text \<open>A match of the scanner. The dict keeps the flight name as the listing gave it;
  every use formats it into a string, and the record holds that string.\<close>

record flight_info =
  fi_flight_name :: string
  fi_system_id :: string
  fi_images_path :: string
  fi_image_count :: nat
  fi_discovered_at :: time

text \<open>
  \<^verbatim>\<open>_check_flight_directory\<close>; \<open>now\<close> is the reading of \<^verbatim>\<open>datetime.now()\<close>. Every exception
  ends in \<^verbatim>\<open>None\<close>: a failed request for the code directory returns at once, one for the
  images directory is logged, and so is an exception of either loop.
\<close>

definition check_flight_directory :: "tapis_api \<Rightarrow> time \<Rightarrow> string \<Rightarrow> string \<Rightarrow> flight_info option" where
  "check_flight_directory api now sid flight =
     (let code_path = flight @ ''/code''
      in (case files_listing api (''v3/files/ops/'' @ sid @ ''/'' @ code_path @ ''/'') of
            Inl e \<Rightarrow> None
          | Inr code_listing \<Rightarrow>
              (case has_images_dir code_listing of
                 Inl e \<Rightarrow> None
               | Inr found \<Rightarrow>
                   (if \<not> found then None
                    else
                      (let images_path = flight @ ''/code/images''
                       in (case files_listing api (''v3/files/ops/'' @ sid @ ''/'' @ images_path @ ''/'') of
                             Inl e \<Rightarrow> None
                           | Inr images_listing \<Rightarrow>
                               (case count_jpg images_listing of
                                  Inl e \<Rightarrow> None
                                | Inr jpg_count \<Rightarrow>
                                    (if jpg_count > 0
                                     then Some \<lparr>fi_flight_name = flight, fi_system_id = sid,
                                                fi_images_path = images_path, fi_image_count = jpg_count,
                                                fi_discovered_at = now\<rparr>
                                     else None))))))))"

text \<open>The loop of \<^verbatim>\<open>scan_system_for_flights\<close> over the root listing: an entry of type
  \<^verbatim>\<open>dir\<close> with a truthy name is checked under that name, as the f-strings format it. At an
  entry that is not an object \<^verbatim>\<open>item.get\<close> raises, the loop is left, and the flights found
  before it are returned.\<close>

fun scan_items :: "tapis_api \<Rightarrow> time \<Rightarrow> string \<Rightarrow> json list \<Rightarrow> flight_info list" where
  "scan_items api now sid [] = []"
| "scan_items api now sid (item # items) =
     (case item of
        JObj kvs \<Rightarrow>
          (if dict_get kvs ''type'' = JStr ''dir''
           then (let flight_name = dict_get kvs ''name''
                 in if truthy flight_name
                    then (case check_flight_directory api now sid (py_str flight_name) of
                            None \<Rightarrow> scan_items api now sid items
                          | Some flight_info \<Rightarrow> flight_info # scan_items api now sid items)
                    else scan_items api now sid items)
           else scan_items api now sid items)
      | _ \<Rightarrow> [])"

text \<open>\<^verbatim>\<open>scan_system_for_flights\<close>: a failed root listing gives no flights.\<close>

definition scan_system_for_flights :: "tapis_api \<Rightarrow> time \<Rightarrow> string \<Rightarrow> flight_info list" where
  "scan_system_for_flights api now sid =
     (case files_listing api (''v3/files/ops/'' @ sid @ ''/'') of
        Inl e \<Rightarrow> []
      | Inr root_listing \<Rightarrow> scan_items api now sid root_listing)"

text \<open>\<^verbatim>\<open>discover_project_systems\<close>.\<close>

definition discover_project_systems :: "tapis_api \<Rightarrow> string option list" where
  "discover_project_systems api = (case systems_listing api of Inl e \<Rightarrow> [] | Inr systems \<Rightarrow> systems)"

text \<open>
  A project of the host application, with the fields the discovery reads; the
  description text and the task created with the project are left out.
\<close>

record Project =
  proj_id :: nat
  proj_owner :: nat
  proj_name :: string
  proj_tags :: string

text \<open>Substring search, and the lookup \<^verbatim>\<open>tags__icontains\<close>: case-insensitive containment.\<close>

fun contains :: "string \<Rightarrow> string \<Rightarrow> bool" where
  "contains [] needle = (needle = [])"
| "contains (h # hs) needle = (prefix needle (h # hs) \<or> contains hs needle)"

definition icontains :: "string \<Rightarrow> string \<Rightarrow> bool" where
  "icontains hay needle = contains (py_lower hay) (py_lower needle)"

text \<open>\<^verbatim>\<open>_find_existing_project\<close>.\<close>

definition find_existing_project :: "nat \<Rightarrow> flight_info \<Rightarrow> Project list \<Rightarrow> Project option" where
  "find_existing_project u flight_info projects =
     (let flight_tag = fi_system_id flight_info @ '','' @ fi_flight_name flight_info
      in (case filter (\<lambda>p. proj_owner p = u \<and> icontains (proj_tags p) flight_tag) projects of
            [] \<Rightarrow> None
          | p # _ \<Rightarrow> Some p))"

definition next_project_id :: "Project list \<Rightarrow> nat" where
  "next_project_id projects = Suc (fold max (map proj_id projects) 0)"

text \<open>\<^verbatim>\<open>create_project_from_flight\<close>: \<open>can_create\<close> tells whether the host's
  \<^verbatim>\<open>Project.objects.create\<close> succeeds for the flight; when it raises, the method returns
  \<^verbatim>\<open>None\<close>.\<close>

definition create_project_from_flight ::
  "nat \<Rightarrow> (flight_info \<Rightarrow> bool) \<Rightarrow> flight_info \<Rightarrow> Project list \<Rightarrow> Project option" where
  "create_project_from_flight u can_create flight_info projects =
     (if can_create flight_info
      then Some \<lparr>proj_id = next_project_id projects, proj_owner = u,
                 proj_name = fi_flight_name flight_info @ '' ('' @ fi_system_id flight_info @ '')'',
                 proj_tags = ''tapis,flight,'' @ fi_system_id flight_info @ '','' @
                             fi_flight_name flight_info\<rparr>
      else None)"

record created_project =
  cp_project_id :: nat
  cp_project_name :: string
  cp_flight_name :: string
  cp_system_id :: string
  cp_image_count :: nat

text \<open>The loop of \<^verbatim>\<open>discover_and_create_projects\<close> over the flights found: the entries
  appended to \<^verbatim>\<open>created_projects\<close>, and the project table.\<close>

fun create_projects ::
  "nat \<Rightarrow> (flight_info \<Rightarrow> bool) \<Rightarrow> flight_info list \<Rightarrow> Project list \<Rightarrow>
   created_project list \<times> Project list" where
  "create_projects u can_create [] projects = ([], projects)"
| "create_projects u can_create (flight_info # rest) projects =
     (case find_existing_project u flight_info projects of
        Some existing_project \<Rightarrow> create_projects u can_create rest projects
      | None \<Rightarrow>
          (case create_project_from_flight u can_create flight_info projects of
             None \<Rightarrow> create_projects u can_create rest projects
           | Some project \<Rightarrow>
               (case create_projects u can_create rest (projects @ [project]) of
                  (created, projects') \<Rightarrow>
                    (\<lparr>cp_project_id = proj_id project, cp_project_name = proj_name project,
                      cp_flight_name = fi_flight_name flight_info,
                      cp_system_id = fi_system_id flight_info,
                      cp_image_count = fi_image_count flight_info\<rparr> # created, projects'))))"

text \<open>The flights of all systems: a system without a truthy \<^verbatim>\<open>id\<close> is skipped.\<close>

fun scan_systems :: "tapis_api \<Rightarrow> time \<Rightarrow> string option list \<Rightarrow> flight_info list" where
  "scan_systems api now [] = []"
| "scan_systems api now (system # systems) =
     (case system of
        None \<Rightarrow> scan_systems api now systems
      | Some sid \<Rightarrow>
          (if sid \<noteq> [] then scan_system_for_flights api now sid @ scan_systems api now systems
           else scan_systems api now systems))"

record discovery_results =
  systems_scanned :: nat
  flights_discovered :: nat
  projects_created :: nat
  created_projects :: "created_project list"

text \<open>
  \<^verbatim>\<open>TapisFlightDiscoveryService.discover_and_create_projects\<close>. The constructor of the
  storage service raises \<open>ValueError\<close> when the user has no valid token. In the model no
  step inside the loops raises, so the \<^verbatim>\<open>errors\<close> list of the results stays empty and is
  left out.
\<close>

definition discover_and_create_projects ::
  "tapis_api \<Rightarrow> time \<Rightarrow> (flight_info \<Rightarrow> bool) \<Rightarrow> nat \<Rightarrow> TapisOAuth2Client \<Rightarrow>
   TapisOAuth2Token list \<Rightarrow> Project list \<Rightarrow> exn + (discovery_results \<times> Project list)" where
  "discover_and_create_projects api now can_create u client toks projects =
     (case get_token toks u (client_id client) of
        Inl e \<Rightarrow> Inl (if e = DoesNotExist then ValueError else e)
      | Inr token \<Rightarrow>
          (if \<not> truthy (is_valid now token) then Inl ValueError
           else
             (let systems = discover_project_systems api;
                  all_flights = scan_systems api now systems
              in (case create_projects u can_create all_flights projects of
                    (created, projects') \<Rightarrow>
                      Inr (\<lparr>systems_scanned = length systems,
                            flights_discovered = length all_flights,
                            projects_created = length created,
                            created_projects = created\<rparr>, projects')))))"

section \<open>Listings, as the specification words them\<close>

text \<open>An entry that is a JSON object.\<close>

definition is_object :: "json \<Rightarrow> bool" where
  "is_object item = (case item of JObj kvs \<Rightarrow> True | _ \<Rightarrow> False)"

text \<open>A subdirectory named \<^verbatim>\<open>images\<close>.\<close>

definition is_images_entry :: "json \<Rightarrow> bool" where
  "is_images_entry item = (case item of JObj kvs \<Rightarrow> is_images_dir kvs | _ \<Rightarrow> False)"

text \<open>A file entry whose name ends, in any letter case, in \<^verbatim>\<open>.jpg\<close> or \<^verbatim>\<open>.jpeg\<close>.\<close>

definition is_jpg_file :: "json \<Rightarrow> bool" where
  "is_jpg_file item =
     (case item of
        JObj kvs \<Rightarrow>
          dict_get kvs ''type'' = JStr ''file'' \<and>
          (case dict_get kvs ''name'' of JStr name \<Rightarrow> jpg_name name | _ \<Rightarrow> False)
      | _ \<Rightarrow> False)"

text \<open>An object whose name, when it is a file and has the key, is a string.\<close>

definition is_str :: "json \<Rightarrow> bool" where
  "is_str v = (case v of JStr s \<Rightarrow> True | _ \<Rightarrow> False)"

definition has_string_name :: "json \<Rightarrow> bool" where
  "has_string_name item =
     (case item of
        JObj kvs \<Rightarrow>
          (if dict_get kvs ''type'' = JStr ''file'' \<and> dict_has kvs ''name''
           then is_str (dict_get kvs ''name'') else True)
      | _ \<Rightarrow> False)"

text \<open>A directory entry of the root listing that the scanner checks under the name
  \<open>flight\<close>.\<close>

definition is_flight_dir :: "string \<Rightarrow> json \<Rightarrow> bool" where
  "is_flight_dir flight item =
     (case item of
        JObj kvs \<Rightarrow>
          dict_get kvs ''type'' = JStr ''dir'' \<and> truthy (dict_get kvs ''name'') \<and>
          py_str (dict_get kvs ''name'') = flight
      | _ \<Rightarrow> False)"

section \<open>The username rule and base64url, as the specification words them\<close>

text \<open>"The first present of the provider-namespaced claim, the plain claim, then the
  subject claim": presence of the key decides, whatever its value.\<close>

definition spec_first_present_username :: "(string \<times> json) list \<Rightarrow> json" where
  "spec_first_present_username payload =
     (if dict_has payload ''tapis/username'' then dict_get payload ''tapis/username''
      else if dict_has payload ''username'' then dict_get payload ''username''
      else dict_get payload ''sub'')"

text \<open>A valid base64url string, as a JWT segment is one (RFC 4648, unpadded): every
  character is a letter, a digit, \<^verbatim>\<open>-\<close> or \<^verbatim>\<open>_\<close>.\<close>

definition base64url_char :: "char \<Rightarrow> bool" where
  "base64url_char c =
     (c \<in> set ''ABCDEFGHIJKLMNOPQRSTUVWXYZabcdefghijklmnopqrstuvwxyz0123456789-_'')"

definition valid_base64url :: "string \<Rightarrow> bool" where
  "valid_base64url s = list_all base64url_char s"

section \<open>Example tokens\<close>

definition example_settings :: settings where
  "example_settings =
     \<lparr>TAPIS_BASE_URL = Some (JStr ''https://x.tapis.io''), TAPIS_TENANT_ID = Some (JStr ''tacc'')\<rparr>"

definition payload_bob :: "(string \<times> json) list" where
  "payload_bob = [(''tapis/username'', JStr []), (''username'', JStr ''bob''), (''exp'', JInt 0)]"

definition payload_alice :: "(string \<times> json) list" where
  "payload_alice = [(''username'', JStr ''alice''), (''exp'', JInt 9999999999)]"

definition payload_alice_old :: "(string \<times> json) list" where
  "payload_alice_old = [(''username'', JStr ''alice''), (''exp'', JInt 1000)]"

definition payload_anonymous :: "(string \<times> json) list" where
  "payload_anonymous = [(''exp'', JInt 9999999999)]"

text \<open>The bytes of \<^verbatim>\<open>{"tapis/username":"","username":"bob","exp":0}\<close>.\<close>

definition bytes_bob :: "nat list" where
  "bytes_bob = [
      123, 34, 116, 97, 112, 105, 115, 47, 117, 115, 101, 114, 110, 97, 109, 101,
      34, 58, 34, 34, 44, 34, 117, 115, 101, 114, 110, 97, 109, 101, 34, 58,
      34, 98, 111, 98, 34, 44, 34, 101, 120, 112, 34, 58, 48, 125]"

text \<open>The bytes of \<^verbatim>\<open>{"username":"alice","exp":9999999999}\<close>.\<close>

definition bytes_alice :: "nat list" where
  "bytes_alice = [
      123, 34, 117, 115, 101, 114, 110, 97, 109, 101, 34, 58, 34, 97, 108, 105,
      99, 101, 34, 44, 34, 101, 120, 112, 34, 58, 57, 57, 57, 57, 57, 57,
      57, 57, 57, 57, 125]"

text \<open>The bytes of \<^verbatim>\<open>{"username":"alice","exp":1000}\<close>.\<close>

definition bytes_alice_old :: "nat list" where
  "bytes_alice_old = [
      123, 34, 117, 115, 101, 114, 110, 97, 109, 101, 34, 58, 34, 97, 108, 105,
      99, 101, 34, 44, 34, 101, 120, 112, 34, 58, 49, 48, 48, 48, 125]"

text \<open>The bytes of \<^verbatim>\<open>{"exp":9999999999}\<close>.\<close>

definition bytes_anonymous :: "nat list" where
  "bytes_anonymous = [
      123, 34, 101, 120, 112, 34, 58, 57, 57, 57, 57, 57, 57, 57, 57, 57,
      57, 125]"

text \<open>
  \<^verbatim>\<open>json.loads(payload_bytes.decode('utf-8'))\<close> at the byte strings the examples decode to:
  the four payloads, the empty object \<^verbatim>\<open>{}\<close>, and the empty byte string, which is not JSON.
  The table is not used at any other input.
\<close>

definition example_json_loads :: "nat list \<Rightarrow> decode_error + json" where
  "example_json_loads payload_bytes =
     (if payload_bytes = bytes_bob then Inr (JObj payload_bob)
      else if payload_bytes = bytes_alice then Inr (JObj payload_alice)
      else if payload_bytes = bytes_alice_old then Inr (JObj payload_alice_old)
      else if payload_bytes = bytes_anonymous then Inr (JObj payload_anonymous)
      else if payload_bytes = [123, 125] then Inr (JObj [])
      else Inl JSONDecodeError)"

text \<open>The library's decoding of a padded segment, with that table for its last step.\<close>

definition example_b64_json_loads :: "string \<Rightarrow> decode_error + json" where
  "example_b64_json_loads s = library_loads example_json_loads s"

definition token_bob :: string where
  "token_bob = ''hdr.eyJ0YXBpcy91c2VybmFtZSI6IiIsInVzZXJuYW1lIjoiYm9iIiwiZXhwIjowfQ.sig''"

definition token_alice :: string where
  "token_alice = ''hdr.eyJ1c2VybmFtZSI6ImFsaWNlIiwiZXhwIjo5OTk5OTk5OTk5fQ.sig''"

definition token_alice_old :: string where
  "token_alice_old = ''hdr.eyJ1c2VybmFtZSI6ImFsaWNlIiwiZXhwIjoxMDAwfQ.sig''"

definition token_anonymous :: string where
  "token_anonymous = ''hdr.eyJleHAiOjk5OTk5OTk5OTl9.sig''"

text \<open>The token of \<^verbatim>\<open>alice\<close> with four characters outside the base64url alphabet put into
  its payload segment, and a token whose payload segment has a non-ASCII character.\<close>

definition token_alice_dirty :: string where
  "token_alice_dirty = ''hdr.eyJ1c2Vy@@@@bmFtZSI6ImFsaWNlIiwiZXhwIjo5OTk5OTk5OTk5fQ.sig''"

definition token_non_ascii :: string where
  "token_non_ascii = ''hdr.eyJ1c2Vy'' @ [CHR 0xE9] @ ''bmFt.sig''"

section \<open>Example login\<close>

text \<open>A client \<^verbatim>\<open>demo\<close>, a state created at \<open>example_T\<close> (microseconds) and a provider
  that answers the code exchange with the nested access-token shape.\<close>

definition example_T :: time where
  "example_T = 1700000000000000"

definition example_client :: TapisOAuth2Client where
  "example_client =
     \<lparr>client_id = ''demo'', client_secret = ''s3cret'', tenant_id = ''tacc'',
      base_url = ''https://x.tapis.io'',
      authorization_url = ''https://x.tapis.io/v3/oauth2/authorize'',
      token_url = ''https://x.tapis.io/v3/oauth2/tokens'',
      callback_url = ''https://webodm.example/callback'',
      client_name = ''Demo'', is_active = True\<rparr>"

definition example_state :: TapisOAuth2State where
  "example_state =
     \<lparr>st_id = 1, st_state = ''xyzzy'', st_user = None, st_client = ''demo'',
      redirect_after_auth = ''/projects/'', st_expires_at = 1700000600000000\<rparr>"

definition example_db0 :: db where
  "example_db0 = \<lparr>clients = [example_client], states = [], tokens = [], preferences = []\<rparr>"

definition example_db :: db where
  "example_db = \<lparr>clients = [example_client], states = [example_state], tokens = [], preferences = []\<rparr>"

definition example_nested :: "(string \<times> json) list" where
  "example_nested = [(''access_token'', JStr token_alice), (''expires_in'', JInt 14400)]"

definition example_token_data :: "(string \<times> json) list" where
  "example_token_data = [(''access_token'', JObj example_nested)]"

definition example_http_post :: http_post where
  "example_http_post url data headers =
     HttpResult 200 (Some (JObj [(''status'', JStr ''success''), (''result'', JObj example_token_data)]))"

definition example_env :: "time \<Rightarrow> callback_env" where
  "example_env t =
     \<lparr>de_now_cooldown = t, de_dispatch = (\<lambda>u c. Inr ''task-1''),
      de_sync_discovery = (\<lambda>u c. Inr 0), de_now_discovery = t,
      ce_now_state = t, ce_http = example_http_post, ce_cfg = example_settings,
      ce_b64_json_loads = example_b64_json_loads, ce_current_time = 1700000000,
      ce_get_or_create_user = (\<lambda>info. Inr (Some 7)), ce_login_raises = False,
      ce_int_of_str = (\<lambda>s. None), ce_now_tokens = t\<rparr>"

definition example_callback :: callback_request where
  "example_callback =
     \<lparr>q_code = Some ''abc'', q_state = Some ''xyzzy'', q_error = None, q_error_description = None\<rparr>"

definition example_token :: TapisOAuth2Token where
  "example_token =
     \<lparr>tok_user = 7, tok_client = ''demo'', tok_access_token = JStr (py_repr (JObj example_nested)),
      tok_refresh_token = JStr [], tok_token_type = JStr ''Bearer'', tok_scope = JStr [],
      tok_expires_at = None\<rparr>"

definition example_db_after :: "time \<Rightarrow> db" where
  "example_db_after t =
     \<lparr>clients = [example_client], states = [], tokens = [example_token],
      preferences = [(default_preferences 7)\<lparr>last_auto_discovery := Some t\<rparr>]\<rparr>"

text \<open>The query string the library's \<^verbatim>\<open>urlencode\<close> gives for the example's parameters.\<close>

definition example_urlencode :: "(string \<times> string) list \<Rightarrow> string" where
  "example_urlencode params =
     (if params = [(''client_id'', ''demo''), (''response_type'', ''code''),
                   (''redirect_uri'', ''https://webodm.example/callback''), (''state'', ''xyzzy''),
                   (''scope'', ''openid profile'')]
      then ''client_id=demo&response_type=code&redirect_uri=https%3A%2F%2Fwebodm.example%2Fcallback&state=xyzzy&scope=openid+profile''
      else [])"

definition example_authorize_request :: authorize_request where
  "example_authorize_request = \<lparr>ar_redirect_after = Some ''/projects/'', ar_user = None\<rparr>"

section \<open>Example discovery trigger and refresh\<close>

definition example_sync_env :: "exn + nat \<Rightarrow> discovery_env" where
  "example_sync_env outcome =
     \<lparr>de_now_cooldown = example_T, de_dispatch = (\<lambda>u c. Inl ImportError),
      de_sync_discovery = (\<lambda>u c. outcome), de_now_discovery = example_T\<rparr>"

definition example_old_token :: TapisOAuth2Token where
  "example_old_token =
     \<lparr>tok_user = 7, tok_client = ''demo'', tok_access_token = JStr ''old-token'',
      tok_refresh_token = JStr ''refresh-1'', tok_token_type = JStr ''Bearer'', tok_scope = JStr [],
      tok_expires_at = Some 1699999999000000\<rparr>"

text \<open>The example login for a user who already has a token row.\<close>

definition example_db_returning :: db where
  "example_db_returning =
     \<lparr>clients = [example_client], states = [example_state], tokens = [example_old_token],
      preferences = []\<rparr>"

definition example_refresh_db :: db where
  "example_refresh_db =
     \<lparr>clients = [example_client], states = [], tokens = [example_old_token], preferences = []\<rparr>"

definition example_refresh_env :: "(string \<times> json) list \<Rightarrow> refresh_env" where
  "example_refresh_env body =
     \<lparr>rf_http = (\<lambda>url data headers. HttpResult 200 (Some (JObj body))),
      rf_int_of_str = (\<lambda>s. None), rf_now = example_T,
      rf_isoformat = (\<lambda>t. ''2023-11-14T23:13:20+00:00'')\<rparr>"

definition refresh_body_zero :: "(string \<times> json) list" where
  "refresh_body_zero = [(''access_token'', JStr ''new-token''), (''expires_in'', JInt 0)]"

definition refresh_body_rotating :: "(string \<times> json) list" where
  "refresh_body_rotating =
     [(''access_token'', JStr ''new-token''), (''expires_in'', JInt 3600),
      (''refresh_token'', JStr ''refresh-2'')]"

section \<open>Example storage system\<close>

text \<open>A system with two flight directories: \<^verbatim>\<open>flightA/code/images\<close> holds \<^verbatim>\<open>a.JPG\<close> and
  nothing else that counts; \<^verbatim>\<open>flightB/code\<close> has no \<^verbatim>\<open>images\<close> directory.\<close>

definition dir_item :: "string \<Rightarrow> json" where
  "dir_item n = JObj [(''type'', JStr ''dir''), (''name'', JStr n)]"

definition plain_file :: "string \<Rightarrow> json" where
  "plain_file n = JObj [(''type'', JStr ''file''), (''name'', JStr n)]"

definition example_root :: "json list" where
  "example_root = [dir_item ''flightA'', dir_item ''flightB'', plain_file ''readme.txt'']"

definition example_images :: "json list" where
  "example_images = [plain_file ''a.JPG'', plain_file ''notes.txt'', dir_item ''thumbs.jpg'']"

text \<open>The same images directory with a second file entry whose name is \<^verbatim>\<open>null\<close>.\<close>

definition example_images_null :: "json list" where
  "example_images_null = [plain_file ''a.JPG'', JObj [(''type'', JStr ''file''), (''name'', JNull)]]"

definition example_files :: "json list \<Rightarrow> string \<Rightarrow> exn + json list" where
  "example_files images endpoint =
     (if endpoint = ''v3/files/ops/ptdatax.project.P1/'' then Inr example_root
      else if endpoint = ''v3/files/ops/ptdatax.project.P1/flightA/code/''
        then Inr [dir_item ''images'', dir_item ''logs'']
      else if endpoint = ''v3/files/ops/ptdatax.project.P1/flightA/code/images/''
        then Inr images
      else if endpoint = ''v3/files/ops/ptdatax.project.P1/flightB/code/''
        then Inr [dir_item ''src'']
      else Inl RequestException)"

definition example_api :: tapis_api where
  "example_api =
     \<lparr>systems_listing = Inr [Some ''ptdatax.project.P1''], files_listing = example_files example_images\<rparr>"

definition example_api_null :: tapis_api where
  "example_api_null =
     \<lparr>systems_listing = Inr [Some ''ptdatax.project.P1''],
      files_listing = example_files example_images_null\<rparr>"

definition example_flight :: flight_info where
  "example_flight =
     \<lparr>fi_flight_name = ''flightA'', fi_system_id = ''ptdatax.project.P1'',
      fi_images_path = ''flightA/code/images'', fi_image_count = 1, fi_discovered_at = example_T\<rparr>"

definition example_project :: Project where
  "example_project =
     \<lparr>proj_id = 1, proj_owner = 7, proj_name = ''flightA (ptdatax.project.P1)'',
      proj_tags = ''tapis,flight,ptdatax.project.P1,flightA''\<rparr>"

definition always_create :: "flight_info \<Rightarrow> bool" where
  "always_create flight_info = True"

definition example_created :: created_project where
  "example_created =
     \<lparr>cp_project_id = 1, cp_project_name = ''flightA (ptdatax.project.P1)'',
      cp_flight_name = ''flightA'', cp_system_id = ''ptdatax.project.P1'', cp_image_count = 1\<rparr>"

section \<open>Properties\<close>

subsection \<open>Stored tokens: validity\<close>

text \<open>
  C8. For every stored token: when \<open>expires_at\<close> is set and in the past, \<open>is_valid\<close> is
  false (falsy); when \<open>expires_at\<close> is null, \<open>is_valid\<close> is true exactly when the
  access token is non-empty (truthy), which for a text value means a non-empty string.
\<close>

theorem C8_is_valid:
  "(\<forall>e. tok_expires_at t = Some e \<and> e < now \<longrightarrow> \<not> truthy (is_valid now t)) \<and>
   (tok_expires_at t = None \<longrightarrow>
      truthy (is_valid now t) = truthy (tok_access_token t) \<and>
      (\<forall>s. tok_access_token t = JStr s \<longrightarrow> truthy (is_valid now t) = (s \<noteq> [])))"
  by (auto simp: is_valid_def tok_is_expired_def py_and_def)

theorem C8_is_valid_witness:
  "(5::int) < 10 \<and>
   \<not> truthy (is_valid 10 \<lparr>tok_user = 1, tok_client = ''demo'', tok_access_token = JStr ''abc'',
       tok_refresh_token = JStr [], tok_token_type = JStr ''Bearer'', tok_scope = JStr [],
       tok_expires_at = Some 5\<rparr>) \<and>
   truthy (is_valid 10 \<lparr>tok_user = 1, tok_client = ''demo'', tok_access_token = JStr ''abc'',
       tok_refresh_token = JStr [], tok_token_type = JStr ''Bearer'', tok_scope = JStr [],
       tok_expires_at = None\<rparr>) \<and>
   \<not> truthy (is_valid 10 \<lparr>tok_user = 1, tok_client = ''demo'', tok_access_token = JStr [],
       tok_refresh_token = JStr [], tok_token_type = JStr ''Bearer'', tok_scope = JStr [],
       tok_expires_at = None\<rparr>)"
  using
    C8_is_valid [of "\<lparr>tok_user = 1, tok_client = ''demo'', tok_access_token = JStr ''abc'',
       tok_refresh_token = JStr [], tok_token_type = JStr ''Bearer'', tok_scope = JStr [],
       tok_expires_at = Some 5\<rparr>" 10]
    C8_is_valid [of "\<lparr>tok_user = 1, tok_client = ''demo'', tok_access_token = JStr ''abc'',
       tok_refresh_token = JStr [], tok_token_type = JStr ''Bearer'', tok_scope = JStr [],
       tok_expires_at = None\<rparr>" 10]
    C8_is_valid [of "\<lparr>tok_user = 1, tok_client = ''demo'', tok_access_token = JStr [],
       tok_refresh_token = JStr [], tok_token_type = JStr ''Bearer'', tok_scope = JStr [],
       tok_expires_at = None\<rparr>" 10]
  by simp

subsection \<open>JWT validation\<close>

lemma validate_payload_Some:
  "validate_payload cfg now (JObj payload) = Inr (Some info) \<Longrightarrow>
     ui_username info = username_of payload \<and> truthy (username_of payload)"
  by (auto simp: validate_payload_def Let_def split: sum.splits bool.splits if_splits)

lemma split_token_bob:
  "py_split (CHR ''.'') token_bob =
     [''hdr'', ''eyJ0YXBpcy91c2VybmFtZSI6IiIsInVzZXJuYW1lIjoiYm9iIiwiZXhwIjowfQ'', ''sig'']"
  by (simp add: token_bob_def)

lemma split_token_alice:
  "py_split (CHR ''.'') token_alice =
     [''hdr'', ''eyJ1c2VybmFtZSI6ImFsaWNlIiwiZXhwIjo5OTk5OTk5OTk5fQ'', ''sig'']"
  by (simp add: token_alice_def)

lemma split_token_alice_old:
  "py_split (CHR ''.'') token_alice_old =
     [''hdr'', ''eyJ1c2VybmFtZSI6ImFsaWNlIiwiZXhwIjoxMDAwfQ'', ''sig'']"
  by (simp add: token_alice_old_def)

lemma split_token_anonymous:
  "py_split (CHR ''.'') token_anonymous = [''hdr'', ''eyJleHAiOjk5OTk5OTk5OTl9'', ''sig'']"
  by (simp add: token_anonymous_def)

lemma b64decode_bob:
  "urlsafe_b64decode ''eyJ0YXBpcy91c2VybmFtZSI6IiIsInVzZXJuYW1lIjoiYm9iIiwiZXhwIjowfQ=='' = Inr bytes_bob"
  by (simp add: urlsafe_b64decode_def b64_value_def b64_table_def bytes_bob_def)

lemma b64decode_alice:
  "urlsafe_b64decode ''eyJ1c2VybmFtZSI6ImFsaWNlIiwiZXhwIjo5OTk5OTk5OTk5fQ=='' = Inr bytes_alice"
  by (simp add: urlsafe_b64decode_def b64_value_def b64_table_def bytes_alice_def)

lemma b64decode_alice_old:
  "urlsafe_b64decode ''eyJ1c2VybmFtZSI6ImFsaWNlIiwiZXhwIjoxMDAwfQ=='' = Inr bytes_alice_old"
  by (simp add: urlsafe_b64decode_def b64_value_def b64_table_def bytes_alice_old_def)

lemma b64decode_anonymous:
  "urlsafe_b64decode ''eyJleHAiOjk5OTk5OTk5OTl9'' = Inr bytes_anonymous"
  by (simp add: urlsafe_b64decode_def b64_value_def b64_table_def bytes_anonymous_def)

lemma example_json_loads_table:
  "example_json_loads bytes_bob = Inr (JObj payload_bob)"
  "example_json_loads bytes_alice = Inr (JObj payload_alice)"
  "example_json_loads bytes_alice_old = Inr (JObj payload_alice_old)"
  "example_json_loads bytes_anonymous = Inr (JObj payload_anonymous)"
  "example_json_loads [] = Inl JSONDecodeError"
  by (simp_all add: example_json_loads_def bytes_bob_def bytes_alice_def bytes_alice_old_def
      bytes_anonymous_def)

lemma decode_token_bob:
  "example_b64_json_loads (pad_b64 (py_split (CHR ''.'') token_bob ! 1)) = Inr (JObj payload_bob)"
  by (simp add: split_token_bob pad_b64_def example_b64_json_loads_def library_loads_def
      numeral_2_eq_2 b64decode_bob example_json_loads_table)

lemma decode_token_alice:
  "example_b64_json_loads (pad_b64 (py_split (CHR ''.'') token_alice ! 1)) = Inr (JObj payload_alice)"
  by (simp add: split_token_alice pad_b64_def example_b64_json_loads_def library_loads_def
      numeral_2_eq_2 b64decode_alice example_json_loads_table)

lemma decode_token_alice_old:
  "example_b64_json_loads (pad_b64 (py_split (CHR ''.'') token_alice_old ! 1)) =
     Inr (JObj payload_alice_old)"
  by (simp add: split_token_alice_old pad_b64_def example_b64_json_loads_def library_loads_def
      numeral_2_eq_2 b64decode_alice_old example_json_loads_table)

lemma decode_token_anonymous:
  "example_b64_json_loads (pad_b64 (py_split (CHR ''.'') token_anonymous ! 1)) =
     Inr (JObj payload_anonymous)"
  by (simp add: split_token_anonymous pad_b64_def example_b64_json_loads_def library_loads_def
      b64decode_anonymous example_json_loads_table)

lemma validate_body_bob:
  "validate_body cfg example_b64_json_loads now (JStr token_bob) =
     validate_payload cfg now (JObj payload_bob)"
  using decode_token_bob by (simp add: validate_body_def Let_def split_token_bob)

lemma validate_body_alice:
  "validate_body cfg example_b64_json_loads now (JStr token_alice) =
     validate_payload cfg now (JObj payload_alice)"
  using decode_token_alice by (simp add: validate_body_def Let_def split_token_alice)

lemma validate_payload_bob:
  "validate_payload example_settings 1700000000 (JObj payload_bob) =
     Inr (Some \<lparr>ui_username = JStr ''bob'', ui_tenant_id = JStr ''tacc'', ui_sub = JNull,
        ui_exp = JInt 0, ui_iat = JNull, ui_email = JNull, ui_given_name = JNull,
        ui_family_name = JNull, ui_display_name = JNull\<rparr>)"
  by (simp add: validate_payload_def Let_def tenant_id_of_def username_of_def
      token_expired_def py_or_def dict_get_def dict_get_default_def
      payload_bob_def example_settings_def)

lemma validate_payload_alice:
  "validate_payload example_settings 1700000000 (JObj payload_alice) =
     Inr (Some \<lparr>ui_username = JStr ''alice'', ui_tenant_id = JStr ''tacc'', ui_sub = JNull,
        ui_exp = JInt 9999999999, ui_iat = JNull, ui_email = JNull, ui_given_name = JNull,
        ui_family_name = JNull, ui_display_name = JNull\<rparr>)"
  by (simp add: validate_payload_def Let_def tenant_id_of_def username_of_def
      token_expired_def py_or_def dict_get_def dict_get_default_def
      payload_alice_def example_settings_def)

text \<open>
  C4, as stated, fails. The payload
  \<^verbatim>\<open>{"tapis/username": "", "username": "bob", "exp": 0}\<close> is decoded at time 1700000000:
  the first present username claim is the empty \<^verbatim>\<open>tapis/username\<close>, yet the identity
  returned carries \<^verbatim>\<open>bob\<close>; and \<^verbatim>\<open>exp\<close> lies in the past, yet an identity is returned.
\<close>

theorem C4_first_present_counterexample:
  "map_option ui_username
     (validate_token_with_tapis example_settings example_b64_json_loads 1700000000 (JStr token_bob))
     = Some (JStr ''bob'') \<and>
   spec_first_present_username payload_bob = JStr [] \<and>
   dict_get payload_bob ''exp'' = JInt 0 \<and> (0::int) < 1700000000"
  by (simp add: validate_token_with_tapis_def validate_body_bob validate_payload_bob)
     (simp add: spec_first_present_username_def dict_has_def dict_get_def dict_get_default_def
        payload_bob_def)

text \<open>
  C4, amended. For every 3-segment token whose padded second segment the library decodes
  to JSON: an identity that is returned comes from a JSON object and carries the first
  truthy (present, non-null, non-empty) of its claims \<^verbatim>\<open>tapis/username\<close>, \<^verbatim>\<open>username\<close>,
  \<^verbatim>\<open>sub\<close>; and no identity is returned whenever \<^verbatim>\<open>exp\<close> is a non-zero integer in the
  past, or none of the three username claims is truthy, or the JSON is not an object.
\<close>

theorem C4_username_and_rejection:
  assumes parts: "length (py_split (CHR ''.'') tok) = 3"
    and dec: "b64_json_loads (pad_b64 (py_split (CHR ''.'') tok ! 1)) = Inr decoded"
  shows "(\<forall>info. validate_token_with_tapis cfg b64_json_loads now (JStr tok) = Some info \<longrightarrow>
            (\<exists>payload. decoded = JObj payload \<and>
               truthy (ui_username info) \<and>
               ui_username info =
                 (if truthy (dict_get payload ''tapis/username'') then dict_get payload ''tapis/username''
                  else if truthy (dict_get payload ''username'') then dict_get payload ''username''
                  else dict_get payload ''sub''))) \<and>
         (\<forall>payload e. decoded = JObj payload \<and> dict_get payload ''exp'' = JInt e \<and> e \<noteq> 0 \<and> e < now \<longrightarrow>
            validate_token_with_tapis cfg b64_json_loads now (JStr tok) = None) \<and>
         (\<forall>payload. decoded = JObj payload \<and>
            \<not> truthy (dict_get payload ''tapis/username'') \<and>
            \<not> truthy (dict_get payload ''username'') \<and>
            \<not> truthy (dict_get payload ''sub'') \<longrightarrow>
            validate_token_with_tapis cfg b64_json_loads now (JStr tok) = None) \<and>
         ((\<forall>payload. decoded \<noteq> JObj payload) \<longrightarrow>
            validate_token_with_tapis cfg b64_json_loads now (JStr tok) = None)"
proof -
  have v: "validate_token_with_tapis cfg b64_json_loads now (JStr tok) =
           (case validate_payload cfg now decoded of Inl e \<Rightarrow> None | Inr r \<Rightarrow> r)"
    using parts dec by (simp add: validate_token_with_tapis_def validate_body_def Let_def)
  have u: "username_of payload =
              (if truthy (dict_get payload ''tapis/username'') then dict_get payload ''tapis/username''
               else if truthy (dict_get payload ''username'') then dict_get payload ''username''
               else dict_get payload ''sub'')" for payload
    by (simp add: username_of_def py_or_def)
  have n: "(\<forall>payload. decoded \<noteq> JObj payload) \<longrightarrow>
            validate_token_with_tapis cfg b64_json_loads now (JStr tok) = None"
    by (cases decoded) (simp_all add: v validate_payload_def)
  have a: "\<forall>info. validate_token_with_tapis cfg b64_json_loads now (JStr tok) = Some info \<longrightarrow>
            (\<exists>payload. decoded = JObj payload \<and>
               truthy (ui_username info) \<and> ui_username info = username_of payload)"
  proof (intro allI impI)
    fix info
    assume s: "validate_token_with_tapis cfg b64_json_loads now (JStr tok) = Some info"
    with n obtain payload where p: "decoded = JObj payload" by auto
    from s have "validate_payload cfg now (JObj payload) = Inr (Some info)"
      unfolding v p by (auto split: sum.splits)
    from validate_payload_Some [OF this] p
    show "\<exists>payload. decoded = JObj payload \<and>
               truthy (ui_username info) \<and> ui_username info = username_of payload"
      by auto
  qed
  have b: "\<forall>payload e. decoded = JObj payload \<and> dict_get payload ''exp'' = JInt e \<and> e \<noteq> 0 \<and> e < now \<longrightarrow>
            validate_token_with_tapis cfg b64_json_loads now (JStr tok) = None"
    by (auto simp: v validate_payload_def token_expired_def Let_def split: sum.splits)
  have c: "\<forall>payload. decoded = JObj payload \<and> \<not> truthy (username_of payload) \<longrightarrow>
            validate_token_with_tapis cfg b64_json_loads now (JStr tok) = None"
    by (auto simp: v validate_payload_def Let_def split: sum.splits bool.splits)
  show ?thesis using a b c n unfolding u by auto
qed

theorem C4_username_and_rejection_witness:
  "length (py_split (CHR ''.'') token_alice) = 3 \<and>
   example_b64_json_loads (pad_b64 (py_split (CHR ''.'') token_alice ! 1)) = Inr (JObj payload_alice) \<and>
   map_option ui_username
     (validate_token_with_tapis example_settings example_b64_json_loads 1700000000 (JStr token_alice))
     = Some (JStr ''alice'') \<and>
   dict_get payload_alice_old ''exp'' = JInt 1000 \<and>
   validate_token_with_tapis example_settings example_b64_json_loads 1700000000
     (JStr token_alice_old) = None \<and>
   validate_token_with_tapis example_settings example_b64_json_loads 1700000000
     (JStr token_anonymous) = None"
proof -
  have la: "length (py_split (CHR ''.'') token_alice) = 3" by (simp add: split_token_alice)
  have lo: "length (py_split (CHR ''.'') token_alice_old) = 3" by (simp add: split_token_alice_old)
  have ln: "length (py_split (CHR ''.'') token_anonymous) = 3" by (simp add: split_token_anonymous)
  have ex: "dict_get payload_alice_old ''exp'' = JInt 1000"
    by (simp add: dict_get_def dict_get_default_def payload_alice_old_def)
  have nu: "\<not> truthy (dict_get payload_anonymous ''tapis/username'') \<and>
            \<not> truthy (dict_get payload_anonymous ''username'') \<and>
            \<not> truthy (dict_get payload_anonymous ''sub'')"
    by (simp add: dict_get_def dict_get_default_def payload_anonymous_def)
  have va: "validate_token_with_tapis example_settings example_b64_json_loads 1700000000
              (JStr token_alice) \<noteq> None"
    by (simp add: validate_token_with_tapis_def validate_body_alice validate_payload_alice)
  have ua: "dict_get payload_alice ''username'' = JStr ''alice'' \<and>
            dict_get payload_alice ''tapis/username'' = JNull"
    by (simp add: dict_get_def dict_get_default_def payload_alice_def)
  from C4_username_and_rejection
         [where tok = token_alice and b64_json_loads = example_b64_json_loads and decoded = "JObj payload_alice"
            and cfg = example_settings and now = 1700000000, OF la decode_token_alice] va ua
  have 1: "map_option ui_username
     (validate_token_with_tapis example_settings example_b64_json_loads 1700000000 (JStr token_alice))
     = Some (JStr ''alice'')"
    by auto
  from C4_username_and_rejection
         [where tok = token_alice_old and b64_json_loads = example_b64_json_loads and decoded = "JObj payload_alice_old"
            and cfg = example_settings and now = 1700000000, OF lo decode_token_alice_old] ex
  have 2: "validate_token_with_tapis example_settings example_b64_json_loads 1700000000
     (JStr token_alice_old) = None"
    by simp
  from C4_username_and_rejection
         [where tok = token_anonymous and b64_json_loads = example_b64_json_loads and decoded = "JObj payload_anonymous"
            and cfg = example_settings and now = 1700000000, OF ln decode_token_anonymous] nu
  have 3: "validate_token_with_tapis example_settings example_b64_json_loads 1700000000
     (JStr token_anonymous) = None"
    by simp
  show ?thesis using la decode_token_alice 1 ex 2 3 by simp
qed

lemma split_token_alice_dirty:
  "py_split (CHR ''.'') token_alice_dirty =
     [''hdr'', ''eyJ1c2Vy@@@@bmFtZSI6ImFsaWNlIiwiZXhwIjo5OTk5OTk5OTk5fQ'', ''sig'']"
  by (simp add: token_alice_dirty_def)

lemma b64decode_alice_dirty:
  "urlsafe_b64decode ''eyJ1c2Vy@@@@bmFtZSI6ImFsaWNlIiwiZXhwIjo5OTk5OTk5OTk5fQ=='' = Inr bytes_alice"
  by (simp add: urlsafe_b64decode_def b64_value_def b64_table_def bytes_alice_def)

lemma validate_body_alice_dirty:
  "validate_body cfg example_b64_json_loads now (JStr token_alice_dirty) =
     validate_payload cfg now (JObj payload_alice)"
  by (simp add: validate_body_def Let_def split_token_alice_dirty pad_b64_def numeral_2_eq_2
      example_b64_json_loads_def library_loads_def b64decode_alice_dirty example_json_loads_table)

text \<open>The decoder discards a character outside the alphabet, wherever it stands.\<close>

lemma a2b_base64_discards:
  assumes "b64_value c = None" and "c \<noteq> CHR ''=''"
  shows "a2b_base64 quad_pos leftchar pads (xs @ c # ys) = a2b_base64 quad_pos leftchar pads (xs @ ys)"
  using assms
  by (induction quad_pos leftchar pads xs rule: a2b_base64.induct) (auto split: option.splits)

text \<open>
  C6, as stated, fails in its second half. The payload segment of \<open>token_alice_dirty\<close> holds
  four characters \<^verbatim>\<open>@\<close> and so is not valid base64url; the library discards them, the rest
  decodes to the payload of \<^verbatim>\<open>alice\<close>, and the validation returns her identity.
\<close>

theorem C6_lenient_decoder_counterexample:
  "length (py_split (CHR ''.'') token_alice_dirty) = 3 \<and>
   \<not> valid_base64url (py_split (CHR ''.'') token_alice_dirty ! 1) \<and>
   map_option ui_username
     (validate_token_with_tapis example_settings example_b64_json_loads 1700000000
        (JStr token_alice_dirty)) = Some (JStr ''alice'')"
  by (simp add: split_token_alice_dirty valid_base64url_def base64url_char_def
      validate_token_with_tapis_def validate_body_alice_dirty validate_payload_alice)

text \<open>
  C6, amended. A token string whose split at the dots does not give exactly 3 segments
  yields no identity, and no exception is raised, not even one for the outer handler.
  A 3-segment token yields no identity, and the method raises nothing, whenever the
  decoding of its padded second segment raises: for the standard library that is a
  non-ASCII character in the segment, leftover characters at the end of the base64
  decoding (characters outside the alphabet are discarded first and do not count), or
  an error of the UTF-8 decoding or the JSON parsing of the decoded bytes.
\<close>

theorem C6_malformed_token_rejected:
  "(length (py_split (CHR ''.'') tok) \<noteq> 3 \<longrightarrow>
      validate_body cfg b64_json_loads now (JStr tok) = Inr None \<and>
      validate_token_with_tapis cfg b64_json_loads now (JStr tok) = None) \<and>
   (length (py_split (CHR ''.'') tok) = 3 \<and>
    b64_json_loads (pad_b64 (py_split (CHR ''.'') tok ! 1)) = Inl err \<longrightarrow>
      validate_token_with_tapis cfg b64_json_loads now (JStr tok) = None) \<and>
   (length (py_split (CHR ''.'') tok) = 3 \<and>
    (list_ex digit7 (py_split (CHR ''.'') tok ! 1) \<or>
     a2b_base64 0 0 0 (pad_b64 (py_split (CHR ''.'') tok ! 1)) = Inl err \<or>
     (\<exists>payload_bytes.
        urlsafe_b64decode (pad_b64 (py_split (CHR ''.'') tok ! 1)) = Inr payload_bytes \<and>
        json_loads payload_bytes = Inl err)) \<longrightarrow>
      validate_token_with_tapis cfg (library_loads json_loads) now (JStr tok) = None)"
proof -
  have a: "length (py_split (CHR ''.'') tok) \<noteq> 3 \<longrightarrow>
      validate_body cfg b64_json_loads now (JStr tok) = Inr None \<and>
      validate_token_with_tapis cfg b64_json_loads now (JStr tok) = None"
    by (simp add: validate_token_with_tapis_def validate_body_def Let_def)
  have b: "validate_token_with_tapis cfg f now (JStr tok) = None"
    if "length (py_split (CHR ''.'') tok) = 3"
      and "f (pad_b64 (py_split (CHR ''.'') tok ! 1)) = Inl e" for f e
    using that by (simp add: validate_token_with_tapis_def validate_body_def Let_def)
  have pad: "list_ex digit7 (pad_b64 s) = list_ex digit7 s" for s
    by (auto simp: pad_b64_def Let_def list_ex_iff)
  have c: "\<exists>e. library_loads json_loads (pad_b64 (py_split (CHR ''.'') tok ! 1)) = Inl e"
    if "list_ex digit7 (py_split (CHR ''.'') tok ! 1) \<or>
     a2b_base64 0 0 0 (pad_b64 (py_split (CHR ''.'') tok ! 1)) = Inl err \<or>
     (\<exists>payload_bytes.
        urlsafe_b64decode (pad_b64 (py_split (CHR ''.'') tok ! 1)) = Inr payload_bytes \<and>
        json_loads payload_bytes = Inl err)"
    using that by (auto simp: library_loads_def urlsafe_b64decode_def pad)
  show ?thesis using a b c by blast
qed

theorem C6_malformed_token_rejected_witness:
  "length (py_split (CHR ''.'') ''hdr.payload'') = 2 \<and>
   validate_token_with_tapis example_settings example_b64_json_loads 1700000000
     (JStr ''hdr.payload'') = None \<and>
   length (py_split (CHR ''.'') ''hdr.A.sig'') = 3 \<and>
   a2b_base64 0 0 0 (pad_b64 (py_split (CHR ''.'') ''hdr.A.sig'' ! 1)) = Inl Base64Error \<and>
   validate_token_with_tapis example_settings (library_loads example_json_loads) 1700000000
     (JStr ''hdr.A.sig'') = None \<and>
   length (py_split (CHR ''.'') ''hdr.@@@@.sig'') = 3 \<and>
   urlsafe_b64decode (pad_b64 (py_split (CHR ''.'') ''hdr.@@@@.sig'' ! 1)) = Inr [] \<and>
   example_json_loads [] = Inl JSONDecodeError \<and>
   validate_token_with_tapis example_settings (library_loads example_json_loads) 1700000000
     (JStr ''hdr.@@@@.sig'') = None \<and>
   length (py_split (CHR ''.'') token_non_ascii) = 3 \<and>
   list_ex digit7 (py_split (CHR ''.'') token_non_ascii ! 1) \<and>
   validate_token_with_tapis example_settings (library_loads example_json_loads) 1700000000
     (JStr token_non_ascii) = None"
proof -
  have s2: "py_split (CHR ''.'') ''hdr.payload'' = [''hdr'', ''payload'']" by simp
  have s3: "py_split (CHR ''.'') ''hdr.A.sig'' = [''hdr'', ''A'', ''sig'']" by simp
  have s4: "py_split (CHR ''.'') ''hdr.@@@@.sig'' = [''hdr'', ''@@@@'', ''sig'']" by simp
  have s5: "py_split (CHR ''.'') token_non_ascii = [''hdr'', ''eyJ1c2Vy'' @ [CHR 0xE9] @ ''bmFt'', ''sig'']"
    by (simp add: token_non_ascii_def)
  have l2: "length (py_split (CHR ''.'') ''hdr.payload'') = 2" unfolding s2 by simp
  have l3: "length (py_split (CHR ''.'') ''hdr.A.sig'') = 3" unfolding s3 by simp
  have l4: "length (py_split (CHR ''.'') ''hdr.@@@@.sig'') = 3" unfolding s4 by simp
  have l5: "length (py_split (CHR ''.'') token_non_ascii) = 3" unfolding s5 by simp
  have d3: "a2b_base64 0 0 0 (pad_b64 (py_split (CHR ''.'') ''hdr.A.sig'' ! 1)) = Inl Base64Error"
    unfolding s3 by (simp add: pad_b64_def b64_value_def b64_table_def numeral_3_eq_3)
  have d4: "urlsafe_b64decode (pad_b64 (py_split (CHR ''.'') ''hdr.@@@@.sig'' ! 1)) = Inr []"
    unfolding s4 by (simp add: pad_b64_def urlsafe_b64decode_def b64_value_def b64_table_def)
  have j4: "example_json_loads [] = Inl JSONDecodeError" by (rule example_json_loads_table)
  have d5: "list_ex digit7 (py_split (CHR ''.'') token_non_ascii ! 1)"
    unfolding s5 by simp
  from C6_malformed_token_rejected
         [of "''hdr.payload''" example_settings example_b64_json_loads 1700000000] l2
  have 1: "validate_token_with_tapis example_settings example_b64_json_loads 1700000000
     (JStr ''hdr.payload'') = None" by simp
  from C6_malformed_token_rejected
         [where tok = "''hdr.A.sig''" and cfg = example_settings and now = 1700000000
            and err = Base64Error and json_loads = example_json_loads] l3 d3
  have 2: "validate_token_with_tapis example_settings (library_loads example_json_loads) 1700000000
     (JStr ''hdr.A.sig'') = None" by simp
  from C6_malformed_token_rejected
         [where tok = "''hdr.@@@@.sig''" and cfg = example_settings and now = 1700000000
            and err = JSONDecodeError and json_loads = example_json_loads] l4 d4 j4
  have 3: "validate_token_with_tapis example_settings (library_loads example_json_loads) 1700000000
     (JStr ''hdr.@@@@.sig'') = None" by simp
  from C6_malformed_token_rejected
         [where tok = token_non_ascii and cfg = example_settings and now = 1700000000
            and json_loads = example_json_loads] l5 d5
  have 4: "validate_token_with_tapis example_settings (library_loads example_json_loads) 1700000000
     (JStr token_non_ascii) = None" by simp
  show ?thesis using l2 1 l3 d3 2 l4 d4 j4 3 l5 d5 4 by simp
qed

subsection \<open>The callback: state handling\<close>

lemma get_state_Inr_filter:
  "get_state rows s = Inr obj \<Longrightarrow> filter (\<lambda>r. st_state r = s) rows = [obj]"
  by (auto simp: get_state_def split: list.splits)

lemma delete_state_removes:
  assumes "get_state rows s = Inr obj"
  shows "\<forall>r \<in> set (delete_state obj rows). st_state r \<noteq> s"
proof
  fix r assume r: "r \<in> set (delete_state obj rows)"
  show "st_state r \<noteq> s"
  proof
    assume "st_state r = s"
    with r have "r \<in> set (filter (\<lambda>r. st_state r = s) rows)"
      by (simp add: delete_state_def)
    then have "r = obj" using get_state_Inr_filter [OF assms] by simp
    with r show False by (simp add: delete_state_def)
  qed
qed

lemma get_state_absent:
  "\<forall>r \<in> set rows. st_state r \<noteq> s \<Longrightarrow> get_state rows s = Inl DoesNotExist"
  by (simp add: get_state_def filter_False)

lemma extract_jwt_no_redirect: "extract_jwt td \<noteq> Inl (Some (HttpResponseRedirect url))"
  by (simp add: extract_jwt_def Let_def split: option.splits json.splits)

lemma callback_exchange_success:
  assumes "callback_exchange env code obj client d = (HttpResponseRedirect url, d')"
  shows "states d' = delete_state obj (states d)"
  using assms extract_jwt_no_redirect
  by (auto simp: callback_exchange_def Let_def json_error_def callback_failed_def
      split: if_splits json.splits sum.splits option.splits)

lemma callback_get_success:
  assumes "callback_get env request d = (HttpResponseRedirect url, d')"
  shows "\<exists>s obj. q_state request = Some s \<and> get_state (states d) s = Inr obj \<and>
           states d' = delete_state obj (states d)"
  using assms callback_exchange_success
  by (auto simp: callback_get_def json_error_def callback_failed_def
      split: if_splits option.splits list.splits sum.splits)


lemma authenticate_alice:
  "authenticate example_settings example_b64_json_loads 1700000000 (\<lambda>info. Inr (Some 7))
     (JStr token_alice) = Some 7"
proof -
  have t: "token_alice \<noteq> []" by (simp add: token_alice_def)
  have c: "\<not> not_configured (TAPIS_BASE_URL example_settings)"
    "\<not> not_configured (TAPIS_TENANT_ID example_settings)"
    by (simp_all add: not_configured_def example_settings_def)
  show ?thesis
    by (simp add: authenticate_def t c validate_token_with_tapis_def
        validate_body_alice validate_payload_alice)
qed

lemma exchange_example:
  "exchange_code_for_tokens example_http_post example_client code = JObj example_token_data"
  by (simp add: exchange_code_for_tokens_def example_http_post_def dict_get_def
      dict_get_default_def dict_has_def)

lemma extract_jwt_example: "extract_jwt example_token_data = Inr (JStr token_alice)"
  by (simp add: extract_jwt_def example_token_data_def example_nested_def dict_get_def
      dict_get_default_def dict_has_def)

lemma store_example:
  "store_user_tokens f t 7 example_client example_token_data [] = [example_token]"
  "store_user_tokens f t 7 example_client example_token_data [example_old_token] = [example_token]"
  by (simp_all add: store_user_tokens_def store_user_tokens_body_def expiry_of_def
      update_or_create_token_def token_saveable_def example_token_def example_token_data_def
      example_old_token_def example_client_def dict_get_def dict_get_default_def to_python_def)

lemma trigger_example:
  "trigger_flight_discovery (example_env t) 7 example_client [] =
     ([(default_preferences 7)\<lparr>last_auto_discovery := Some t\<rparr>],
      [EvDispatched ''task-1'', EvLastDiscoveryUpdated t])"
  by (simp add: trigger_flight_discovery_def get_or_create_for_user_def
      should_run_auto_discovery_def update_last_discovery_def default_preferences_def
      example_env_def)

lemma callback_exchange_example:
  "callback_exchange (example_env t) ''abc'' example_state example_client example_db =
     (HttpResponseRedirect ''/projects/'', example_db_after t)"
proof -
  have e: "ce_http (example_env t) = example_http_post"
    "ce_cfg (example_env t) = example_settings"
    "ce_b64_json_loads (example_env t) = example_b64_json_loads"
    "ce_current_time (example_env t) = 1700000000"
    "ce_get_or_create_user (example_env t) = (\<lambda>info. Inr (Some 7))"
    "\<not> ce_login_raises (example_env t)"
    by (simp_all add: example_env_def)
  have a: "dict_has example_token_data ''access_token''"
    by (simp add: dict_has_def example_token_data_def)
  have r: "redirect_after_auth example_state = ''/projects/''"
    by (simp add: example_state_def)
  have n: "example_token_data \<noteq> []"
    by (simp add: example_token_data_def)
  show ?thesis
    unfolding callback_exchange_def e exchange_example
    by (simp add: a n extract_jwt_example authenticate_alice e Let_def store_example
        trigger_example r example_db_def example_db_after_def delete_state_def)
qed

lemma callback_get_example:
  assumes "t \<le> 1700000600000000"
  shows "callback_get (example_env t) example_callback example_db =
     (HttpResponseRedirect ''/projects/'', example_db_after t)"
proof -
  have g: "get_state (states example_db) ''xyzzy'' = Inr example_state"
    by (simp add: get_state_def example_db_def example_state_def)
  have x: "\<not> st_is_expired (ce_now_state (example_env t)) example_state"
    using assms by (simp add: st_is_expired_def example_env_def example_state_def)
  have c: "client_of_state (clients example_db) (st_client example_state) = Inr example_client"
    by (simp add: client_of_state_def example_db_def example_state_def example_client_def)
  have q: "q_error example_callback = None" "q_code example_callback = Some ''abc''"
    "q_state example_callback = Some ''xyzzy''"
    by (simp_all add: example_callback_def)
  show ?thesis
    unfolding callback_get_def q by (simp add: g x c callback_exchange_example)
qed

text \<open>
  C1. A callback that succeeds (a redirect) carried a state whose row it has deleted
  before redirecting. Any later callback presenting the same state value, with a code
  and no \<^verbatim>\<open>error\<close> parameter, on tables that hold no row for it (those the successful
  callback leaves, for one), is answered 400 \<^verbatim>\<open>Invalid OAuth2 state\<close>, so the state is used
  at most once. Whatever its other parameters, a callback with that state value is
  answered 400 and changes nothing.
\<close>

theorem C1_state_single_use:
  assumes ok: "callback_get env request d = (HttpResponseRedirect url, d')"
  shows "(\<exists>s. q_state request = Some s \<and> s \<noteq> [] \<and> (\<forall>r \<in> set (states d'). st_state r \<noteq> s)) \<and>
         (\<forall>env2 request2 d2.
            q_state request2 = q_state request \<and>
            (\<forall>r \<in> set (states d2). Some (st_state r) \<noteq> q_state request) \<longrightarrow>
              status_code (fst (callback_get env2 request2 d2)) = 400 \<and>
              snd (callback_get env2 request2 d2) = d2 \<and>
              (param_truthy (q_code request2) \<and> \<not> param_truthy (q_error request2) \<longrightarrow>
                 fst (callback_get env2 request2 d2) = json_error ''Invalid OAuth2 state'' 400))"
proof -
  from callback_get_success [OF ok] obtain s obj where
    s: "q_state request = Some s" and g: "get_state (states d) s = Inr obj"
    and d': "states d' = delete_state obj (states d)" by blast
  have ne: "s \<noteq> []"
    using ok s by (auto simp: callback_get_def json_error_def split: option.splits list.splits)
  have gone: "\<forall>r \<in> set (states d'). st_state r \<noteq> s"
    using delete_state_removes [OF g] d' by simp
  have second: "status_code (fst (callback_get env2 request2 d2)) = 400 \<and>
              snd (callback_get env2 request2 d2) = d2 \<and>
              (param_truthy (q_code request2) \<and> \<not> param_truthy (q_error request2) \<longrightarrow>
                 fst (callback_get env2 request2 d2) = json_error ''Invalid OAuth2 state'' 400)"
    if q: "q_state request2 = q_state request"
      and a: "\<forall>r \<in> set (states d2). Some (st_state r) \<noteq> q_state request"
    for env2 request2 d2
  proof -
    have "\<forall>r \<in> set (states d2). st_state r \<noteq> s" using a s by auto
    then have "get_state (states d2) s = Inl DoesNotExist" by (rule get_state_absent)
    then show ?thesis
      using q s ne
      by (auto simp: callback_get_def json_error_def status_code_def param_truthy_def
          split: option.splits list.splits)
  qed
  show ?thesis using s ne gone second by blast
qed


theorem C1_state_single_use_witness:
  "callback_get (example_env example_T) example_callback example_db =
     (HttpResponseRedirect ''/projects/'', example_db_after example_T) \<and>
   states (example_db_after example_T) = [] \<and>
   param_truthy (q_code example_callback) \<and> \<not> param_truthy (q_error example_callback) \<and>
   callback_get (example_env example_T) example_callback (example_db_after example_T) =
     (json_error ''Invalid OAuth2 state'' 400, example_db_after example_T)"
proof -
  have t: "example_T \<le> 1700000600000000" by (simp add: example_T_def)
  note ok = callback_get_example [OF t]
  have e: "states (example_db_after example_T) = []" by (simp add: example_db_after_def)
  have p: "param_truthy (q_code example_callback)" "\<not> param_truthy (q_error example_callback)"
    by (simp_all add: param_truthy_def example_callback_def)
  from C1_state_single_use [OF ok] have
    "\<forall>env2 request2 d2.
            q_state request2 = q_state example_callback \<and>
            (\<forall>r \<in> set (states d2). Some (st_state r) \<noteq> q_state example_callback) \<longrightarrow>
              status_code (fst (callback_get env2 request2 d2)) = 400 \<and>
              snd (callback_get env2 request2 d2) = d2 \<and>
              (param_truthy (q_code request2) \<and> \<not> param_truthy (q_error request2) \<longrightarrow>
                 fst (callback_get env2 request2 d2) = json_error ''Invalid OAuth2 state'' 400)"
    by blast
  then have "snd (callback_get (example_env example_T) example_callback (example_db_after example_T))
                = example_db_after example_T \<and>
             fst (callback_get (example_env example_T) example_callback (example_db_after example_T))
                = json_error ''Invalid OAuth2 state'' 400"
    using e p by simp
  then have "callback_get (example_env example_T) example_callback (example_db_after example_T) =
     (json_error ''Invalid OAuth2 state'' 400, example_db_after example_T)"
    by (simp add: prod_eq_iff)
  then show ?thesis using ok e p by simp
qed

lemma get_client_or_404_active:
  "get_client_or_404 cs cid = Inr c \<Longrightarrow> \<exists>c'. client_of_state cs cid = Inr c' \<and> client_id c' = cid"
proof -
  assume a: "get_client_or_404 cs cid = Inr c"
  then have "filter (\<lambda>c. client_id c = cid \<and> is_active c) cs = [c]"
    by (auto simp: get_client_or_404_def split: list.splits)
  then have "c \<in> set (filter (\<lambda>c. client_id c = cid \<and> is_active c) cs)" by simp
  then have "c \<in> set (filter (\<lambda>c. client_id c = cid) cs)" by simp
  then obtain c' rest where f: "filter (\<lambda>c. client_id c = cid) cs = c' # rest"
    by (cases "filter (\<lambda>c. client_id c = cid) cs") auto
  then have "c' \<in> set (filter (\<lambda>c. client_id c = cid) cs)" by simp
  then have "client_id c' = cid" by simp
  with f show ?thesis by (simp add: client_of_state_def)
qed

lemma authorize_get_success:
  assumes "authorize_get urlencode T new_state request cid d = (HttpResponseRedirect url, d')"
  shows "\<exists>client. get_client_or_404 (clients d) cid = Inr client \<and>
           \<not> list_ex (\<lambda>r. st_state r = new_state) (states d) \<and>
           d' = d\<lparr>states := states d @
                  [\<lparr>st_id = next_state_id (states d), st_state = new_state,
                    st_user = ar_user request, st_client = client_id client,
                    redirect_after_auth =
                      (case ar_redirect_after request of None \<Rightarrow> ''/dashboard/'' | Some r \<Rightarrow> r),
                    st_expires_at = T + timedelta_minutes 10\<rparr>]\<rparr>"
  using assms
  by (auto simp: authorize_get_def Let_def split: sum.splits if_splits)

text \<open>
  C5, amended. A state created by the authorize view at time \<open>T\<close> has
  \<open>expires_at = T + 10 minutes\<close>. A callback presenting it (with a code and no \<^verbatim>\<open>error\<close>
  parameter) whose state check reads a time up to and including \<open>T + 10 minutes\<close> is
  accepted: the state is not expired and the view goes on to the code exchange. One
  that reads a time strictly after \<open>T + 10 minutes\<close> is answered 400
  \<^verbatim>\<open>OAuth2 state expired\<close>, and the row is deleted.
\<close>

theorem C5_state_expiry_window:
  assumes ok: "authorize_get urlencode T new_state request cid d = (HttpResponseRedirect url, d')"
    and ne: "new_state \<noteq> []"
  shows "\<exists>row client.
           states d' = states d @ [row] \<and> st_state row = new_state \<and>
           st_expires_at row = T + timedelta_minutes 10 \<and>
           get_state (states d') new_state = Inr row \<and>
           client_of_state (clients d') (st_client row) = Inr client \<and>
           (\<forall>env req.
              q_state req = Some new_state \<and> param_truthy (q_code req) \<and>
              \<not> param_truthy (q_error req) \<longrightarrow>
                (ce_now_state env \<le> T + timedelta_minutes 10 \<longrightarrow>
                   \<not> st_is_expired (ce_now_state env) row \<and>
                   (\<exists>code. q_code req = Some code \<and>
                      callback_get env req d' = callback_exchange env code row client d')) \<and>
                (T + timedelta_minutes 10 < ce_now_state env \<longrightarrow>
                   st_is_expired (ce_now_state env) row \<and>
                   callback_get env req d' =
                     (json_error ''OAuth2 state expired'' 400,
                      d'\<lparr>states := delete_state row (states d')\<rparr>)))"
proof -
  from authorize_get_success [OF ok] obtain client where
    c: "get_client_or_404 (clients d) cid = Inr client"
    and fresh: "\<not> list_ex (\<lambda>r. st_state r = new_state) (states d)"
    and d': "d' = d\<lparr>states := states d @
                  [\<lparr>st_id = next_state_id (states d), st_state = new_state,
                    st_user = ar_user request, st_client = client_id client,
                    redirect_after_auth =
                      (case ar_redirect_after request of None \<Rightarrow> ''/dashboard/'' | Some r \<Rightarrow> r),
                    st_expires_at = T + timedelta_minutes 10\<rparr>]\<rparr>"
    by blast
  define row where "row = \<lparr>st_id = next_state_id (states d), st_state = new_state,
                    st_user = ar_user request, st_client = client_id client,
                    redirect_after_auth =
                      (case ar_redirect_after request of None \<Rightarrow> ''/dashboard/'' | Some r \<Rightarrow> r),
                    st_expires_at = T + timedelta_minutes 10\<rparr>"
  have s: "states d' = states d @ [row]" and cl: "clients d' = clients d"
    by (simp_all add: d' row_def)
  have r1: "st_state row = new_state" "st_expires_at row = T + timedelta_minutes 10"
    "st_client row = client_id client"
    by (simp_all add: row_def)
  have cid: "client_id client = cid"
    using c by (auto simp: get_client_or_404_def split: list.splits
        dest!: arg_cong [where f = set])
  have "filter (\<lambda>r. st_state r = new_state) (states d) = []"
    using fresh by (simp add: list_ex_iff filter_empty_conv)
  then have g: "get_state (states d') new_state = Inr row"
    by (simp add: get_state_def s r1)
  from get_client_or_404_active [OF c] obtain c' where
    c': "client_of_state (clients d') (st_client row) = Inr c'"
    by (auto simp: cl r1 cid)
  have main: "(ce_now_state env \<le> T + timedelta_minutes 10 \<longrightarrow>
                   \<not> st_is_expired (ce_now_state env) row \<and>
                   (\<exists>code. q_code req = Some code \<and>
                      callback_get env req d' = callback_exchange env code row c' d')) \<and>
                (T + timedelta_minutes 10 < ce_now_state env \<longrightarrow>
                   st_is_expired (ce_now_state env) row \<and>
                   callback_get env req d' =
                     (json_error ''OAuth2 state expired'' 400,
                      d'\<lparr>states := delete_state row (states d')\<rparr>))"
    if q: "q_state req = Some new_state" "param_truthy (q_code req)" "\<not> param_truthy (q_error req)"
    for env req
    using q ne g c'
    by (auto simp: callback_get_def st_is_expired_def r1 param_truthy_def
        split: option.splits list.splits)
  show ?thesis using s r1 g c' main by blast
qed


lemma authorize_example:
  "authorize_get example_urlencode example_T ''xyzzy'' example_authorize_request ''demo'' example_db0 =
     (HttpResponseRedirect
        (''https://x.tapis.io/v3/oauth2/authorize?'' @
         ''client_id=demo&response_type=code&redirect_uri=https%3A%2F%2Fwebodm.example%2Fcallback&state=xyzzy&scope=openid+profile''),
      example_db)"
proof -
  have c: "get_client_or_404 (clients example_db0) ''demo'' = Inr example_client"
    by (simp add: get_client_or_404_def example_db0_def example_client_def)
  have f: "client_id example_client = ''demo''"
    "callback_url example_client = ''https://webodm.example/callback''"
    "authorization_url example_client = ''https://x.tapis.io/v3/oauth2/authorize''"
    by (simp_all add: example_client_def)
  have s: "states example_db0 = []" by (simp add: example_db0_def)
  have t: "example_T + timedelta_minutes 10 = 1700000600000000"
    by (simp add: example_T_def timedelta_minutes_def timedelta_seconds_def)
  show ?thesis
    unfolding authorize_get_def c
    by (simp add: f s t Let_def example_urlencode_def example_authorize_request_def
        next_state_id_def example_db_def example_db0_def example_state_def)
qed

text \<open>
  C5, as stated, fails. The state created at \<open>example_T\<close> expires at \<open>example_T\<close> plus 10
  minutes; a callback whose state check reads the clock at exactly that instant is not
  rejected: it logs the user in and redirects.
\<close>

theorem C5_boundary_counterexample:
  "authorize_get example_urlencode example_T ''xyzzy'' example_authorize_request ''demo'' example_db0 =
     (HttpResponseRedirect
        (''https://x.tapis.io/v3/oauth2/authorize?'' @
         ''client_id=demo&response_type=code&redirect_uri=https%3A%2F%2Fwebodm.example%2Fcallback&state=xyzzy&scope=openid+profile''),
      example_db) \<and>
   ce_now_state (example_env (example_T + timedelta_minutes 10)) = example_T + timedelta_minutes 10 \<and>
   fst (callback_get (example_env (example_T + timedelta_minutes 10)) example_callback example_db) =
     HttpResponseRedirect ''/projects/''"
proof -
  have t: "example_T + timedelta_minutes 10 \<le> 1700000600000000"
    by (simp add: example_T_def timedelta_minutes_def timedelta_seconds_def)
  show ?thesis
    by (simp add: authorize_example callback_get_example [OF t]) (simp add: example_env_def)
qed

theorem C5_state_expiry_window_witness:
  "authorize_get example_urlencode example_T ''xyzzy'' example_authorize_request ''demo'' example_db0 =
     (HttpResponseRedirect
        (''https://x.tapis.io/v3/oauth2/authorize?'' @
         ''client_id=demo&response_type=code&redirect_uri=https%3A%2F%2Fwebodm.example%2Fcallback&state=xyzzy&scope=openid+profile''),
      example_db) \<and>
   st_expires_at example_state = example_T + timedelta_minutes 10 \<and>
   \<not> st_is_expired (ce_now_state (example_env (example_T + timedelta_minutes 10))) example_state \<and>
   callback_get (example_env (example_T + timedelta_minutes 10 + 1)) example_callback example_db =
     (json_error ''OAuth2 state expired'' 400,
      example_db\<lparr>states := delete_state example_state (states example_db)\<rparr>)"
proof -
  have ne: "''xyzzy'' \<noteq> []" by simp
  have q: "q_state example_callback = Some ''xyzzy''" "param_truthy (q_code example_callback)"
    "\<not> param_truthy (q_error example_callback)"
    by (simp_all add: example_callback_def param_truthy_def)
  have n1: "ce_now_state (example_env (example_T + timedelta_minutes 10)) \<le> example_T + timedelta_minutes 10"
    by (simp add: example_env_def)
  have n2: "example_T + timedelta_minutes 10 < ce_now_state (example_env (example_T + timedelta_minutes 10 + 1))"
    by (simp add: example_env_def)
  have st: "states example_db = [example_state]" "states example_db0 = []"
    by (simp_all add: example_db_def example_db0_def)
  from C5_state_expiry_window [OF authorize_example ne] obtain row client where
    r: "states example_db = states example_db0 @ [row]"
    and e: "st_expires_at row = example_T + timedelta_minutes 10"
    and w: "\<forall>env req.
              q_state req = Some ''xyzzy'' \<and> param_truthy (q_code req) \<and>
              \<not> param_truthy (q_error req) \<longrightarrow>
                (ce_now_state env \<le> example_T + timedelta_minutes 10 \<longrightarrow>
                   \<not> st_is_expired (ce_now_state env) row \<and>
                   (\<exists>code. q_code req = Some code \<and>
                      callback_get env req example_db = callback_exchange env code row client example_db)) \<and>
                (example_T + timedelta_minutes 10 < ce_now_state env \<longrightarrow>
                   st_is_expired (ce_now_state env) row \<and>
                   callback_get env req example_db =
                     (json_error ''OAuth2 state expired'' 400,
                      example_db\<lparr>states := delete_state row (states example_db)\<rparr>))"
    by blast
  have row: "row = example_state" using r st by simp
  from w q n1 have a: "\<not> st_is_expired (ce_now_state (example_env (example_T + timedelta_minutes 10))) example_state"
    unfolding row by blast
  from w q n2 have b: "callback_get (example_env (example_T + timedelta_minutes 10 + 1)) example_callback example_db =
     (json_error ''OAuth2 state expired'' 400,
      example_db\<lparr>states := delete_state example_state (states example_db)\<rparr>)"
    unfolding row by blast
  show ?thesis using authorize_example e a b unfolding row by simp
qed

subsection \<open>Token store, discovery trigger and refresh\<close>

lemma authenticate_Some_is_str:
  "authenticate c b t g jwt_token = Some u \<Longrightarrow> \<exists>s. jwt_token = JStr s"
  by (cases jwt_token)
     (auto simp: authenticate_def validate_token_with_tapis_def validate_body_def
       split: if_splits option.splits sum.splits)

lemma callback_exchange_success_detail:
  assumes "callback_exchange env code obj client d = (HttpResponseRedirect url, d')"
  shows "\<exists>td jwt_token u.
           exchange_code_for_tokens (ce_http env) client code = JObj td \<and>
           extract_jwt td = Inr jwt_token \<and>
           authenticate (ce_cfg env) (ce_b64_json_loads env) (ce_current_time env)
             (ce_get_or_create_user env) jwt_token = Some u \<and>
           tokens d' = store_user_tokens (ce_int_of_str env) (ce_now_tokens env) u client td (tokens d)"
  using assms extract_jwt_no_redirect
  by (auto simp: callback_exchange_def Let_def json_error_def callback_failed_def
      split: if_splits json.splits sum.splits option.splits)

lemma callback_get_success_detail:
  assumes "callback_get env request d = (HttpResponseRedirect url, d')"
    and "q_code request = Some code" and "q_state request = Some s"
    and "get_state (states d) s = Inr obj"
    and "client_of_state (clients d) (st_client obj) = Inr client"
  shows "callback_exchange env code obj client d = (HttpResponseRedirect url, d')"
  using assms
  by (auto simp: callback_get_def json_error_def callback_failed_def
      split: if_splits option.splits list.splits sum.splits)

lemma filter_map_replace:
  "P new \<Longrightarrow> filter P (map (\<lambda>r. if P r then new else r) rows) = map (\<lambda>r. new) (filter P rows)"
  by (induction rows) auto

lemma update_or_create_token_get:
  assumes "update_or_create_token u cid new rows = Inr rows'"
    and "tok_user new = u" and "tok_client new = cid"
  shows "get_token rows' u cid = Inr new"
proof (cases "filter (\<lambda>r. tok_user r = u \<and> tok_client r = cid) rows")
  case Nil
  with assms show ?thesis
    by (auto simp: update_or_create_token_def get_token_def split: if_splits)
next
  case (Cons old rest)
  with assms have rest: "rest = []"
    by (auto simp: update_or_create_token_def split: list.splits)
  from assms Cons rest have r: "rows' = map (\<lambda>r. if tok_user r = u \<and> tok_client r = cid then new else r) rows"
    by (auto simp: update_or_create_token_def split: if_splits)
  have "filter (\<lambda>r. tok_user r = u \<and> tok_client r = cid) rows' = [new]"
    unfolding r
    using filter_map_replace [of "\<lambda>r. tok_user r = u \<and> tok_client r = cid" new rows] assms(2,3) Cons rest
    by simp
  then show ?thesis by (simp add: get_token_def)
qed

lemma extract_jwt_nested:
  assumes "dict_get td ''access_token'' = JObj nested"
  shows "extract_jwt td = Inr j \<Longrightarrow> dict_has nested ''access_token'' \<and> j = dict_get nested ''access_token''"
  using assms
  by (auto simp: extract_jwt_def Let_def split: if_splits json.splits option.splits)

lemma callback_get_example_returning:
  "callback_get (example_env example_T) example_callback example_db_returning =
     (HttpResponseRedirect ''/projects/'', example_db_after example_T)"
proof -
  have e: "ce_http (example_env example_T) = example_http_post"
    "ce_cfg (example_env example_T) = example_settings"
    "ce_b64_json_loads (example_env example_T) = example_b64_json_loads"
    "ce_current_time (example_env example_T) = 1700000000"
    "ce_get_or_create_user (example_env example_T) = (\<lambda>info. Inr (Some 7))"
    "\<not> ce_login_raises (example_env example_T)"
    by (simp_all add: example_env_def)
  have a: "dict_has example_token_data ''access_token''"
    by (simp add: dict_has_def example_token_data_def)
  have r: "redirect_after_auth example_state = ''/projects/''"
    by (simp add: example_state_def)
  have n: "example_token_data \<noteq> []"
    by (simp add: example_token_data_def)
  have x: "callback_exchange (example_env example_T) ''abc'' example_state example_client
             example_db_returning =
           (HttpResponseRedirect ''/projects/'', example_db_after example_T)"
    unfolding callback_exchange_def e exchange_example
    by (simp add: a n extract_jwt_example authenticate_alice e Let_def store_example
        trigger_example r example_db_returning_def example_db_after_def delete_state_def)
  have g: "get_state (states example_db_returning) ''xyzzy'' = Inr example_state"
    by (simp add: get_state_def example_db_returning_def example_state_def)
  have ne: "\<not> st_is_expired (ce_now_state (example_env example_T)) example_state"
    by (simp add: st_is_expired_def example_env_def example_state_def example_T_def)
  have c: "client_of_state (clients example_db_returning) (st_client example_state) = Inr example_client"
    by (simp add: client_of_state_def example_db_returning_def example_state_def example_client_def)
  have q: "q_error example_callback = None" "q_code example_callback = Some ''abc''"
    "q_state example_callback = Some ''xyzzy''"
    by (simp_all add: example_callback_def)
  show ?thesis
    unfolding callback_get_def q by (simp add: g ne c x)
qed

text \<open>The text of a dict is longer than any string it holds as a value.\<close>

lemma length_repr_str: "length s < length (repr_str s)"
proof -
  have l: "length s \<le> length (concat (map (repr_char q) s))" for q
  proof (induction s)
    case Nil
    show ?case by simp
  next
    case (Cons c cs)
    have "1 \<le> length (repr_char q c)" by (simp add: repr_char_def)
    with Cons show ?case by simp
  qed
  from l [of "CHR 0x22"] l [of "CHR 0x27"] show ?thesis
    by (simp add: repr_str_def Let_def)
qed

lemma length_join_comma: "x \<in> set xs \<Longrightarrow> length x \<le> length (join_comma xs)"
  by (induction xs rule: join_comma.induct) auto

lemma length_py_repr_dict:
  assumes "(k, JStr s) \<in> set kvs"
  shows "length s < length (py_repr (JObj kvs))"
proof -
  have "repr_str k @ '': '' @ py_repr (JStr s)
          \<in> set (map (\<lambda>kv. repr_str (fst kv) @ '': '' @ py_repr (snd kv)) kvs)"
    using assms by force
  from length_join_comma [OF this]
  have "length (repr_str s) \<le>
          length (join_comma (map (\<lambda>kv. repr_str (fst kv) @ '': '' @ py_repr (snd kv)) kvs))"
    by simp
  with length_repr_str [of s] show ?thesis by simp
qed

lemma py_repr_dict_differs:
  assumes "dict_get nested k = JStr s"
  shows "py_repr (JObj nested) \<noteq> s"
proof -
  from assms have "map_of nested k = Some (JStr s)"
    by (auto simp: dict_get_def dict_get_default_def split: option.splits)
  then have "(k, JStr s) \<in> set nested" by (rule map_of_SomeD)
  from length_py_repr_dict [OF this] show ?thesis by auto
qed

lemma to_python_not_null: "to_python v \<noteq> JNull \<longleftrightarrow> v \<noteq> JNull"
  by (cases v) (simp_all add: to_python_def)

lemma expiry_of_Inr_iff:
  "(\<exists>ex. expiry_of f now v = Inr ex) \<longleftrightarrow>
     (\<not> truthy v \<or> (\<exists>n. py_int f v = Inr n \<and> datetime_plus_seconds_ok now n))"
  by (auto simp: expiry_of_def split: sum.splits if_splits)

lemma update_or_create_token_Inr_iff:
  "(\<exists>rows'. update_or_create_token u cid new rows = Inr rows') \<longleftrightarrow>
     (token_saveable new \<and> length (filter (\<lambda>r. tok_user r = u \<and> tok_client r = cid) rows) \<le> 1)"
  by (auto simp: update_or_create_token_def split: list.splits)

lemma update_or_create_token_others:
  assumes "update_or_create_token u cid new rows = Inr rows'"
    and "r \<in> set rows" and "\<not> (tok_user r = u \<and> tok_client r = cid)"
  shows "r \<in> set rows'"
  using assms by (auto simp: update_or_create_token_def split: list.splits if_splits)

text \<open>
  C10. In every successful callback whose unwrapped token data carries the nested shape
  \<^verbatim>\<open>{access_token: {access_token: jwt, ...}}\<close>, the user was authenticated with the bare
  string \<open>jwt\<close>, while \<^verbatim>\<open>_store_user_tokens\<close> hands the whole nested dict to the token row.
  When the expiry can be computed, no text value is \<^verbatim>\<open>null\<close> and the user has at most one
  row for the client, the store goes through (for a token type within the 50 characters
  of its column, whose width is the database's to enforce): the row of (user, client),
  created or overwritten, keeps as its access token the text of the nested dict
  (\<^verbatim>\<open>str()\<close> of the raw value), which is not the token the session was established with,
  and the other rows stay. Otherwise the exception is logged and the token table is
  left as it was.
\<close>

theorem C10_persisted_token_is_nested:
  assumes ok: "callback_get env request d = (HttpResponseRedirect url, d')"
    and code: "q_code request = Some code"
    and st: "q_state request = Some s"
    and obj: "get_state (states d) s = Inr obj"
    and cl: "client_of_state (clients d) (st_client obj) = Inr client"
    and td: "exchange_code_for_tokens (ce_http env) client code = JObj td"
    and nested: "dict_get td ''access_token'' = JObj nested"
  shows "\<exists>jwt u.
           dict_get nested ''access_token'' = JStr jwt \<and>
           extract_jwt td = Inr (JStr jwt) \<and>
           authenticate (ce_cfg env) (ce_b64_json_loads env) (ce_current_time env)
             (ce_get_or_create_user env) (JStr jwt) = Some u \<and>
           py_repr (JObj nested) \<noteq> jwt \<and>
           (if (\<not> truthy (dict_get td ''expires_in'') \<or>
                (\<exists>n. py_int (ce_int_of_str env) (dict_get td ''expires_in'') = Inr n \<and>
                     datetime_plus_seconds_ok (ce_now_tokens env) n)) \<and>
               dict_get_default td ''refresh_token'' (JStr []) \<noteq> JNull \<and>
               dict_get_default td ''token_type'' (JStr ''Bearer'') \<noteq> JNull \<and>
               dict_get_default td ''scope'' (JStr []) \<noteq> JNull \<and>
               length (filter (\<lambda>r. tok_user r = u \<and> tok_client r = client_id client) (tokens d)) \<le> 1
            then length (py_str (dict_get_default td ''token_type'' (JStr ''Bearer''))) \<le> 50 \<longrightarrow>
                 (\<exists>row. get_token (tokens d') u (client_id client) = Inr row \<and>
                    tok_access_token row = JStr (py_repr (JObj nested)) \<and>
                    tok_access_token row \<noteq> JStr jwt) \<and>
                 (\<forall>r \<in> set (tokens d).
                    \<not> (tok_user r = u \<and> tok_client r = client_id client) \<longrightarrow> r \<in> set (tokens d'))
            else tokens d' = tokens d)"
proof -
  from callback_exchange_success_detail [OF callback_get_success_detail [OF ok code st obj cl]] td
  obtain jwt_token u where
    x: "extract_jwt td = Inr jwt_token"
    and a: "authenticate (ce_cfg env) (ce_b64_json_loads env) (ce_current_time env)
             (ce_get_or_create_user env) jwt_token = Some u"
    and t: "tokens d' = store_user_tokens (ce_int_of_str env) (ce_now_tokens env) u client td (tokens d)"
    by auto
  from authenticate_Some_is_str [OF a] obtain jwt where j: "jwt_token = JStr jwt" by blast
  from extract_jwt_nested [OF nested x] have n: "dict_get nested ''access_token'' = JStr jwt"
    using j by simp
  have differs: "py_repr (JObj nested) \<noteq> jwt" by (rule py_repr_dict_differs [OF n])
  define new where "new = (\<lambda>ex. \<lparr>tok_user = u, tok_client = client_id client,
             tok_access_token = to_python (dict_get td ''access_token''),
             tok_refresh_token = to_python (dict_get_default td ''refresh_token'' (JStr [])),
             tok_token_type = to_python (dict_get_default td ''token_type'' (JStr ''Bearer'')),
             tok_scope = to_python (dict_get_default td ''scope'' (JStr [])),
             tok_expires_at = ex\<rparr>)"
  define cond where "cond \<longleftrightarrow>
               (\<not> truthy (dict_get td ''expires_in'') \<or>
                (\<exists>n. py_int (ce_int_of_str env) (dict_get td ''expires_in'') = Inr n \<and>
                     datetime_plus_seconds_ok (ce_now_tokens env) n)) \<and>
               dict_get_default td ''refresh_token'' (JStr []) \<noteq> JNull \<and>
               dict_get_default td ''token_type'' (JStr ''Bearer'') \<noteq> JNull \<and>
               dict_get_default td ''scope'' (JStr []) \<noteq> JNull \<and>
               length (filter (\<lambda>r. tok_user r = u \<and> tok_client r = client_id client) (tokens d)) \<le> 1"
  have body: "store_user_tokens_body (ce_int_of_str env) (ce_now_tokens env) u client td (tokens d) =
        (case expiry_of (ce_int_of_str env) (ce_now_tokens env) (dict_get td ''expires_in'') of
           Inl e \<Rightarrow> Inl e
         | Inr ex \<Rightarrow> update_or_create_token u (client_id client) (new ex) (tokens d))"
    by (simp add: store_user_tokens_body_def new_def split: sum.splits)
  have sv: "token_saveable (new ex) \<longleftrightarrow>
              dict_get_default td ''refresh_token'' (JStr []) \<noteq> JNull \<and>
              dict_get_default td ''token_type'' (JStr ''Bearer'') \<noteq> JNull \<and>
              dict_get_default td ''scope'' (JStr []) \<noteq> JNull" for ex
    by (simp add: token_saveable_def new_def to_python_not_null nested)
  have acc: "tok_access_token (new ex) = JStr (py_repr (JObj nested))"
    "tok_user (new ex) = u" "tok_client (new ex) = client_id client" for ex
    by (simp_all add: new_def nested to_python_def)
  have iff: "(\<exists>rows'. store_user_tokens_body (ce_int_of_str env) (ce_now_tokens env) u client td
                 (tokens d) = Inr rows') \<longleftrightarrow> cond"
  proof
    assume "\<exists>rows'. store_user_tokens_body (ce_int_of_str env) (ce_now_tokens env) u client td
                 (tokens d) = Inr rows'"
    then obtain rows' ex where
      e: "expiry_of (ce_int_of_str env) (ce_now_tokens env) (dict_get td ''expires_in'') = Inr ex"
      and up: "update_or_create_token u (client_id client) (new ex) (tokens d) = Inr rows'"
      unfolding body by (auto split: sum.splits)
    from e have "\<exists>ex. expiry_of (ce_int_of_str env) (ce_now_tokens env) (dict_get td ''expires_in'') = Inr ex"
      by blast
    with up show cond
      unfolding cond_def expiry_of_Inr_iff [symmetric]
      using update_or_create_token_Inr_iff [of u "client_id client" "new ex" "tokens d"] sv [of ex]
      by blast
  next
    assume c: cond
    then obtain ex where
      e: "expiry_of (ce_int_of_str env) (ce_now_tokens env) (dict_get td ''expires_in'') = Inr ex"
      unfolding cond_def using expiry_of_Inr_iff [of "ce_int_of_str env" "ce_now_tokens env"
          "dict_get td ''expires_in''"] by blast
    from c have "\<exists>rows'. update_or_create_token u (client_id client) (new ex) (tokens d) = Inr rows'"
      unfolding cond_def update_or_create_token_Inr_iff sv by blast
    then show "\<exists>rows'. store_user_tokens_body (ce_int_of_str env) (ce_now_tokens env) u client td
                 (tokens d) = Inr rows'"
      unfolding body e by simp
  qed
  have final: "if cond
            then (\<exists>row. get_token (tokens d') u (client_id client) = Inr row \<and>
                    tok_access_token row = JStr (py_repr (JObj nested)) \<and>
                    tok_access_token row \<noteq> JStr jwt) \<and>
                 (\<forall>r \<in> set (tokens d).
                    \<not> (tok_user r = u \<and> tok_client r = client_id client) \<longrightarrow> r \<in> set (tokens d'))
            else tokens d' = tokens d"
  proof (cases cond)
    case True
    with iff obtain rows' where
      r: "store_user_tokens_body (ce_int_of_str env) (ce_now_tokens env) u client td (tokens d) = Inr rows'"
      by blast
    then obtain ex where
      up: "update_or_create_token u (client_id client) (new ex) (tokens d) = Inr rows'"
      unfolding body by (auto split: sum.splits)
    have t': "tokens d' = rows'" using t r by (simp add: store_user_tokens_def)
    from update_or_create_token_get [OF up acc(2,3)]
    have g: "get_token (tokens d') u (client_id client) = Inr (new ex)" unfolding t' .
    have o: "\<forall>r \<in> set (tokens d).
                    \<not> (tok_user r = u \<and> tok_client r = client_id client) \<longrightarrow> r \<in> set (tokens d')"
      unfolding t' using update_or_create_token_others [OF up] by blast
    show ?thesis using True g acc(1) differs o by auto
  next
    case False
    with iff have "\<exists>e. store_user_tokens_body (ce_int_of_str env) (ce_now_tokens env) u client td
                 (tokens d) = Inl e"
      by (cases "store_user_tokens_body (ce_int_of_str env) (ce_now_tokens env) u client td (tokens d)")
         auto
    then have "tokens d' = tokens d" using t by (auto simp: store_user_tokens_def)
    with False show ?thesis by simp
  qed
  have final': "if cond
            then length (py_str (dict_get_default td ''token_type'' (JStr ''Bearer''))) \<le> 50 \<longrightarrow>
                 (\<exists>row. get_token (tokens d') u (client_id client) = Inr row \<and>
                    tok_access_token row = JStr (py_repr (JObj nested)) \<and>
                    tok_access_token row \<noteq> JStr jwt) \<and>
                 (\<forall>r \<in> set (tokens d).
                    \<not> (tok_user r = u \<and> tok_client r = client_id client) \<longrightarrow> r \<in> set (tokens d'))
            else tokens d' = tokens d"
    using final by (cases cond) simp_all
  show ?thesis
    using n x j a differs final' unfolding cond_def by blast
qed

lemma example_persisted_text:
  "py_repr (JObj example_nested) =
     ''{'access_token': 'hdr.eyJ1c2VybmFtZSI6ImFsaWNlIiwiZXhwIjo5OTk5OTk5OTk5fQ.sig', 'expires_in': 14400}''"
proof -
  have h: "hex_digit 0 = CHR ''0''" "hex_digit (Suc 0) = CHR ''1''" "hex_digit 4 = CHR ''4''"
    by (simp_all add: hex_digit_def numeral_eq_Suc)
  have d: "dec_nat 14400 = ''14400''"
    by (simp add: h)
  show ?thesis
    by (simp add: example_nested_def token_alice_def repr_str_def repr_char_def printable_def
        Let_def dec_int_def d h)
qed

theorem C10_persisted_token_is_nested_witness:
  "callback_get (example_env example_T) example_callback example_db_returning =
     (HttpResponseRedirect ''/projects/'', example_db_after example_T) \<and>
   tokens example_db_returning = [example_old_token] \<and>
   tok_user example_old_token = 7 \<and> tok_client example_old_token = client_id example_client \<and>
   exchange_code_for_tokens (ce_http (example_env example_T)) example_client ''abc'' =
     JObj example_token_data \<and>
   dict_get example_token_data ''access_token'' = JObj example_nested \<and>
   dict_get example_nested ''access_token'' = JStr token_alice \<and>
   get_token (tokens (example_db_after example_T)) 7 (client_id example_client) = Inr example_token \<and>
   tok_access_token example_token =
     JStr ''{'access_token': 'hdr.eyJ1c2VybmFtZSI6ImFsaWNlIiwiZXhwIjo5OTk5OTk5OTk5fQ.sig', 'expires_in': 14400}'' \<and>
   tok_access_token example_token \<noteq> JStr token_alice"
proof -
  note ok = callback_get_example_returning
  have code: "q_code example_callback = Some ''abc''" and st: "q_state example_callback = Some ''xyzzy''"
    by (simp_all add: example_callback_def)
  have obj: "get_state (states example_db_returning) ''xyzzy'' = Inr example_state"
    by (simp add: get_state_def example_db_returning_def example_state_def)
  have cl: "client_of_state (clients example_db_returning) (st_client example_state) = Inr example_client"
    by (simp add: client_of_state_def example_db_returning_def example_state_def example_client_def)
  have td: "exchange_code_for_tokens (ce_http (example_env example_T)) example_client ''abc'' =
     JObj example_token_data"
    by (simp add: example_env_def exchange_example)
  have nested: "dict_get example_token_data ''access_token'' = JObj example_nested"
    by (simp add: dict_get_def dict_get_default_def example_token_data_def)
  have n2: "dict_get example_nested ''access_token'' = JStr token_alice"
    by (simp add: dict_get_def dict_get_default_def example_nested_def)
  have old: "tokens example_db_returning = [example_old_token]" "tok_user example_old_token = 7"
    "tok_client example_old_token = client_id example_client"
    by (simp_all add: example_db_returning_def example_old_token_def example_client_def)
  have g: "get_token (tokens (example_db_after example_T)) 7 (client_id example_client) = Inr example_token"
    by (simp add: get_token_def example_db_after_def example_token_def example_client_def)
  have cond: "\<not> truthy (dict_get example_token_data ''expires_in'')"
    "dict_get_default example_token_data ''refresh_token'' (JStr []) \<noteq> JNull"
    "dict_get_default example_token_data ''token_type'' (JStr ''Bearer'') \<noteq> JNull"
    "dict_get_default example_token_data ''scope'' (JStr []) \<noteq> JNull"
    by (simp_all add: dict_get_def dict_get_default_def example_token_data_def)
  have one: "length (filter (\<lambda>r. tok_user r = u \<and> tok_client r = client_id example_client)
               (tokens example_db_returning)) \<le> 1" for u
    by (simp add: old(1))
  have short: "length (py_str (dict_get_default example_token_data ''token_type'' (JStr ''Bearer''))) \<le> 50"
    by (simp add: dict_get_default_def example_token_data_def py_str_def)
  from C10_persisted_token_is_nested [OF ok code st obj cl td nested] obtain jwt u where
    j: "dict_get example_nested ''access_token'' = JStr jwt"
    and au: "authenticate (ce_cfg (example_env example_T)) (ce_b64_json_loads (example_env example_T))
               (ce_current_time (example_env example_T))
               (ce_get_or_create_user (example_env example_T)) (JStr jwt) = Some u"
    and s: "\<exists>row. get_token (tokens (example_db_after example_T)) u (client_id example_client) = Inr row \<and>
                    tok_access_token row = JStr (py_repr (JObj example_nested)) \<and>
                    tok_access_token row \<noteq> JStr jwt"
    using cond one short by auto
  have jw: "jwt = token_alice" using j n2 by simp
  have u7: "u = 7" using au unfolding jw by (simp add: example_env_def authenticate_alice)
  from s obtain row where
    r: "get_token (tokens (example_db_after example_T)) 7 (client_id example_client) = Inr row"
       "tok_access_token row = JStr (py_repr (JObj example_nested))"
       "tok_access_token row \<noteq> JStr token_alice"
    unfolding u7 jw by blast
  have "row = example_token" using r(1) g by simp
  then show ?thesis using ok old td nested n2 g r example_persisted_text by simp
qed

text \<open>
  C7, as stated, fails on the synchronous path. Celery is missing (\<open>ImportError\<close>), the
  scan runs in the request and raises: the trace holds the end of the scan and no
  timestamp write, and the user's last-discovery timestamp is still unset.
\<close>

theorem C7_sync_fallback_counterexample:
  "de_dispatch (example_sync_env (Inl ValueError)) 7 (client_id example_client) = Inl ImportError \<and>
   de_sync_discovery (example_sync_env (Inl ValueError)) 7 (client_id example_client) = Inl ValueError \<and>
   trigger_flight_discovery (example_sync_env (Inl ValueError)) 7 example_client [default_preferences 7] =
     ([default_preferences 7], [EvScanRaised ValueError]) \<and>
   last_auto_discovery (default_preferences 7) = None"
  by (simp add: trigger_flight_discovery_def get_or_create_for_user_def
      should_run_auto_discovery_def example_sync_env_def default_preferences_def)

lemma get_or_create_for_user_user:
  "get_or_create_for_user u prefs = Inr (p, prefs1) \<Longrightarrow> pref_user p = u \<and> p \<in> set prefs1"
proof -
  assume a: "get_or_create_for_user u prefs = Inr (p, prefs1)"
  show ?thesis
  proof (cases "filter (\<lambda>r. pref_user r = u) prefs")
    case Nil
    with a show ?thesis by (auto simp: get_or_create_for_user_def default_preferences_def)
  next
    case (Cons q rest)
    with a have e: "rest = [] \<and> p = q \<and> prefs1 = prefs"
      by (auto simp: get_or_create_for_user_def split: list.splits)
    have "q \<in> set (filter (\<lambda>r. pref_user r = u) prefs)" using Cons by simp
    then show ?thesis using e by simp
  qed
qed

text \<open>
  C7, amended. When the preferences allow a run: after a successful asynchronous dispatch
  the timestamp is written at once, with no outcome of the scan in the trace; in the
  synchronous fallback (dispatch raised \<open>ImportError\<close>) the timestamp is written only after
  the scan has returned, and it is not written when the scan raises. A written timestamp
  is the clock reading, on the user's row.
\<close>

theorem C7_timestamp_order:
  assumes g: "get_or_create_for_user u prefs = Inr (p, prefs1)"
    and run: "should_run_auto_discovery (de_now_cooldown env) p"
  shows "(\<forall>task_id. de_dispatch env u (client_id client) = Inr task_id \<longrightarrow>
            trigger_flight_discovery env u client prefs =
              (update_last_discovery (de_now_discovery env) p prefs1,
               [EvDispatched task_id, EvLastDiscoveryUpdated (de_now_discovery env)])) \<and>
         (de_dispatch env u (client_id client) = Inl ImportError \<longrightarrow>
            (\<forall>n. de_sync_discovery env u (client_id client) = Inr n \<longrightarrow>
               trigger_flight_discovery env u client prefs =
                 (update_last_discovery (de_now_discovery env) p prefs1,
                  [EvScanReturned n, EvLastDiscoveryUpdated (de_now_discovery env)])) \<and>
            (\<forall>e. de_sync_discovery env u (client_id client) = Inl e \<longrightarrow>
               trigger_flight_discovery env u client prefs = (prefs1, [EvScanRaised e]))) \<and>
         (\<exists>r \<in> set (update_last_discovery (de_now_discovery env) p prefs1). pref_user r = u) \<and>
         (\<forall>r \<in> set (update_last_discovery (de_now_discovery env) p prefs1).
            pref_user r = u \<longrightarrow> last_auto_discovery r = Some (de_now_discovery env))"
proof -
  from get_or_create_for_user_user [OF g] have pu: "pref_user p = u" and pin: "p \<in> set prefs1"
    by simp_all
  have a: "\<forall>task_id. de_dispatch env u (client_id client) = Inr task_id \<longrightarrow>
            trigger_flight_discovery env u client prefs =
              (update_last_discovery (de_now_discovery env) p prefs1,
               [EvDispatched task_id, EvLastDiscoveryUpdated (de_now_discovery env)])"
    using g run by (simp add: trigger_flight_discovery_def)
  have b: "de_dispatch env u (client_id client) = Inl ImportError \<longrightarrow>
            (\<forall>n. de_sync_discovery env u (client_id client) = Inr n \<longrightarrow>
               trigger_flight_discovery env u client prefs =
                 (update_last_discovery (de_now_discovery env) p prefs1,
                  [EvScanReturned n, EvLastDiscoveryUpdated (de_now_discovery env)])) \<and>
            (\<forall>e. de_sync_discovery env u (client_id client) = Inl e \<longrightarrow>
               trigger_flight_discovery env u client prefs = (prefs1, [EvScanRaised e]))"
    using g run by (simp add: trigger_flight_discovery_def)
  have c: "\<exists>r \<in> set (update_last_discovery (de_now_discovery env) p prefs1). pref_user r = u"
  proof -
    have "p\<lparr>last_auto_discovery := Some (de_now_discovery env)\<rparr>
            \<in> set (update_last_discovery (de_now_discovery env) p prefs1)"
      using pin by (force simp: update_last_discovery_def image_iff)
    then show ?thesis using pu by (intro bexI [of _ "p\<lparr>last_auto_discovery := Some (de_now_discovery env)\<rparr>"]) simp_all
  qed
  have d: "\<forall>r \<in> set (update_last_discovery (de_now_discovery env) p prefs1).
            pref_user r = u \<longrightarrow> last_auto_discovery r = Some (de_now_discovery env)"
    using pu by (auto simp: update_last_discovery_def)
  show ?thesis using a b c d by blast
qed

theorem C7_timestamp_order_witness:
  "get_or_create_for_user 7 [] = Inr (default_preferences 7, [default_preferences 7]) \<and>
   should_run_auto_discovery example_T (default_preferences 7) \<and>
   trigger_flight_discovery (example_env example_T) 7 example_client [] =
     ([(default_preferences 7)\<lparr>last_auto_discovery := Some example_T\<rparr>],
      [EvDispatched ''task-1'', EvLastDiscoveryUpdated example_T]) \<and>
   trigger_flight_discovery (example_sync_env (Inr 2)) 7 example_client [] =
     ([(default_preferences 7)\<lparr>last_auto_discovery := Some example_T\<rparr>],
      [EvScanReturned 2, EvLastDiscoveryUpdated example_T]) \<and>
   trigger_flight_discovery (example_sync_env (Inl ValueError)) 7 example_client [] =
     ([default_preferences 7], [EvScanRaised ValueError])"
proof -
  have g: "get_or_create_for_user 7 [] = Inr (default_preferences 7, [default_preferences 7])"
    by (simp add: get_or_create_for_user_def)
  have r: "should_run_auto_discovery example_T (default_preferences 7)"
    by (simp add: should_run_auto_discovery_def default_preferences_def)
  have r1: "should_run_auto_discovery (de_now_cooldown (example_env example_T)) (default_preferences 7)"
    using r by (simp add: example_env_def)
  have r2: "should_run_auto_discovery (de_now_cooldown (example_sync_env outcome)) (default_preferences 7)"
    for outcome using r by (simp add: example_sync_env_def)
  have u: "update_last_discovery example_T (default_preferences 7) [default_preferences 7] =
           [(default_preferences 7)\<lparr>last_auto_discovery := Some example_T\<rparr>]"
    by (simp add: update_last_discovery_def)
  have e1: "de_dispatch (example_env example_T) 7 (client_id example_client) = Inr ''task-1''"
    "de_now_discovery (example_env example_T) = example_T"
    by (simp_all add: example_env_def)
  have e2: "de_dispatch (example_sync_env outcome) 7 (client_id example_client) = Inl ImportError"
    "de_sync_discovery (example_sync_env outcome) 7 (client_id example_client) = outcome"
    "de_now_discovery (example_sync_env outcome) = example_T"
    for outcome by (simp_all add: example_sync_env_def)
  from C7_timestamp_order [OF g r1, of example_client] e1 u
  have 1: "trigger_flight_discovery (example_env example_T) 7 example_client [] =
     ([(default_preferences 7)\<lparr>last_auto_discovery := Some example_T\<rparr>],
      [EvDispatched ''task-1'', EvLastDiscoveryUpdated example_T])"
    by simp
  from C7_timestamp_order [OF g r2 [of "Inr 2"], of example_client] e2 [of "Inr 2"] u
  have 2: "trigger_flight_discovery (example_sync_env (Inr 2)) 7 example_client [] =
     ([(default_preferences 7)\<lparr>last_auto_discovery := Some example_T\<rparr>],
      [EvScanReturned 2, EvLastDiscoveryUpdated example_T])"
    by simp
  from C7_timestamp_order [OF g r2 [of "Inl ValueError"], of example_client] e2 [of "Inl ValueError"]
  have 3: "trigger_flight_discovery (example_sync_env (Inl ValueError)) 7 example_client [] =
     ([default_preferences 7], [EvScanRaised ValueError])"
    by simp
  show ?thesis using g r 1 2 3 by simp
qed

lemma refresh_post_success:
  assumes "refresh_post env u cid d = (JsonResponse body 200, d')"
  shows "\<exists>client token_obj nd expires_at.
           get_client_or_404 (clients d) cid = Inr client \<and>
           get_token (tokens d) u (client_id client) = Inr token_obj \<and>
           refresh_access_token (rf_http env) client (tok_refresh_token token_obj) = JObj nd \<and>
           expiry_of (rf_int_of_str env) (rf_now env) (dict_get nd ''expires_in'') = Inr expires_at \<and>
           token_saveable (refreshed_token nd expires_at token_obj) \<and>
           d' = d\<lparr>tokens := map (\<lambda>r. if tok_user r = u \<and> tok_client r = client_id client
                                     then refreshed_token nd expires_at token_obj else r) (tokens d)\<rparr>"
  using assms
  by (auto simp: refresh_post_def Let_def refresh_failed_def json_error_def
      split: sum.splits if_splits json.splits)

lemma refresh_example_common:
  "get_client_or_404 (clients example_refresh_db) ''demo'' = Inr example_client"
  "get_token (tokens example_refresh_db) 7 (client_id example_client) = Inr example_old_token"
  "truthy (tok_refresh_token example_old_token)"
  "body \<noteq> [] \<Longrightarrow> refresh_access_token (rf_http (example_refresh_env body)) example_client r = JObj body"
  by (simp_all add: get_client_or_404_def get_token_def example_refresh_db_def example_client_def
      example_old_token_def refresh_access_token_def example_refresh_env_def)

text \<open>
  C9, as stated, fails. The refresh response
  \<^verbatim>\<open>{"access_token": "new-token", "expires_in": 0}\<close> has \<^verbatim>\<open>expires_in\<close> present, the refresh
  succeeds, and the stored expiry is null, not now + 0.
\<close>

theorem C9_zero_expires_in_counterexample:
  "dict_has refresh_body_zero ''expires_in'' \<and>
   dict_get refresh_body_zero ''expires_in'' = JInt 0 \<and>
   refresh_post (example_refresh_env refresh_body_zero) 7 ''demo'' example_refresh_db =
     (JsonResponse [(''message'', JStr ''Token refreshed successfully''), (''expires_at'', JNull)] 200,
      example_refresh_db\<lparr>tokens :=
        [example_old_token\<lparr>tok_access_token := JStr ''new-token'', tok_token_type := JStr ''Bearer'',
                            tok_expires_at := None\<rparr>]\<rparr>)"
proof -
  have b: "refresh_body_zero \<noteq> []" by (simp add: refresh_body_zero_def)
  have d: "dict_has refresh_body_zero ''expires_in''" "dict_get refresh_body_zero ''expires_in'' = JInt 0"
    "\<not> dict_has refresh_body_zero ''refresh_token''"
    "dict_get refresh_body_zero ''access_token'' = JStr ''new-token''"
    "dict_get_default refresh_body_zero ''token_type'' (JStr ''Bearer'') = JStr ''Bearer''"
    by (simp_all add: dict_has_def dict_get_def dict_get_default_def refresh_body_zero_def)
  have k: "tok_user example_old_token = 7" "tok_client example_old_token = ''demo''"
    "client_id example_client = ''demo''" "tokens example_refresh_db = [example_old_token]"
    by (simp_all add: example_old_token_def example_client_def example_refresh_db_def)
  have sv: "token_saveable (example_old_token\<lparr>tok_access_token := JStr ''new-token'',
              tok_token_type := JStr ''Bearer'', tok_expires_at := None\<rparr>)"
    by (simp add: token_saveable_def example_old_token_def)
  have r: "refresh_post (example_refresh_env refresh_body_zero) 7 ''demo'' example_refresh_db =
     (JsonResponse [(''message'', JStr ''Token refreshed successfully''), (''expires_at'', JNull)] 200,
      example_refresh_db\<lparr>tokens :=
        [example_old_token\<lparr>tok_access_token := JStr ''new-token'', tok_token_type := JStr ''Bearer'',
                            tok_expires_at := None\<rparr>]\<rparr>)"
    unfolding refresh_post_def refresh_example_common(1)
    using refresh_example_common(2,3) refresh_example_common(4) [OF b] b sv
    by (simp add: Let_def d k expiry_of_def refreshed_token_def to_python_def)
  show ?thesis using d r by simp
qed

text \<open>
  C9, amended. After a successful refresh (status 200) the row of (user, client) has its
  access token and token type taken from the response (\<^verbatim>\<open>Bearer\<close> when the type is absent),
  its expiry set to now + \<^verbatim>\<open>int(expires_in)\<close> seconds when \<^verbatim>\<open>expires_in\<close> is truthy and to null
  otherwise, and its refresh token replaced exactly when the response has the key
  \<^verbatim>\<open>refresh_token\<close>; scope, user and client stay, and so do all other rows and tables.
  The text columns hold a string of the response as it is, and of any other value
  the text of it (\<open>to_python\<close>).
\<close>

theorem C9_refresh_overwrites:
  assumes ok: "refresh_post env u cid d = (JsonResponse body 200, d')"
  shows "\<exists>client old nd new.
           get_client_or_404 (clients d) cid = Inr client \<and>
           get_token (tokens d) u (client_id client) = Inr old \<and>
           refresh_access_token (rf_http env) client (tok_refresh_token old) = JObj nd \<and>
           get_token (tokens d') u (client_id client) = Inr new \<and>
           tok_access_token new = to_python (dict_get nd ''access_token'') \<and>
           tok_token_type new = to_python (dict_get_default nd ''token_type'' (JStr ''Bearer'')) \<and>
           (truthy (dict_get nd ''expires_in'') \<longrightarrow>
              (\<exists>n. py_int (rf_int_of_str env) (dict_get nd ''expires_in'') = Inr n \<and>
                   tok_expires_at new = Some (rf_now env + timedelta_seconds n))) \<and>
           (\<not> truthy (dict_get nd ''expires_in'') \<longrightarrow> tok_expires_at new = None) \<and>
           (dict_has nd ''refresh_token'' \<longrightarrow>
              tok_refresh_token new = to_python (dict_get nd ''refresh_token'')) \<and>
           (\<not> dict_has nd ''refresh_token'' \<longrightarrow> tok_refresh_token new = tok_refresh_token old) \<and>
           tok_scope new = tok_scope old \<and> tok_user new = tok_user old \<and>
           tok_client new = tok_client old \<and>
           tokens d' = map (\<lambda>r. if tok_user r = u \<and> tok_client r = client_id client then new else r)
                         (tokens d) \<and>
           clients d' = clients d \<and> states d' = states d \<and> preferences d' = preferences d"
proof -
  from refresh_post_success [OF ok] obtain client old nd expires_at where
    c: "get_client_or_404 (clients d) cid = Inr client"
    and g: "get_token (tokens d) u (client_id client) = Inr old"
    and r: "refresh_access_token (rf_http env) client (tok_refresh_token old) = JObj nd"
    and e: "expiry_of (rf_int_of_str env) (rf_now env) (dict_get nd ''expires_in'') = Inr expires_at"
    and d': "d' = d\<lparr>tokens := map (\<lambda>r. if tok_user r = u \<and> tok_client r = client_id client
                                     then refreshed_token nd expires_at old else r) (tokens d)\<rparr>"
    by blast
  define new where "new = refreshed_token nd expires_at old"
  from g have f: "filter (\<lambda>r. tok_user r = u \<and> tok_client r = client_id client) (tokens d) = [old]"
    by (auto simp: get_token_def split: list.splits)
  then have "old \<in> set (filter (\<lambda>r. tok_user r = u \<and> tok_client r = client_id client) (tokens d))"
    by simp
  then have ko: "tok_user old = u \<and> tok_client old = client_id client" by simp
  have fr: "tok_user new = tok_user old" "tok_client new = tok_client old" "tok_scope new = tok_scope old"
    "tok_access_token new = to_python (dict_get nd ''access_token'')"
    "tok_token_type new = to_python (dict_get_default nd ''token_type'' (JStr ''Bearer''))"
    "tok_expires_at new = expires_at"
    "dict_has nd ''refresh_token'' \<longrightarrow> tok_refresh_token new = to_python (dict_get nd ''refresh_token'')"
    "\<not> dict_has nd ''refresh_token'' \<longrightarrow> tok_refresh_token new = tok_refresh_token old"
    by (simp_all add: new_def refreshed_token_def Let_def)
  have t: "tokens d' = map (\<lambda>r. if tok_user r = u \<and> tok_client r = client_id client then new else r)
                         (tokens d)"
    and o: "clients d' = clients d" "states d' = states d" "preferences d' = preferences d"
    by (simp_all add: d' new_def)
  have "filter (\<lambda>r. tok_user r = u \<and> tok_client r = client_id client) (tokens d') = [new]"
    unfolding t
    using filter_map_replace [of "\<lambda>r. tok_user r = u \<and> tok_client r = client_id client" new "tokens d"]
      ko fr(1,2) f
    by simp
  then have gn: "get_token (tokens d') u (client_id client) = Inr new"
    by (simp add: get_token_def)
  have x1: "truthy (dict_get nd ''expires_in'') \<longrightarrow>
              (\<exists>n. py_int (rf_int_of_str env) (dict_get nd ''expires_in'') = Inr n \<and>
                   tok_expires_at new = Some (rf_now env + timedelta_seconds n))"
    using e fr(6) by (auto simp: expiry_of_def split: sum.splits if_splits)
  have x2: "\<not> truthy (dict_get nd ''expires_in'') \<longrightarrow> tok_expires_at new = None"
    using e fr(6) by (auto simp: expiry_of_def)
  show ?thesis
    using c g r gn fr(1-5) x1 x2 fr(7,8) t o by blast
qed

lemma example_in_range: "datetime_plus_seconds_ok example_T 3600"
  by (simp add: datetime_plus_seconds_ok_def timedelta_seconds_ok_def datetime_min_def
      datetime_max_def example_T_def timedelta_seconds_def)

lemma refresh_rotating_example:
  "refresh_post (example_refresh_env refresh_body_rotating) 7 ''demo'' example_refresh_db =
     (JsonResponse [(''message'', JStr ''Token refreshed successfully''),
                    (''expires_at'', JStr ''2023-11-14T23:13:20+00:00'')] 200,
      example_refresh_db\<lparr>tokens :=
        [example_old_token\<lparr>tok_access_token := JStr ''new-token'', tok_token_type := JStr ''Bearer'',
                            tok_expires_at := Some (example_T + timedelta_seconds 3600),
                            tok_refresh_token := JStr ''refresh-2''\<rparr>]\<rparr>)"
proof -
  have b: "refresh_body_rotating \<noteq> []" by (simp add: refresh_body_rotating_def)
  have d: "dict_get refresh_body_rotating ''expires_in'' = JInt 3600"
    "dict_has refresh_body_rotating ''refresh_token''"
    "dict_get refresh_body_rotating ''refresh_token'' = JStr ''refresh-2''"
    "dict_get refresh_body_rotating ''access_token'' = JStr ''new-token''"
    "dict_get_default refresh_body_rotating ''token_type'' (JStr ''Bearer'') = JStr ''Bearer''"
    by (simp_all add: dict_has_def dict_get_def dict_get_default_def refresh_body_rotating_def)
  have k: "tok_user example_old_token = 7" "tok_client example_old_token = ''demo''"
    "client_id example_client = ''demo''" "tokens example_refresh_db = [example_old_token]"
    by (simp_all add: example_old_token_def example_client_def example_refresh_db_def)
  have sv: "token_saveable (example_old_token\<lparr>tok_access_token := JStr ''new-token'',
              tok_token_type := JStr ''Bearer'',
              tok_expires_at := Some (example_T + timedelta_seconds 3600),
              tok_refresh_token := JStr ''refresh-2''\<rparr>)"
    by (simp add: token_saveable_def example_old_token_def)
  have e: "rf_int_of_str (example_refresh_env refresh_body_rotating) = (\<lambda>s. None)"
    "rf_now (example_refresh_env refresh_body_rotating) = example_T"
    "rf_isoformat (example_refresh_env refresh_body_rotating) = (\<lambda>t. ''2023-11-14T23:13:20+00:00'')"
    by (simp_all add: example_refresh_env_def)
  show ?thesis
    unfolding refresh_post_def refresh_example_common(1)
    using refresh_example_common(2,3) refresh_example_common(4) [OF b] b sv
    by (simp add: Let_def d k e expiry_of_def py_int_def refreshed_token_def to_python_def
        example_in_range)
qed

theorem C9_refresh_overwrites_witness:
  "refresh_post (example_refresh_env refresh_body_rotating) 7 ''demo'' example_refresh_db =
     (JsonResponse [(''message'', JStr ''Token refreshed successfully''),
                    (''expires_at'', JStr ''2023-11-14T23:13:20+00:00'')] 200,
      example_refresh_db\<lparr>tokens :=
        [example_old_token\<lparr>tok_access_token := JStr ''new-token'', tok_token_type := JStr ''Bearer'',
                            tok_expires_at := Some (example_T + timedelta_seconds 3600),
                            tok_refresh_token := JStr ''refresh-2''\<rparr>]\<rparr>) \<and>
   (\<exists>new. get_token
             (tokens (example_refresh_db\<lparr>tokens :=
        [example_old_token\<lparr>tok_access_token := JStr ''new-token'', tok_token_type := JStr ''Bearer'',
                            tok_expires_at := Some (example_T + timedelta_seconds 3600),
                            tok_refresh_token := JStr ''refresh-2''\<rparr>]\<rparr>)) 7 ''demo'' = Inr new \<and>
          tok_access_token new = JStr ''new-token'' \<and>
          tok_token_type new = JStr ''Bearer'' \<and>
          tok_expires_at new = Some (example_T + timedelta_seconds 3600) \<and>
          tok_refresh_token new = JStr ''refresh-2'' \<and>
          tok_scope new = tok_scope example_old_token)"
proof -
  note ok = refresh_rotating_example
  have d: "dict_get refresh_body_rotating ''expires_in'' = JInt 3600"
    "dict_has refresh_body_rotating ''refresh_token''"
    "dict_get refresh_body_rotating ''refresh_token'' = JStr ''refresh-2''"
    "dict_get refresh_body_rotating ''access_token'' = JStr ''new-token''"
    "dict_get_default refresh_body_rotating ''token_type'' (JStr ''Bearer'') = JStr ''Bearer''"
    by (simp_all add: dict_has_def dict_get_def dict_get_default_def refresh_body_rotating_def)
  have b: "refresh_body_rotating \<noteq> []" by (simp add: refresh_body_rotating_def)
  have e: "rf_int_of_str (example_refresh_env refresh_body_rotating) = (\<lambda>s. None)"
    "rf_now (example_refresh_env refresh_body_rotating) = example_T"
    by (simp_all add: example_refresh_env_def)
  have cid: "client_id example_client = ''demo''" by (simp add: example_client_def)
  from C9_refresh_overwrites [OF ok] obtain client old nd new where
    c: "get_client_or_404 (clients example_refresh_db) ''demo'' = Inr client"
    and g: "get_token (tokens example_refresh_db) 7 (client_id client) = Inr old"
    and r: "refresh_access_token (rf_http (example_refresh_env refresh_body_rotating)) client
              (tok_refresh_token old) = JObj nd"
    and gn: "get_token (tokens (example_refresh_db\<lparr>tokens :=
        [example_old_token\<lparr>tok_access_token := JStr ''new-token'', tok_token_type := JStr ''Bearer'',
                            tok_expires_at := Some (example_T + timedelta_seconds 3600),
                            tok_refresh_token := JStr ''refresh-2''\<rparr>]\<rparr>)) 7 (client_id client) = Inr new"
    and f1: "tok_access_token new = to_python (dict_get nd ''access_token'')"
    and f2: "tok_token_type new = to_python (dict_get_default nd ''token_type'' (JStr ''Bearer''))"
    and f3: "truthy (dict_get nd ''expires_in'') \<longrightarrow>
              (\<exists>n. py_int (rf_int_of_str (example_refresh_env refresh_body_rotating))
                      (dict_get nd ''expires_in'') = Inr n \<and>
                   tok_expires_at new =
                     Some (rf_now (example_refresh_env refresh_body_rotating) + timedelta_seconds n))"
    and f4: "dict_has nd ''refresh_token'' \<longrightarrow> tok_refresh_token new = to_python (dict_get nd ''refresh_token'')"
    and f5: "tok_scope new = tok_scope old"
    by blast
  have cl: "client = example_client" using c refresh_example_common(1) by simp
  have ol: "old = example_old_token" using g refresh_example_common(2) unfolding cl by simp
  have nd: "nd = refresh_body_rotating"
    using r refresh_example_common(4) [OF b] unfolding cl by simp
  have x: "tok_expires_at new = Some (example_T + timedelta_seconds 3600)"
    using f3 unfolding nd d e by (simp add: py_int_def)
  have "get_token (tokens (example_refresh_db\<lparr>tokens :=
        [example_old_token\<lparr>tok_access_token := JStr ''new-token'', tok_token_type := JStr ''Bearer'',
                            tok_expires_at := Some (example_T + timedelta_seconds 3600),
                            tok_refresh_token := JStr ''refresh-2''\<rparr>]\<rparr>)) 7 ''demo'' = Inr new \<and>
          tok_access_token new = JStr ''new-token'' \<and>
          tok_token_type new = JStr ''Bearer'' \<and>
          tok_expires_at new = Some (example_T + timedelta_seconds 3600) \<and>
          tok_refresh_token new = JStr ''refresh-2'' \<and>
          tok_scope new = tok_scope example_old_token"
    using gn f1 f2 x f4 f5 d(2) unfolding cl ol nd d(1,3,4,5) cid by (simp add: to_python_def)
  then show ?thesis using ok by blast
qed

subsection \<open>Flight scanner and project creation\<close>

lemma check_flight_directory_name:
  "check_flight_directory api now sid flight = Some m \<Longrightarrow> fi_flight_name m = flight"
  by (auto simp: check_flight_directory_def Let_def split: sum.splits if_splits)

lemma is_flight_dir_JObj:
  "is_flight_dir flight (JObj kvs) \<longleftrightarrow>
     dict_get kvs ''type'' = JStr ''dir'' \<and> truthy (dict_get kvs ''name'') \<and>
     py_str (dict_get kvs ''name'') = flight"
  by (simp add: is_flight_dir_def)

lemma is_jpg_file_JObj:
  "is_jpg_file (JObj kvs) \<longleftrightarrow>
     dict_get kvs ''type'' = JStr ''file'' \<and>
     (case dict_get kvs ''name'' of JStr name \<Rightarrow> jpg_name name | _ \<Rightarrow> False)"
  by (simp add: is_jpg_file_def)

lemma scan_items_no_match:
  assumes "check_flight_directory api now sid flight = None"
  shows "filter (\<lambda>m. fi_flight_name m = flight) (scan_items api now sid items) = []"
proof (induction items)
  case Nil
  show ?case by simp
next
  case (Cons item items)
  show ?case
  proof (cases item)
    case (JObj kvs)
    show ?thesis
      using Cons assms check_flight_directory_name [of api now sid "py_str (dict_get kvs ''name'')"]
      by (auto simp: JObj Let_def split: option.splits)
  qed simp_all
qed

lemma filter_scan_items:
  assumes "list_all is_object items"
  shows "filter (\<lambda>m. fi_flight_name m = flight) (scan_items api now sid items) =
     concat (map (\<lambda>i. case check_flight_directory api now sid flight of None \<Rightarrow> [] | Some m \<Rightarrow> [m])
               (filter (is_flight_dir flight) items))"
  using assms
proof (induction items)
  case Nil
  show ?case by simp
next
  case (Cons item items)
  from Cons.prems obtain kvs where k: "item = JObj kvs"
    by (cases item) (simp_all add: is_object_def)
  from Cons have ih: "filter (\<lambda>m. fi_flight_name m = flight) (scan_items api now sid items) =
     concat (map (\<lambda>i. case check_flight_directory api now sid flight of None \<Rightarrow> [] | Some m \<Rightarrow> [m])
               (filter (is_flight_dir flight) items))"
    by simp
  show ?case
  proof (cases "is_flight_dir flight item")
    case True
    then show ?thesis
      using ih check_flight_directory_name [of api now sid flight]
      by (auto simp: k is_flight_dir_JObj Let_def split: option.splits)
  next
    case False
    then show ?thesis
      using ih check_flight_directory_name [of api now sid "py_str (dict_get kvs ''name'')"]
      by (auto simp: k is_flight_dir_JObj Let_def split: option.splits)
  qed
qed

lemma has_images_dir_objects:
  "list_all is_object items \<Longrightarrow> has_images_dir items = Inr (list_ex is_images_entry items)"
proof (induction items)
  case Nil
  show ?case by simp
next
  case (Cons item items)
  then show ?case
    by (cases item) (simp_all add: is_object_def is_images_entry_def)
qed

lemma has_images_dir_none:
  "\<not> list_ex is_images_entry items \<Longrightarrow> has_images_dir items \<noteq> Inr True"
proof (induction items)
  case Nil
  show ?case by simp
next
  case (Cons item items)
  then show ?case
    by (cases item) (simp_all add: is_images_entry_def)
qed

lemma count_jpg_string_names:
  "list_all has_string_name items \<Longrightarrow> count_jpg items = Inr (length (filter is_jpg_file items))"
proof (induction items)
  case Nil
  show ?case by simp
next
  case (Cons item items)
  from Cons.prems obtain kvs where k: "item = JObj kvs"
    by (cases item) (simp_all add: has_string_name_def)
  from Cons have ih: "count_jpg items = Inr (length (filter is_jpg_file items))" by simp
  show ?case
  proof (cases "dict_get kvs ''type'' = JStr ''file''")
    case False
    then show ?thesis using ih by (simp add: k is_jpg_file_JObj)
  next
    case True
    show ?thesis
    proof (cases "map_of kvs ''name''")
      case None
      then have "\<not> is_jpg_file item"
        by (simp add: k is_jpg_file_JObj dict_get_def dict_get_default_def)
      then show ?thesis
        using True None ih
        by (simp add: k dict_get_default_def jpg_name_def py_lower_def endswith_def)
    next
      case (Some v)
      with Cons.prems True obtain name where n: "v = JStr name"
        by (cases v) (simp_all add: k has_string_name_def dict_has_def dict_get_def
            dict_get_default_def is_str_def)
      show ?thesis
        using True Some ih
        by (simp add: k n is_jpg_file_JObj dict_get_def dict_get_default_def)
    qed
  qed
qed

text \<open>
  C2, as stated, fails: the images directory of \<^verbatim>\<open>flightA\<close> lists \<^verbatim>\<open>a.JPG\<close> and a second file
  entry whose name is \<^verbatim>\<open>null\<close>. The code listing has the subdirectory \<^verbatim>\<open>images\<close> and
  \<^verbatim>\<open>a.JPG\<close> is the only file with a matching name, but \<^verbatim>\<open>.lower()\<close> raises on the \<^verbatim>\<open>null\<close>
  name, the exception is caught and logged, and the scan reports no match at all.
\<close>

theorem C2_null_name_counterexample:
  "files_listing example_api_null ''v3/files/ops/ptdatax.project.P1/'' = Inr example_root \<and>
   filter (is_flight_dir ''flightA'') example_root = [dir_item ''flightA''] \<and>
   files_listing example_api_null ''v3/files/ops/ptdatax.project.P1/flightA/code/'' =
     Inr [dir_item ''images'', dir_item ''logs''] \<and>
   list_ex is_images_entry [dir_item ''images'', dir_item ''logs''] \<and>
   files_listing example_api_null ''v3/files/ops/ptdatax.project.P1/flightA/code/images/'' =
     Inr example_images_null \<and>
   filter is_jpg_file example_images_null = [plain_file ''a.JPG''] \<and>
   count_jpg example_images_null = Inl AttributeError \<and>
   check_flight_directory example_api_null example_T ''ptdatax.project.P1'' ''flightA'' = None \<and>
   scan_system_for_flights example_api_null example_T ''ptdatax.project.P1'' = []"
proof -
  have l: "files_listing example_api_null ''v3/files/ops/ptdatax.project.P1/'' = Inr example_root"
    "files_listing example_api_null ''v3/files/ops/ptdatax.project.P1/flightA/code/'' =
       Inr [dir_item ''images'', dir_item ''logs'']"
    "files_listing example_api_null ''v3/files/ops/ptdatax.project.P1/flightA/code/images/'' =
       Inr example_images_null"
    "files_listing example_api_null ''v3/files/ops/ptdatax.project.P1/flightB/code/'' =
       Inr [dir_item ''src'']"
    by (simp_all add: example_api_null_def example_files_def)
  have f: "filter (is_flight_dir ''flightA'') example_root = [dir_item ''flightA'']"
    by (simp add: example_root_def is_flight_dir_def dir_item_def plain_file_def dict_get_def
        dict_get_default_def py_str_def)
  have i: "list_ex is_images_entry [dir_item ''images'', dir_item ''logs'']"
    by (simp add: is_images_entry_def is_images_dir_def dir_item_def dict_get_def dict_get_default_def)
  have j: "filter is_jpg_file example_images_null = [plain_file ''a.JPG'']"
    by (simp add: example_images_null_def is_jpg_file_def plain_file_def dict_get_def
        dict_get_default_def jpg_name_def py_lower_def lower_char_def endswith_def)
  have c: "count_jpg example_images_null = Inl AttributeError"
    by (simp add: example_images_null_def plain_file_def dict_get_def dict_get_default_def)
  have a: "check_flight_directory example_api_null example_T ''ptdatax.project.P1'' ''flightA'' = None"
    using l(2,3)
    by (simp add: check_flight_directory_def Let_def c dir_item_def is_images_dir_def dict_get_def
        dict_get_default_def)
  have b: "check_flight_directory example_api_null example_T ''ptdatax.project.P1'' ''flightB'' = None"
    using l(4)
    by (simp add: check_flight_directory_def Let_def dir_item_def is_images_dir_def dict_get_def
        dict_get_default_def)
  have s: "scan_system_for_flights example_api_null example_T ''ptdatax.project.P1'' = []"
    using l(1)
    by (simp add: scan_system_for_flights_def example_root_def dir_item_def plain_file_def
        dict_get_def dict_get_default_def py_str_def a b)
  show ?thesis using l(1,2,3) f i j c a s by simp
qed

text \<open>
  C2, amended. In a scan of a system: when every entry of the root listing is an object and
  the listing names the flight directory once, every entry of the listing of
  \<^verbatim>\<open>{flight}/code\<close> is an object and one of them is a subdirectory \<^verbatim>\<open>images\<close>, and in the
  listing of \<^verbatim>\<open>{flight}/code/images\<close> every entry is an object, every file entry that has
  a name has a string for it, and exactly one entry is a file whose name ends,
  case-insensitively, in \<^verbatim>\<open>.jpg\<close> or \<^verbatim>\<open>.jpeg\<close>, the scan reports exactly one match for the
  flight, with image count 1. When the listing of \<^verbatim>\<open>{flight}/code\<close> has no subdirectory
  \<^verbatim>\<open>images\<close>, the scan reports no match for the flight, whatever the listings hold.
\<close>

theorem C2_scan_matches:
  assumes root: "files_listing api (''v3/files/ops/'' @ sid @ ''/'') = Inr root_listing"
    and code: "files_listing api (''v3/files/ops/'' @ sid @ ''/'' @ flight @ ''/code/'') = Inr code_listing"
  shows "(list_all is_object root_listing \<and>
          filter (is_flight_dir flight) root_listing = [entry] \<and>
          list_all is_object code_listing \<and>
          list_ex is_images_entry code_listing \<and>
          files_listing api (''v3/files/ops/'' @ sid @ ''/'' @ flight @ ''/code/images/'') = Inr images_listing \<and>
          list_all has_string_name images_listing \<and>
          length (filter is_jpg_file images_listing) = 1 \<longrightarrow>
            check_flight_directory api now sid flight =
              Some \<lparr>fi_flight_name = flight, fi_system_id = sid,
                    fi_images_path = flight @ ''/code/images'', fi_image_count = 1,
                    fi_discovered_at = now\<rparr> \<and>
            filter (\<lambda>m. fi_flight_name m = flight) (scan_system_for_flights api now sid) =
              [\<lparr>fi_flight_name = flight, fi_system_id = sid,
                fi_images_path = flight @ ''/code/images'', fi_image_count = 1,
                fi_discovered_at = now\<rparr>]) \<and>
         (\<not> list_ex is_images_entry code_listing \<longrightarrow>
            check_flight_directory api now sid flight = None \<and>
            filter (\<lambda>m. fi_flight_name m = flight) (scan_system_for_flights api now sid) = [])"
proof (intro conjI impI)
  assume h: "list_all is_object root_listing \<and>
          filter (is_flight_dir flight) root_listing = [entry] \<and>
          list_all is_object code_listing \<and>
          list_ex is_images_entry code_listing \<and>
          files_listing api (''v3/files/ops/'' @ sid @ ''/'' @ flight @ ''/code/images/'') = Inr images_listing \<and>
          list_all has_string_name images_listing \<and>
          length (filter is_jpg_file images_listing) = 1"
  have hi: "has_images_dir code_listing = Inr True"
    using h has_images_dir_objects [of code_listing] by simp
  have cj: "count_jpg images_listing = Inr 1"
    using h count_jpg_string_names [of images_listing] by simp
  have im: "files_listing api (''v3/files/ops/'' @ sid @ ''/'' @ flight @ ''/code/images/'') = Inr images_listing"
    using h by simp
  show c: "check_flight_directory api now sid flight =
              Some \<lparr>fi_flight_name = flight, fi_system_id = sid,
                    fi_images_path = flight @ ''/code/images'', fi_image_count = 1,
                    fi_discovered_at = now\<rparr>"
    using code im by (simp add: check_flight_directory_def Let_def hi cj)
  have "filter (\<lambda>m. fi_flight_name m = flight) (scan_items api now sid root_listing) =
     concat (map (\<lambda>i. case check_flight_directory api now sid flight of None \<Rightarrow> [] | Some m \<Rightarrow> [m])
               (filter (is_flight_dir flight) root_listing))"
    using h by (intro filter_scan_items) simp
  then show "filter (\<lambda>m. fi_flight_name m = flight) (scan_system_for_flights api now sid) =
              [\<lparr>fi_flight_name = flight, fi_system_id = sid,
                fi_images_path = flight @ ''/code/images'', fi_image_count = 1,
                fi_discovered_at = now\<rparr>]"
    using root h c by (simp add: scan_system_for_flights_def)
next
  assume n: "\<not> list_ex is_images_entry code_listing"
  from has_images_dir_none [OF n]
  show c: "check_flight_directory api now sid flight = None"
    using code by (auto simp: check_flight_directory_def Let_def split: sum.splits)
  show "filter (\<lambda>m. fi_flight_name m = flight) (scan_system_for_flights api now sid) = []"
    using root scan_items_no_match [OF c] by (simp add: scan_system_for_flights_def)
qed

lemma is_jpg_examples:
  "is_jpg_file (plain_file ''a.JPG'')" "\<not> is_jpg_file (plain_file ''notes.txt'')"
  "\<not> is_jpg_file (dir_item ''thumbs.jpg'')"
  by (simp_all add: is_jpg_file_def plain_file_def dir_item_def dict_get_def dict_get_default_def
      jpg_name_def py_lower_def lower_char_def endswith_def)

lemma example_listings:
  "files_listing example_api (''v3/files/ops/'' @ ''ptdatax.project.P1'' @ ''/'') = Inr example_root"
  "files_listing example_api (''v3/files/ops/'' @ ''ptdatax.project.P1'' @ ''/'' @ ''flightA'' @ ''/code/'') =
     Inr [dir_item ''images'', dir_item ''logs'']"
  "files_listing example_api (''v3/files/ops/'' @ ''ptdatax.project.P1'' @ ''/'' @ ''flightA'' @ ''/code/images/'') =
     Inr example_images"
  "files_listing example_api (''v3/files/ops/'' @ ''ptdatax.project.P1'' @ ''/'' @ ''flightB'' @ ''/code/'') =
     Inr [dir_item ''src'']"
  by (simp_all add: example_api_def example_files_def)

theorem C2_scan_matches_witness:
  "files_listing example_api (''v3/files/ops/'' @ ''ptdatax.project.P1'' @ ''/'') = Inr example_root \<and>
   filter (is_flight_dir ''flightA'') example_root = [dir_item ''flightA''] \<and>
   list_ex is_images_entry [dir_item ''images'', dir_item ''logs''] \<and>
   list_all has_string_name example_images \<and>
   filter is_jpg_file example_images = [plain_file ''a.JPG''] \<and>
   filter (\<lambda>m. fi_flight_name m = ''flightA'') (scan_system_for_flights example_api example_T ''ptdatax.project.P1'') =
     [example_flight] \<and>
   fi_image_count example_flight = 1 \<and>
   list_ex is_images_entry [dir_item ''src''] = False \<and>
   filter (\<lambda>m. fi_flight_name m = ''flightB'') (scan_system_for_flights example_api example_T ''ptdatax.project.P1'') = []"
proof -
  have ro: "list_all is_object example_root"
    by (simp add: example_root_def is_object_def dir_item_def plain_file_def)
  have fa: "filter (is_flight_dir ''flightA'') example_root = [dir_item ''flightA'']"
    by (simp add: example_root_def is_flight_dir_def dir_item_def plain_file_def dict_get_def
        dict_get_default_def py_str_def)
  have co: "list_all is_object [dir_item ''images'', dir_item ''logs'']"
    by (simp add: is_object_def dir_item_def)
  have ia: "list_ex is_images_entry [dir_item ''images'', dir_item ''logs'']"
    and ib: "\<not> list_ex is_images_entry [dir_item ''src'']"
    by (simp_all add: is_images_entry_def is_images_dir_def dir_item_def dict_get_def
        dict_get_default_def)
  have sn: "list_all has_string_name example_images"
    by (simp add: example_images_def has_string_name_def plain_file_def dir_item_def dict_get_def
        dict_get_default_def dict_has_def is_str_def)
  have j: "filter is_jpg_file example_images = [plain_file ''a.JPG'']"
    by (simp add: example_images_def is_jpg_examples)
  from C2_scan_matches [OF example_listings(1) example_listings(2),
      of "dir_item ''flightA''" example_images example_T] ro fa co ia example_listings(3) sn j
  have 1: "filter (\<lambda>m. fi_flight_name m = ''flightA'') (scan_system_for_flights example_api example_T ''ptdatax.project.P1'') =
     [example_flight]"
    by (simp add: example_flight_def)
  from C2_scan_matches [OF example_listings(1) example_listings(4),
      of "dir_item ''flightB''" example_images example_T] ib
  have 2: "filter (\<lambda>m. fi_flight_name m = ''flightB'') (scan_system_for_flights example_api example_T ''ptdatax.project.P1'') = []"
    by simp
  have c: "fi_image_count example_flight = 1" by (simp add: example_flight_def)
  show ?thesis using example_listings(1) fa ia sn j 1 c 2 ib by simp
qed

lemma contains_map:
  "contains hay needle \<Longrightarrow> contains (map f hay) (map f needle)"
proof (induction hay)
  case Nil
  then show ?case by simp
next
  case (Cons h hs)
  from Cons.prems have "prefix needle (h # hs) \<or> contains hs needle" by simp
  then show ?case
  proof
    assume "prefix needle (h # hs)"
    then have "prefix (map f needle) (map f (h # hs))" by (rule map_mono_prefix)
    then show ?thesis by simp
  next
    assume "contains hs needle"
    then have "contains (map f hs) (map f needle)" by (rule Cons.IH)
    then show ?thesis by simp
  qed
qed

lemma contains_icontains: "contains hay needle \<Longrightarrow> icontains hay needle"
  by (simp add: icontains_def py_lower_def contains_map)

lemma find_existing_project_Some:
  "(\<exists>p \<in> set projects. proj_owner p = u \<and>
        icontains (proj_tags p) (fi_system_id fi @ '','' @ fi_flight_name fi)) \<Longrightarrow>
   find_existing_project u fi projects \<noteq> None"
proof -
  assume "\<exists>p \<in> set projects. proj_owner p = u \<and>
        icontains (proj_tags p) (fi_system_id fi @ '','' @ fi_flight_name fi)"
  then have "filter (\<lambda>p. proj_owner p = u \<and>
        icontains (proj_tags p) (fi_system_id fi @ '','' @ fi_flight_name fi)) projects \<noteq> []"
    by (simp add: filter_empty_conv)
  then show ?thesis
    by (simp add: find_existing_project_def Let_def split: list.splits)
qed

lemma existing_project_append:
  "list_ex (\<lambda>p. proj_owner p = u \<and> icontains (proj_tags p) tag) projects \<Longrightarrow>
   list_ex (\<lambda>p. proj_owner p = u \<and> icontains (proj_tags p) tag) (projects @ added)"
  by (auto simp: list_ex_iff)

lemma create_projects_skips:
  assumes "list_ex (\<lambda>p. proj_owner p = u \<and> icontains (proj_tags p) (sid @ '','' @ flight)) projects"
  shows "\<exists>new. snd (create_projects u can_create flights projects) = projects @ new \<and>
           (\<forall>p \<in> set new. proj_tags p \<noteq> ''tapis,flight,'' @ sid @ '','' @ flight) \<and>
           (\<forall>c \<in> set (fst (create_projects u can_create flights projects)).
              \<not> (cp_system_id c = sid \<and> cp_flight_name c = flight)) \<and>
           length new = length (fst (create_projects u can_create flights projects))"
  using assms
proof (induction flights arbitrary: projects)
  case Nil
  show ?case by simp
next
  case (Cons fi rest)
  from Cons.IH [OF Cons.prems] obtain new0 where
    n0: "snd (create_projects u can_create rest projects) = projects @ new0"
      "\<forall>p \<in> set new0. proj_tags p \<noteq> ''tapis,flight,'' @ sid @ '','' @ flight"
      "\<forall>c \<in> set (fst (create_projects u can_create rest projects)).
              \<not> (cp_system_id c = sid \<and> cp_flight_name c = flight)"
      "length new0 = length (fst (create_projects u can_create rest projects))"
    by blast
  show ?case
  proof (cases "find_existing_project u fi projects")
    case (Some existing)
    then show ?thesis using n0 by auto
  next
    case None
    have diff: "fi_system_id fi @ '','' @ fi_flight_name fi \<noteq> sid @ '','' @ flight"
    proof
      assume e: "fi_system_id fi @ '','' @ fi_flight_name fi = sid @ '','' @ flight"
      have "\<exists>p \<in> set projects. proj_owner p = u \<and>
              icontains (proj_tags p) (fi_system_id fi @ '','' @ fi_flight_name fi)"
        using Cons.prems unfolding e by (simp add: list_ex_iff)
      from find_existing_project_Some [OF this] None show False by simp
    qed
    show ?thesis
    proof (cases "create_project_from_flight u can_create fi projects")
      case n: None
      then show ?thesis using None n0 by auto
    next
      case (Some project)
      then have tags: "proj_tags project = ''tapis,flight,'' @ fi_system_id fi @ '','' @ fi_flight_name fi"
        by (auto simp: create_project_from_flight_def split: if_splits)
      from Cons.IH [OF existing_project_append [OF Cons.prems, of "[project]"]] obtain new1 where
        n1: "snd (create_projects u can_create rest (projects @ [project])) = (projects @ [project]) @ new1"
          "\<forall>p \<in> set new1. proj_tags p \<noteq> ''tapis,flight,'' @ sid @ '','' @ flight"
          "\<forall>c \<in> set (fst (create_projects u can_create rest (projects @ [project]))).
              \<not> (cp_system_id c = sid \<and> cp_flight_name c = flight)"
          "length new1 = length (fst (create_projects u can_create rest (projects @ [project])))"
        by blast
      have t: "proj_tags project \<noteq> ''tapis,flight,'' @ sid @ '','' @ flight"
        using diff tags by simp
      have c: "\<not> (fi_system_id fi = sid \<and> fi_flight_name fi = flight)"
        using diff by auto
      show ?thesis
        using None Some n1 t c
        by (intro exI [of _ "project # new1"]) (auto split: prod.splits)
    qed
  qed
qed

text \<open>
  C3. When the owner already has a project whose tag string contains
  \<^verbatim>\<open>{system_id},{flight_name}\<close> (as it stands, or up to letter case: the lookup is a
  case-insensitive substring search), a discovery run creates no project for that pair:
  the flight is skipped in the loop, whatever other flights the run holds; no entry of
  \<^verbatim>\<open>created_projects\<close> names the pair, and no project added to the table carries the
  pair's tag string. The same holds for the results of the whole
  \<^verbatim>\<open>discover_and_create_projects\<close>.
\<close>

theorem C3_no_duplicate_project:
  assumes ex: "\<exists>p \<in> set projects. proj_owner p = u \<and>
                 (contains (proj_tags p) (sid @ '','' @ flight) \<or>
                  icontains (proj_tags p) (sid @ '','' @ flight))"
  shows "(\<forall>fi rest. fi_system_id fi = sid \<and> fi_flight_name fi = flight \<longrightarrow>
            find_existing_project u fi projects \<noteq> None \<and>
            create_projects u can_create (fi # rest) projects =
              create_projects u can_create rest projects) \<and>
         (\<exists>new. snd (create_projects u can_create flights projects) = projects @ new \<and>
            (\<forall>p \<in> set new. proj_tags p \<noteq> ''tapis,flight,'' @ sid @ '','' @ flight) \<and>
            (\<forall>c \<in> set (fst (create_projects u can_create flights projects)).
               \<not> (cp_system_id c = sid \<and> cp_flight_name c = flight))) \<and>
         (\<forall>res projects'.
            discover_and_create_projects api now can_create u client toks projects = Inr (res, projects') \<longrightarrow>
              (\<forall>c \<in> set (created_projects res). \<not> (cp_system_id c = sid \<and> cp_flight_name c = flight)) \<and>
              (\<exists>new. projects' = projects @ new \<and> length new = projects_created res \<and>
                 (\<forall>p \<in> set new. proj_tags p \<noteq> ''tapis,flight,'' @ sid @ '','' @ flight)))"
proof -
  from ex have ex': "\<exists>p \<in> set projects. proj_owner p = u \<and> icontains (proj_tags p) (sid @ '','' @ flight)"
    using contains_icontains by blast
  then have le: "list_ex (\<lambda>p. proj_owner p = u \<and> icontains (proj_tags p) (sid @ '','' @ flight)) projects"
    by (simp add: list_ex_iff)
  have a: "find_existing_project u fi projects \<noteq> None \<and>
            create_projects u can_create (fi # rest) projects =
              create_projects u can_create rest projects"
    if "fi_system_id fi = sid \<and> fi_flight_name fi = flight" for fi rest
  proof -
    have "find_existing_project u fi projects \<noteq> None"
      using find_existing_project_Some [of projects u fi] ex' that by simp
    then show ?thesis by auto
  qed
  have b: "\<exists>new. snd (create_projects u can_create fs projects) = projects @ new \<and>
            (\<forall>p \<in> set new. proj_tags p \<noteq> ''tapis,flight,'' @ sid @ '','' @ flight) \<and>
            (\<forall>c \<in> set (fst (create_projects u can_create fs projects)).
               \<not> (cp_system_id c = sid \<and> cp_flight_name c = flight)) \<and>
            length new = length (fst (create_projects u can_create fs projects))" for fs
    by (rule create_projects_skips [OF le])
  have c: "(\<forall>c \<in> set (created_projects res). \<not> (cp_system_id c = sid \<and> cp_flight_name c = flight)) \<and>
              (\<exists>new. projects' = projects @ new \<and> length new = projects_created res \<and>
                 (\<forall>p \<in> set new. proj_tags p \<noteq> ''tapis,flight,'' @ sid @ '','' @ flight))"
    if d: "discover_and_create_projects api now can_create u client toks projects = Inr (res, projects')"
    for res projects'
  proof -
    define fs where "fs = scan_systems api now (discover_project_systems api)"
    from d have
      r: "created_projects res = fst (create_projects u can_create fs projects)"
         "projects' = snd (create_projects u can_create fs projects)"
         "projects_created res = length (fst (create_projects u can_create fs projects))"
      unfolding fs_def
      by (auto simp: discover_and_create_projects_def Let_def split: sum.splits if_splits prod.splits)
    show ?thesis using b [of fs] unfolding r by metis
  qed
  show ?thesis using a b [of flights] c by blast
qed

lemma check_flightA:
  "check_flight_directory example_api example_T ''ptdatax.project.P1'' ''flightA'' = Some example_flight"
proof -
  have j: "count_jpg example_images = Inr 1"
    by (simp add: example_images_def plain_file_def dir_item_def dict_get_def dict_get_default_def
        jpg_name_def py_lower_def lower_char_def endswith_def)
  show ?thesis
    using example_listings(2,3)
    by (simp add: check_flight_directory_def Let_def j dir_item_def is_images_dir_def dict_get_def
        dict_get_default_def example_flight_def)
qed

lemma check_flightB:
  "check_flight_directory example_api example_T ''ptdatax.project.P1'' ''flightB'' = None"
  using example_listings(4)
  by (simp add: check_flight_directory_def Let_def dir_item_def is_images_dir_def dict_get_def
      dict_get_default_def)

lemma scan_example:
  "scan_system_for_flights example_api example_T ''ptdatax.project.P1'' = [example_flight]"
  using example_listings(1)
  by (simp add: scan_system_for_flights_def example_root_def dir_item_def plain_file_def
      dict_get_def dict_get_default_def py_str_def check_flightA check_flightB)

lemma example_project_tagged:
  "contains (proj_tags example_project) (''ptdatax.project.P1'' @ '','' @ ''flightA'')"
  by (simp add: example_project_def)

theorem C3_no_duplicate_project_witness:
  "proj_owner example_project = 7 \<and>
   contains (proj_tags example_project) (''ptdatax.project.P1'' @ '','' @ ''flightA'') \<and>
   scan_system_for_flights example_api example_T ''ptdatax.project.P1'' = [example_flight] \<and>
   create_projects 7 always_create [example_flight] [] = ([example_created], [example_project]) \<and>
   create_projects 7 always_create [example_flight] [example_project] = ([], [example_project])"
proof -
  have o: "proj_owner example_project = 7" by (simp add: example_project_def)
  have ex: "\<exists>p \<in> set [example_project]. proj_owner p = 7 \<and>
                 (contains (proj_tags p) (''ptdatax.project.P1'' @ '','' @ ''flightA'') \<or>
                  icontains (proj_tags p) (''ptdatax.project.P1'' @ '','' @ ''flightA''))"
    using o example_project_tagged by simp
  have f: "fi_system_id example_flight = ''ptdatax.project.P1'' \<and> fi_flight_name example_flight = ''flightA''"
    by (simp add: example_flight_def)
  from C3_no_duplicate_project [OF ex, of always_create] f
  have "create_projects 7 always_create (example_flight # []) [example_project] =
          create_projects 7 always_create [] [example_project]"
    by blast
  then have second: "create_projects 7 always_create [example_flight] [example_project] = ([], [example_project])"
    by simp
  have none: "find_existing_project 7 example_flight [] = None"
    by (simp add: find_existing_project_def)
  have mk: "create_project_from_flight 7 always_create example_flight [] = Some example_project"
    by (simp add: create_project_from_flight_def always_create_def next_project_id_def
        example_flight_def example_project_def)
  have first: "create_projects 7 always_create [example_flight] [] = ([example_created], [example_project])"
    by (simp add: none mk) (simp add: example_created_def example_project_def example_flight_def)
  show ?thesis using o example_project_tagged scan_example first second by simp
qed

end
